theory Spec2Isabelle
  imports Main "HOL-Library.Sublist"
begin

section \<open>The YouTube downloader (youtube\_downloader\_PYFFMPEG.py)\<close>

text \<open>
  The module keeps two globals, \<open>spinner_running\<close> and \<open>spinner_thread\<close>, writes to the
  terminal with \<open>print\<close>, and calls one external service, \<open>yt_dlp.YoutubeDL.download\<close>,
  which calls back into the module through the registered hooks. The embedding passes
  the globals, the terminal and a log of the service invocations as an explicit state.

  Python strings are modelled as \<open>string\<close>; a character outside ASCII is written as the
  bytes of its UTF-8 encoding.
\<close>

subsection \<open>Characters and escape sequences of the source's literals\<close>

definition NL :: string where "NL = [CHR 0x0A]"
definition CR :: string where "CR = [CHR 0x0D]"
definition ESC :: string where "ESC = [CHR 0x1B]"
definition QUOTE :: string where "QUOTE = [CHR 0x27]"

definition HOURGLASS :: string where "HOURGLASS = [CHR 0xE2, CHR 0x8F, CHR 0xB3]"
definition CHECK_BOX :: string where "CHECK_BOX = [CHR 0xE2, CHR 0x9C, CHR 0x85]"
definition CROSS :: string where "CROSS = [CHR 0xE2, CHR 0x9D, CHR 0x8C]"
definition WARNING :: string where
  "WARNING = [CHR 0xE2, CHR 0x9A, CHR 0xA0, CHR 0xEF, CHR 0xB8, CHR 0x8F]"
definition CHECK_MARK :: string where "CHECK_MARK = [CHR 0xE2, CHR 0x9C, CHR 0x94]"
definition ELLIPSIS :: string where "ELLIPSIS = [CHR 0xE2, CHR 0x80, CHR 0xA6]"
definition a_acute :: string where "a_acute = [CHR 0xC3, CHR 0xA1]"
definition i_acute :: string where "i_acute = [CHR 0xC3, CHR 0xAD]"
definition a_tilde :: string where "a_tilde = [CHR 0xC3, CHR 0xA3]"
definition e_circ :: string where "e_circ = [CHR 0xC3, CHR 0xAA]"
definition o_acute :: string where "o_acute = [CHR 0xC3, CHR 0xB3]"

definition C_CYAN :: string where "C_CYAN = ESC @ ''[1;36m''"
definition C_GREEN :: string where "C_GREEN = ESC @ ''[1;32m''"
definition C_RESET :: string where "C_RESET = ESC @ ''[0m''"

subsection \<open>Exceptions\<close>

text \<open>
  The \<open>except\<close> clauses of the module tell three kinds of exception apart:
  \<open>yt_dlp.utils.DownloadError\<close>, any other subclass of \<open>Exception\<close> (a \<open>KeyError\<close> of a
  hook among them), and what is not an \<open>Exception\<close> at all (\<open>KeyboardInterrupt\<close>,
  \<open>SystemExit\<close>). \<open>error_cause\<close> is what went wrong inside the service; it travels with
  the exception but no handler of the module reads it.
\<close>

datatype exn_class = DownloadError | KeyError | OtherException | NotAnException

datatype error_cause =
  FormatUnavailable | NetworkFailure | PermissionDenied | InvalidURL | EngineCrash
  | MissingKey | Interrupted

record exn =
  exn_class :: exn_class
  cause :: error_cause
  message :: string

fun isinstance_DownloadError :: "exn \<Rightarrow> bool" where
  "isinstance_DownloadError e = (exn_class e = DownloadError)"

fun isinstance_Exception :: "exn \<Rightarrow> bool" where
  "isinstance_Exception e = (exn_class e \<noteq> NotAnException)"

text \<open>\<open>d['status']\<close> on a dictionary without that key.\<close>

definition KeyError_status :: exn where
  "KeyError_status =
     \<lparr>exn_class = KeyError, cause = MissingKey, message = QUOTE @ ''status'' @ QUOTE\<rparr>"

subsection \<open>The options handed to the service\<close>

datatype hook = print_progress_hook | post_hook_spinner_hook

record ydl_opts =
  format :: string
  outtmpl :: string
  merge_output_format :: "string option"
  ffmpeg_location :: "string option"
  concurrent_fragment_downloads :: "nat option"
  noprogress :: bool
  progress_hooks :: "hook list"
  postprocessors :: "(string \<times> string) list list"
  postprocessor_hooks :: "hook list"
  postprocessor_args :: "string list"

text \<open>\<open>os.path.join\<close> of two components (POSIX).\<close>

definition os_path_join :: "string \<Rightarrow> string \<Rightarrow> string" where
  "os_path_join a b =
     (if b \<noteq> [] \<and> hd b = CHR ''/'' then b
      else if a = [] \<or> last a = CHR ''/'' then a @ b
      else a @ ''/'' @ b)"

subsection \<open>The program state\<close>

text \<open>
  \<open>threads\<close> are the renderer threads that were started and have not terminated;
  \<open>thread_count\<close> counts the \<open>Thread\<close> objects created so far and names the next one.
  \<open>stdout\<close> holds what the main thread printed, one entry per \<open>print\<close> call with its
  line end; the frames the renderer thread draws depend on timing and are left out.
\<close>

record state =
  spinner_running :: bool
  spinner_thread :: "nat option"
  threads :: "nat list"
  thread_count :: nat
  stdout :: "string list"
  service_calls :: "ydl_opts list"

definition init_state :: state where
  "init_state =
     \<lparr>spinner_running = False, spinner_thread = None, threads = [], thread_count = 0,
      stdout = [], service_calls = []\<rparr>"

definition print_line :: "string \<Rightarrow> state \<Rightarrow> state" where
  "print_line x s = s\<lparr>stdout := stdout s @ [x @ NL]\<rparr>"

definition print_noend :: "string \<Rightarrow> state \<Rightarrow> state" where
  "print_noend x s = s\<lparr>stdout := stdout s @ [x]\<rparr>"

subsection \<open>The spinner\<close>

definition start_spinner :: "state \<Rightarrow> state" where
  "start_spinner s =
     (if spinner_running s then s
      else s\<lparr>spinner_running := True,
             spinner_thread := Some (thread_count s),
             threads := threads s @ [thread_count s],
             thread_count := Suc (thread_count s)\<rparr>)"

definition FESHOW_line :: string where
  "FESHOW_line = CR @ C_GREEN @ CHECK_MARK @ '' FESHOW!!!'' @ C_RESET @ replicate 16 CHR '' ''"

text \<open>
  \<open>join\<close> returns once the joined thread has left \<open>_spinner_loop\<close>, which it does because
  \<open>spinner_running\<close> is already \<open>False\<close>.
\<close>

definition stop_spinner :: "state \<Rightarrow> state" where
  "stop_spinner s =
     (if \<not> spinner_running s then s
      else
        let s1 = s\<lparr>spinner_running := False\<rparr>;
            s2 = (case spinner_thread s1 of
                    None \<Rightarrow> s1
                  | Some t \<Rightarrow> s1\<lparr>threads := removeAll t (threads s1)\<rparr>)
        in print_line FESHOW_line s2)"

text \<open>
  The states the two operations can produce keep this relation between the flag and
  the live renderer threads.
\<close>

definition coordinator_ok :: "state \<Rightarrow> bool" where
  "coordinator_ok s =
     (if spinner_running s
      then (case spinner_thread s of None \<Rightarrow> False | Some t \<Rightarrow> threads s = [t])
      else threads s = [])"

subsection \<open>The hooks\<close>

type_synonym dict = "string \<rightharpoonup> string"

definition dict_get :: "dict \<Rightarrow> string \<Rightarrow> string \<Rightarrow> string" where
  "dict_get d k dflt = (case d k of None \<Rightarrow> dflt | Some v \<Rightarrow> v)"

text \<open>
  A call that can raise returns the exception, if any, beside the state it left
  behind.
\<close>

definition print_progress :: "dict \<Rightarrow> state \<Rightarrow> exn option \<times> state" where
  "print_progress d s =
     (case d ''status'' of
        None \<Rightarrow> (Some KeyError_status, s)
      | Some st \<Rightarrow>
          if st = ''downloading'' then
            let p = dict_get d ''_percent_str'' ''?%'';
                speed = dict_get d ''_speed_str'' ''? KiB/s'';
                eta = dict_get d ''_eta_str'' ''? s''
            in (None, print_noend (CR @ ''Baixando: '' @ p @ '' a '' @ speed @ '', ETA: '' @ eta) s)
          else if st = ''finished'' then
            (None, print_line (CR @ ''Download finalizado. Iniciando p'' @ o_acute
                               @ ''s-processamento'' @ ELLIPSIS @ replicate 7 CHR '' '') s)
          else (None, s))"

definition post_hook_spinner :: "dict \<Rightarrow> state \<Rightarrow> exn option \<times> state" where
  "post_hook_spinner d s =
     (case d ''status'' of
        None \<Rightarrow> (Some KeyError_status, s)
      | Some st \<Rightarrow>
          if st = ''started'' then (None, start_spinner s)
          else if st = ''finished'' then (None, stop_spinner s)
          else (None, s))"

subsection \<open>The extraction service\<close>

text \<open>
  \<open>with yt_dlp.YoutubeDL(ydl_opts) as ydl: ydl.download([url])\<close> is the one external
  call. What the service does is not under the module's control, so it is a parameter:
  for the \<open>n\<close>-th invocation since the program started, with the given options and URL,
  it reports a sequence of events to the registered hooks and then returns (\<open>None\<close>) or
  raises. A progress event goes to the hooks registered under \<open>progress_hooks\<close>, a
  postprocessor event to those under \<open>postprocessor_hooks\<close>. An exception raised by a
  hook ends the invocation and leaves it as that exception; the events after it are
  not delivered.
\<close>

datatype hook_event = ProgressEvent dict | PostprocessorEvent dict

type_synonym response = "hook_event list \<times> exn option"

type_synonym service = "nat \<Rightarrow> ydl_opts \<Rightarrow> string \<Rightarrow> response"

fun run_hook :: "hook \<Rightarrow> dict \<Rightarrow> state \<Rightarrow> exn option \<times> state" where
  "run_hook print_progress_hook d s = print_progress d s"
| "run_hook post_hook_spinner_hook d s = post_hook_spinner d s"

fun call_hooks :: "hook list \<Rightarrow> dict \<Rightarrow> state \<Rightarrow> exn option \<times> state" where
  "call_hooks [] d s = (None, s)"
| "call_hooks (h # hs) d s =
     (case run_hook h d s of
        (Some e, s') \<Rightarrow> (Some e, s')
      | (None, s') \<Rightarrow> call_hooks hs d s')"

fun deliver :: "hook list \<Rightarrow> hook list \<Rightarrow> hook_event list \<Rightarrow> state \<Rightarrow> exn option \<times> state" where
  "deliver prog post [] s = (None, s)"
| "deliver prog post (ProgressEvent d # evs) s =
     (case call_hooks prog d s of
        (Some e, s') \<Rightarrow> (Some e, s')
      | (None, s') \<Rightarrow> deliver prog post evs s')"
| "deliver prog post (PostprocessorEvent d # evs) s =
     (case call_hooks post d s of
        (Some e, s') \<Rightarrow> (Some e, s')
      | (None, s') \<Rightarrow> deliver prog post evs s')"

definition ydl_download :: "service \<Rightarrow> ydl_opts \<Rightarrow> string \<Rightarrow> state \<Rightarrow> exn option \<times> state" where
  "ydl_download svc opts url s =
     (let (evs, res) = svc (length (service_calls s)) opts url;
          s1 = s\<lparr>service_calls := service_calls s @ [opts]\<rparr>
      in case deliver (progress_hooks opts) (postprocessor_hooks opts) evs s1 of
           (Some e, s2) \<Rightarrow> (Some e, s2)
         | (None, s2) \<Rightarrow> (res, s2))"

subsection \<open>download\_audio\<close>

definition audio_opts :: "string \<Rightarrow> string option \<Rightarrow> ydl_opts" where
  "audio_opts output_path ffmpeg_path =
     \<lparr>format = ''bestaudio[ext=m4a]/bestaudio/best'',
      outtmpl = os_path_join output_path ''%(title)s.%(ext)s'',
      merge_output_format = None,
      ffmpeg_location = ffmpeg_path,
      concurrent_fragment_downloads = Some 4,
      noprogress = False,
      progress_hooks = [print_progress_hook],
      postprocessors = [[(''key'', ''FFmpegExtractAudio''), (''preferredcodec'', ''mp3''),
                         (''preferredquality'', ''192'')]],
      postprocessor_hooks = [post_hook_spinner_hook],
      postprocessor_args = []\<rparr>"

definition audio_start_line :: string where
  "audio_start_line = NL @ HOURGLASS @ '' Baixando '' @ a_acute @ ''udio...''"

definition audio_done_line :: string where
  "audio_done_line =
     CHECK_BOX @ '' Download de '' @ a_acute @ ''udio conclu'' @ i_acute @ ''do!''"

definition audio_error_line :: "exn \<Rightarrow> string" where
  "audio_error_line e =
     NL @ CROSS @ '' Erro durante o download de '' @ a_acute @ ''udio: '' @ message e"

text \<open>
  The result is the exception that leaves the function, if any, and the state at that
  moment. \<open>except Exception\<close> lets through what is not an \<open>Exception\<close>.
\<close>

definition download_audio ::
  "service \<Rightarrow> string \<Rightarrow> string \<Rightarrow> string option \<Rightarrow> state \<Rightarrow> exn option \<times> state" where
  "download_audio svc url output_path ffmpeg_path s =
     (let opts = audio_opts output_path ffmpeg_path;
          s1 = print_line audio_start_line s
      in case ydl_download svc opts url s1 of
           (None, s2) \<Rightarrow> (None, print_line audio_done_line s2)
         | (Some e, s2) \<Rightarrow>
             if isinstance_Exception e then (None, print_line (audio_error_line e) s2)
             else (Some e, s2))"

subsection \<open>download\_video\<close>

definition format_attempts :: "string list" where
  "format_attempts =
     [''bv*[vcodec^=avc1][ext=mp4]+ba[ext=m4a]/b[ext=mp4]/best'',
      ''bestvideo[ext=mp4]+bestaudio[ext=m4a]/best[ext=mp4]/best'',
      ''bestvideo+bestaudio/best'']"

definition video_opts :: "string \<Rightarrow> string option \<Rightarrow> string \<Rightarrow> ydl_opts" where
  "video_opts output_path ffmpeg_path fmt =
     \<lparr>format = fmt,
      outtmpl = os_path_join output_path ''%(title)s.%(ext)s'',
      merge_output_format = Some ''mp4'',
      ffmpeg_location = ffmpeg_path,
      concurrent_fragment_downloads = None,
      noprogress = False,
      progress_hooks = [print_progress_hook],
      postprocessors = [],
      postprocessor_hooks = [post_hook_spinner_hook],
      postprocessor_args = []\<rparr>"

definition video_try_line :: "string \<Rightarrow> string" where
  "video_try_line fmt = NL @ HOURGLASS @ '' Tentando formato: '' @ fmt"

definition video_done_line :: string where
  "video_done_line = CHECK_BOX @ '' Download de v'' @ i_acute @ ''deo conclu'' @ i_acute @ ''do!''"

definition video_failed_line :: "exn \<Rightarrow> string" where
  "video_failed_line err = WARNING @ '' Falhou: '' @ message err"

definition unexpected_line :: "exn \<Rightarrow> string" where
  "unexpected_line e = CROSS @ '' Erro inesperado: '' @ message e"

definition video_exhausted_line :: string where
  "video_exhausted_line =
     CROSS @ '' N'' @ a_tilde @ ''o foi poss'' @ i_acute @ ''vel baixar o v'' @ i_acute
     @ ''deo em nenhum formato suportado.''"

text \<open>
  The \<open>for fmt in format_attempts\<close> loop, over the formats still to try: \<open>return\<close> ends
  it, \<open>continue\<close> goes on with the rest, and the line after the loop is printed when
  the list runs out.
\<close>

fun download_video_loop ::
  "service \<Rightarrow> string \<Rightarrow> string \<Rightarrow> string option \<Rightarrow> string list \<Rightarrow> state
   \<Rightarrow> exn option \<times> state" where
  "download_video_loop svc url output_path ffmpeg_path [] s =
     (None, print_line video_exhausted_line s)"
| "download_video_loop svc url output_path ffmpeg_path (fmt # fmts) s =
     (let opts = video_opts output_path ffmpeg_path fmt;
          s1 = print_line (video_try_line fmt) s
      in case ydl_download svc opts url s1 of
           (None, s2) \<Rightarrow> (None, print_line video_done_line s2)
         | (Some e, s2) \<Rightarrow>
             if isinstance_DownloadError e then
               download_video_loop svc url output_path ffmpeg_path fmts
                 (print_line (video_failed_line e) s2)
             else if isinstance_Exception e then (None, print_line (unexpected_line e) s2)
             else (Some e, s2))"

definition download_video ::
  "service \<Rightarrow> string \<Rightarrow> string \<Rightarrow> string option \<Rightarrow> state \<Rightarrow> exn option \<times> state" where
  "download_video svc url output_path ffmpeg_path s =
     download_video_loop svc url output_path ffmpeg_path format_attempts s"

subsection \<open>download\_video\_protools\<close>

definition base_formats :: "string list" where
  "base_formats =
     [''bv*[vcodec^=avc1][ext=mp4][height<=1080]+ba[ext=m4a]'',
      ''bestvideo[ext=mp4]+bestaudio[ext=m4a]'',
      ''best'']"

definition protools_opts :: "string \<Rightarrow> string option \<Rightarrow> string \<Rightarrow> ydl_opts" where
  "protools_opts output_path ffmpeg_path fmt =
     \<lparr>format = fmt,
      outtmpl = os_path_join output_path ''%(title)s.%(ext)s'',
      merge_output_format = Some ''mp4'',
      ffmpeg_location = ffmpeg_path,
      concurrent_fragment_downloads = None,
      noprogress = False,
      progress_hooks = [print_progress_hook],
      postprocessors = [],
      postprocessor_hooks = [post_hook_spinner_hook],
      postprocessor_args =
        [''-vcodec'', ''libx264'', ''-preset'', ''fast'', ''-crf'', ''20'',
         ''-acodec'', ''aac'', ''-b:a'', ''320k'', ''-movflags'', ''+faststart'']\<rparr>"

definition protools_try_line :: "string \<Rightarrow> string" where
  "protools_try_line fmt = NL @ HOURGLASS @ '' Formato PT: '' @ fmt"

definition protools_done_line :: string where
  "protools_done_line = CHECK_BOX @ '' V'' @ i_acute @ ''deo PT conclu'' @ i_acute @ ''do!''"

definition protools_failed_line :: "string \<Rightarrow> exn \<Rightarrow> string" where
  "protools_failed_line fmt err =
     WARNING @ '' Falhou formato '' @ QUOTE @ fmt @ QUOTE @ '': '' @ message err"

definition protools_exhausted_line :: string where
  "protools_exhausted_line =
     CROSS @ '' N'' @ a_tilde @ ''o foi poss'' @ i_acute @ ''vel baixar/convert'' @ e_circ
     @ ''-lo para Pro Tools.''"

fun download_video_protools_loop ::
  "service \<Rightarrow> string \<Rightarrow> string \<Rightarrow> string option \<Rightarrow> string list \<Rightarrow> state
   \<Rightarrow> exn option \<times> state" where
  "download_video_protools_loop svc url output_path ffmpeg_path [] s =
     (None, print_line protools_exhausted_line s)"
| "download_video_protools_loop svc url output_path ffmpeg_path (fmt # fmts) s =
     (let opts = protools_opts output_path ffmpeg_path fmt;
          s1 = print_line (protools_try_line fmt) s
      in case ydl_download svc opts url s1 of
           (None, s2) \<Rightarrow> (None, print_line protools_done_line s2)
         | (Some e, s2) \<Rightarrow>
             if isinstance_DownloadError e then
               download_video_protools_loop svc url output_path ffmpeg_path fmts
                 (print_line (protools_failed_line fmt e) s2)
             else if isinstance_Exception e then (None, print_line (unexpected_line e) s2)
             else (Some e, s2))"

definition download_video_protools ::
  "service \<Rightarrow> string \<Rightarrow> string \<Rightarrow> string option \<Rightarrow> state \<Rightarrow> exn option \<times> state" where
  "download_video_protools svc url output_path ffmpeg_path s =
     download_video_protools_loop svc url output_path ffmpeg_path base_formats s"

section \<open>Vocabulary for the properties\<close>

subsection \<open>What one invocation does, apart from the state\<close>

text \<open>
  Whether an invocation returns or raises does not depend on the state it starts in
  (lemma \<open>ydl_download_fst\<close>), and the spinner flag it leaves depends on the flag it
  finds only (lemma \<open>ydl_download_spinner\<close>); both are read off a run from a fixed state.
\<close>

definition attempt_result :: "service \<Rightarrow> nat \<Rightarrow> ydl_opts \<Rightarrow> string \<Rightarrow> exn option" where
  "attempt_result svc n opts url =
     (let (evs, res) = svc n opts url
      in case fst (deliver (progress_hooks opts) (postprocessor_hooks opts) evs init_state) of
           Some e \<Rightarrow> Some e
         | None \<Rightarrow> res)"

definition spinner_after :: "hook_event list \<Rightarrow> bool \<Rightarrow> bool" where
  "spinner_after evs b =
     spinner_running
       (snd (deliver [print_progress_hook] [post_hook_spinner_hook] evs
               (init_state\<lparr>spinner_running := b\<rparr>)))"

text \<open>
  The results of the attempts of a plan, were each of them made: attempt \<open>i\<close> is the
  invocation number \<open>n + i\<close>.
\<close>

fun attempt_results ::
  "service \<Rightarrow> nat \<Rightarrow> (string \<Rightarrow> ydl_opts) \<Rightarrow> string \<Rightarrow> string list \<Rightarrow> exn option list" where
  "attempt_results svc n mk url [] = []"
| "attempt_results svc n mk url (fmt # fmts) =
     attempt_result svc n (mk fmt) url # attempt_results svc (Suc n) mk url fmts"

text \<open>An attempt after which the loops go on: it raised \<open>DownloadError\<close>.\<close>

fun recoverable :: "exn option \<Rightarrow> bool" where
  "recoverable None = False"
| "recoverable (Some e) = isinstance_DownloadError e"

text \<open>Attempt \<open>k\<close> is made when every attempt before it was recoverable.\<close>

definition reached :: "exn option list \<Rightarrow> nat \<Rightarrow> bool" where
  "reached rs k = list_all recoverable (take k rs)"

text \<open>How many attempts are made, given the results.\<close>

fun executed :: "exn option list \<Rightarrow> nat" where
  "executed [] = 0"
| "executed (r # rs) = (if recoverable r then Suc (executed rs) else 1)"

text \<open>
  The lines the loops print for failed attempts: the line that announces the format,
  then the line with the error.
\<close>

fun failure_log ::
  "(string \<Rightarrow> string) \<Rightarrow> (string \<Rightarrow> exn \<Rightarrow> string) \<Rightarrow> string list \<Rightarrow> exn option list
   \<Rightarrow> string list" where
  "failure_log try failed (fmt # fmts) (Some e # rs) =
     (try fmt @ NL) # (failed fmt e @ NL) # failure_log try failed fmts rs"
| "failure_log try failed fmts rs = []"

text \<open>
  The same lines with the text of each line given whole, line end included.
\<close>

fun failure_lines ::
  "(string \<Rightarrow> string) \<Rightarrow> (string \<Rightarrow> exn \<Rightarrow> string) \<Rightarrow> string list \<Rightarrow> exn option list
   \<Rightarrow> string list" where
  "failure_lines try failed (fmt # fmts) (Some e # rs) =
     try fmt # failed fmt e # failure_lines try failed fmts rs"
| "failure_lines try failed fmts rs = []"

text \<open>
  The spinner flag after the attempts of a plan, were it changed by the delivered events
  alone: each attempt that is made applies \<open>spinner_after\<close> to its events, and the next
  attempt is made when this one was recoverable.
\<close>

fun spinner_after_attempts ::
  "service \<Rightarrow> nat \<Rightarrow> (string \<Rightarrow> ydl_opts) \<Rightarrow> string \<Rightarrow> string list \<Rightarrow> bool \<Rightarrow> bool" where
  "spinner_after_attempts svc n mk url [] b = b"
| "spinner_after_attempts svc n mk url (fmt # fmts) b =
     (if recoverable (attempt_result svc n (mk fmt) url)
      then spinner_after_attempts svc (Suc n) mk url fmts
             (spinner_after (fst (svc n (mk fmt) url)) b)
      else spinner_after (fst (svc n (mk fmt) url)) b)"

text \<open>The part of the state that belongs to the spinner.\<close>

definition coordinator_of :: "state \<Rightarrow> bool \<times> nat option \<times> nat list \<times> nat" where
  "coordinator_of s = (spinner_running s, spinner_thread s, threads s, thread_count s)"

text \<open>Whatever the service raises for this URL is an \<open>Exception\<close>.\<close>

definition raises_only_Exceptions :: "service \<Rightarrow> string \<Rightarrow> bool" where
  "raises_only_Exceptions svc url =
     (\<forall>n opts. case snd (svc n opts url) of None \<Rightarrow> True | Some e \<Rightarrow> isinstance_Exception e)"

subsection \<open>The two loops as one scheme\<close>

text \<open>
  \<open>download_video\<close> and \<open>download_video_protools\<close> differ in the options they build and
  in the text they print. The lemmas about them are proved once, for a loop that takes
  these as parameters (lemmas \<open>download_video_loop_eq\<close> and
  \<open>download_video_protools_loop_eq\<close>).
\<close>

record loop_text =
  mk_opts :: "string \<Rightarrow> ydl_opts"
  try_line :: "string \<Rightarrow> string"
  done_line :: string
  failed_line :: "string \<Rightarrow> exn \<Rightarrow> string"
  exhausted_line :: string

fun fallback_loop ::
  "loop_text \<Rightarrow> service \<Rightarrow> string \<Rightarrow> string list \<Rightarrow> state \<Rightarrow> exn option \<times> state" where
  "fallback_loop L svc url [] s = (None, print_line (exhausted_line L) s)"
| "fallback_loop L svc url (fmt # fmts) s =
     (case ydl_download svc (mk_opts L fmt) url (print_line (try_line L fmt) s) of
        (None, s2) \<Rightarrow> (None, print_line (done_line L) s2)
      | (Some e, s2) \<Rightarrow>
          if isinstance_DownloadError e then
            fallback_loop L svc url fmts (print_line (failed_line L fmt e) s2)
          else if isinstance_Exception e then (None, print_line (unexpected_line e) s2)
          else (Some e, s2))"

definition video_text :: "string \<Rightarrow> string option \<Rightarrow> loop_text" where
  "video_text output_path ffmpeg_path =
     \<lparr>mk_opts = video_opts output_path ffmpeg_path, try_line = video_try_line,
      done_line = video_done_line, failed_line = (\<lambda>fmt. video_failed_line),
      exhausted_line = video_exhausted_line\<rparr>"

definition protools_text :: "string \<Rightarrow> string option \<Rightarrow> loop_text" where
  "protools_text output_path ffmpeg_path =
     \<lparr>mk_opts = protools_opts output_path ffmpeg_path, try_line = protools_try_line,
      done_line = protools_done_line, failed_line = protools_failed_line,
      exhausted_line = protools_exhausted_line\<rparr>"

definition module_hooks :: "loop_text \<Rightarrow> bool" where
  "module_hooks L =
     (\<forall>fmt. progress_hooks (mk_opts L fmt) = [print_progress_hook] \<and>
            postprocessor_hooks (mk_opts L fmt) = [post_hook_spinner_hook])"

subsection \<open>The results of a plan's attempts, from the state the loop starts in\<close>

definition video_results ::
  "service \<Rightarrow> state \<Rightarrow> string \<Rightarrow> string option \<Rightarrow> string \<Rightarrow> string list \<Rightarrow> exn option list" where
  "video_results svc s output_path ffmpeg_path url fmts =
     attempt_results svc (length (service_calls s)) (video_opts output_path ffmpeg_path) url fmts"

definition protools_results ::
  "service \<Rightarrow> state \<Rightarrow> string \<Rightarrow> string option \<Rightarrow> string \<Rightarrow> string list \<Rightarrow> exn option list" where
  "protools_results svc s output_path ffmpeg_path url fmts =
     attempt_results svc (length (service_calls s)) (protools_opts output_path ffmpeg_path) url fmts"

section \<open>Services and events of the examples\<close>

definition status_dict :: "string \<Rightarrow> dict" where
  "status_dict st = Map.empty(''status'' \<mapsto> st)"

definition downloading_dict :: dict where
  "downloading_dict =
     Map.empty(''status'' \<mapsto> ''downloading'', ''_percent_str'' \<mapsto> '' 42.0%'',
               ''_speed_str'' \<mapsto> ''1.2MiB/s'')"

text \<open>The events of an invocation that downloads, then post-processes, and completes.\<close>

definition complete_events :: "hook_event list" where
  "complete_events =
     [ProgressEvent downloading_dict, ProgressEvent (status_dict ''finished''),
      PostprocessorEvent (status_dict ''started''),
      PostprocessorEvent (status_dict ''processing''),
      PostprocessorEvent (status_dict ''finished'')]"

definition format_unavailable :: exn where
  "format_unavailable =
     \<lparr>exn_class = DownloadError, cause = FormatUnavailable,
      message = ''ERROR: Requested format is not available''\<rparr>"

definition network_error :: exn where
  "network_error =
     \<lparr>exn_class = DownloadError, cause = NetworkFailure,
      message = ''ERROR: Unable to download webpage: <urlopen error timed out>''\<rparr>"

definition postprocessing_error :: exn where
  "postprocessing_error =
     \<lparr>exn_class = DownloadError, cause = EngineCrash,
      message = ''ERROR: Postprocessing: ffmpeg not found''\<rparr>"

definition engine_crash :: exn where
  "engine_crash =
     \<lparr>exn_class = OtherException, cause = EngineCrash, message = ''[Errno 8] Exec format error''\<rparr>"

text \<open>Every invocation completes.\<close>

definition svc_completes :: service where
  "svc_completes n opts url = (complete_events, None)"

text \<open>The first invocation finds no such format; the later ones complete.\<close>

definition svc_second_succeeds :: service where
  "svc_second_succeeds n opts url =
     (if n = 0 then ([], Some format_unavailable) else (complete_events, None))"

text \<open>The first two invocations find no such format; the later ones complete.\<close>

definition svc_third_succeeds :: service where
  "svc_third_succeeds n opts url =
     (if n < 2 then ([], Some format_unavailable) else (complete_events, None))"

text \<open>The network is down for the first invocation; the later ones complete.\<close>

definition svc_network_down_once :: service where
  "svc_network_down_once n opts url =
     (if n = 0 then ([], Some network_error) else (complete_events, None))"

text \<open>The download completes, the post-processor starts and then fails.\<close>

definition svc_postprocess_fails :: service where
  "svc_postprocess_fails n opts url =
     ([ProgressEvent downloading_dict, ProgressEvent (status_dict ''finished''),
       PostprocessorEvent (status_dict ''started'')],
      Some postprocessing_error)"

text \<open>The invocation runs to the end of post-processing and then fails.\<close>

definition svc_fails_at_the_end :: service where
  "svc_fails_at_the_end n opts url = (complete_events, Some postprocessing_error)"

text \<open>The network is down for every invocation.\<close>

definition svc_network_down :: service where
  "svc_network_down n opts url = ([], Some network_error)"

text \<open>Every invocation completes without reporting an event.\<close>

definition svc_silent :: service where
  "svc_silent n opts url = ([], None)"

text \<open>No format of the plan is available.\<close>

definition svc_unavailable :: service where
  "svc_unavailable n opts url = ([], Some format_unavailable)"

text \<open>The first format is not available and the engine crashes on the second.\<close>

definition svc_crash_on_second :: service where
  "svc_crash_on_second n opts url =
     (if n = 0 then ([], Some format_unavailable) else ([ProgressEvent downloading_dict], Some engine_crash))"

section \<open>Lemmas\<close>

subsection \<open>The spinner keeps its invariant\<close>

lemma coordinator_ok_init: "coordinator_ok init_state"
  by (simp add: coordinator_ok_def init_state_def)

lemma coordinator_ok_start: "coordinator_ok s \<Longrightarrow> coordinator_ok (start_spinner s)"
  by (simp add: coordinator_ok_def start_spinner_def)

lemma coordinator_ok_stop: "coordinator_ok s \<Longrightarrow> coordinator_ok (stop_spinner s)"
  by (auto simp: coordinator_ok_def stop_spinner_def print_line_def Let_def
           split: option.splits if_splits)

subsection \<open>What a hook leaves unchanged\<close>

lemma run_hook_fst: "fst (run_hook h d s) = fst (run_hook h d t)"
  by (cases h) (auto simp: print_progress_def post_hook_spinner_def Let_def split: option.splits)

lemma run_hook_calls: "service_calls (snd (run_hook h d s)) = service_calls s"
  by (cases h) (auto simp: print_progress_def post_hook_spinner_def Let_def print_line_def
       print_noend_def start_spinner_def stop_spinner_def split: option.splits)

lemma run_hook_stdout: "\<exists>ext. stdout (snd (run_hook h d s)) = stdout s @ ext"
  by (cases h) (auto simp: print_progress_def post_hook_spinner_def Let_def print_line_def
       print_noend_def start_spinner_def stop_spinner_def split: option.splits)

lemma run_hook_spinner:
  "spinner_running s = spinner_running t \<Longrightarrow>
   spinner_running (snd (run_hook h d s)) = spinner_running (snd (run_hook h d t))"
  by (cases h) (auto simp: print_progress_def post_hook_spinner_def Let_def print_line_def
       print_noend_def start_spinner_def stop_spinner_def split: option.splits)

lemma run_hook_ok: "coordinator_ok s \<Longrightarrow> coordinator_ok (snd (run_hook h d s))"
  by (cases h) (auto simp: print_progress_def post_hook_spinner_def Let_def print_line_def
       print_noend_def start_spinner_def stop_spinner_def coordinator_ok_def split: option.splits if_splits)

lemma call_hooks_fst: "fst (call_hooks hs d s) = fst (call_hooks hs d t)"
proof (induction hs arbitrary: s t)
  case Nil
  show ?case by simp
next
  case (Cons h hs)
  obtain r s' where a: "run_hook h d s = (r, s')" by (cases "run_hook h d s")
  obtain r' t' where b: "run_hook h d t = (r', t')" by (cases "run_hook h d t")
  from run_hook_fst [of h d s t] a b have "r = r'" by simp
  with a b Cons.IH [of s' t'] show ?case by (auto split: option.splits)
qed

lemma call_hooks_calls: "service_calls (snd (call_hooks hs d s)) = service_calls s"
proof (induction hs arbitrary: s)
  case Nil
  show ?case by simp
next
  case (Cons h hs)
  obtain r s' where a: "run_hook h d s = (r, s')" by (cases "run_hook h d s")
  from run_hook_calls [of h d s] a have "service_calls s' = service_calls s" by simp
  with a Cons.IH [of s'] show ?case by (cases r) simp_all
qed

lemma call_hooks_stdout: "\<exists>ext. stdout (snd (call_hooks hs d s)) = stdout s @ ext"
proof (induction hs arbitrary: s)
  case Nil
  show ?case by simp
next
  case (Cons h hs)
  obtain r s' where a: "run_hook h d s = (r, s')" by (cases "run_hook h d s")
  from run_hook_stdout [of h d s] a obtain e1 where "stdout s' = stdout s @ e1" by auto
  with a Cons.IH [of s'] show ?case by (cases r) auto
qed

lemma call_hooks_spinner:
  "spinner_running s = spinner_running t \<Longrightarrow>
   spinner_running (snd (call_hooks hs d s)) = spinner_running (snd (call_hooks hs d t))"
proof (induction hs arbitrary: s t)
  case Nil
  then show ?case by simp
next
  case (Cons h hs)
  obtain r s' where a: "run_hook h d s = (r, s')" by (cases "run_hook h d s")
  obtain r' t' where b: "run_hook h d t = (r', t')" by (cases "run_hook h d t")
  from run_hook_fst [of h d s t] a b have r: "r = r'" by simp
  from run_hook_spinner [OF Cons.prems, of h d] a b
  have "spinner_running s' = spinner_running t'" by simp
  with a b r Cons.IH [of s' t'] show ?case by (auto split: option.splits)
qed

lemma call_hooks_ok: "coordinator_ok s \<Longrightarrow> coordinator_ok (snd (call_hooks hs d s))"
proof (induction hs arbitrary: s)
  case Nil
  then show ?case by simp
next
  case (Cons h hs)
  obtain r s' where a: "run_hook h d s = (r, s')" by (cases "run_hook h d s")
  from run_hook_ok [OF Cons.prems, of h d] a have "coordinator_ok s'" by simp
  with a Cons.IH [of s'] show ?case by (cases r) simp_all
qed


subsection \<open>Delivering the events of one invocation\<close>

lemma deliver_fst: "fst (deliver prog post evs s) = fst (deliver prog post evs t)"
proof (induction evs arbitrary: s t)
  case Nil
  show ?case by simp
next
  case (Cons ev evs)
  show ?case
  proof (cases ev)
    case (ProgressEvent d)
    obtain r s' where a: "call_hooks prog d s = (r, s')"
      by (cases "call_hooks prog d s")
    obtain r' t' where b: "call_hooks prog d t = (r', t')"
      by (cases "call_hooks prog d t")
    from call_hooks_fst [of prog d s t] a b have "r = r'" by simp
    with a b ProgressEvent Cons.IH [of s' t'] show ?thesis by (auto split: option.splits)
  next
    case (PostprocessorEvent d)
    obtain r s' where a: "call_hooks post d s = (r, s')"
      by (cases "call_hooks post d s")
    obtain r' t' where b: "call_hooks post d t = (r', t')"
      by (cases "call_hooks post d t")
    from call_hooks_fst [of post d s t] a b have "r = r'" by simp
    with a b PostprocessorEvent Cons.IH [of s' t'] show ?thesis by (auto split: option.splits)
  qed
qed

lemma deliver_calls: "service_calls (snd (deliver prog post evs s)) = service_calls s"
proof (induction evs arbitrary: s)
  case Nil
  show ?case by simp
next
  case (Cons ev evs)
  show ?case
  proof (cases ev)
    case (ProgressEvent d)
    obtain r s' where a: "call_hooks prog d s = (r, s')"
      by (cases "call_hooks prog d s")
    from call_hooks_calls [of prog d s] a
    have "service_calls s' = service_calls s" by simp
    with a ProgressEvent Cons.IH [of s'] show ?thesis by (auto split: option.splits)
  next
    case (PostprocessorEvent d)
    obtain r s' where a: "call_hooks post d s = (r, s')"
      by (cases "call_hooks post d s")
    from call_hooks_calls [of post d s] a
    have "service_calls s' = service_calls s" by simp
    with a PostprocessorEvent Cons.IH [of s'] show ?thesis by (auto split: option.splits)
  qed
qed

lemma deliver_stdout: "\<exists>ext. stdout (snd (deliver prog post evs s)) = stdout s @ ext"
proof (induction evs arbitrary: s)
  case Nil
  show ?case by simp
next
  case (Cons ev evs)
  show ?case
  proof (cases ev)
    case (ProgressEvent d)
    obtain r s' where a: "call_hooks prog d s = (r, s')"
      by (cases "call_hooks prog d s")
    from call_hooks_stdout [of prog d s] a
    obtain e1 where "stdout s' = stdout s @ e1" by auto
    with a ProgressEvent Cons.IH [of s'] show ?thesis by (auto split: option.splits)
  next
    case (PostprocessorEvent d)
    obtain r s' where a: "call_hooks post d s = (r, s')"
      by (cases "call_hooks post d s")
    from call_hooks_stdout [of post d s] a
    obtain e1 where "stdout s' = stdout s @ e1" by auto
    with a PostprocessorEvent Cons.IH [of s'] show ?thesis by (auto split: option.splits)
  qed
qed

lemma deliver_spinner:
  "spinner_running s = spinner_running t \<Longrightarrow>
   spinner_running (snd (deliver prog post evs s)) = spinner_running (snd (deliver prog post evs t))"
proof (induction evs arbitrary: s t)
  case Nil
  then show ?case by simp
next
  case (Cons ev evs)
  show ?case
  proof (cases ev)
    case (ProgressEvent d)
    obtain r s' where a: "call_hooks prog d s = (r, s')"
      by (cases "call_hooks prog d s")
    obtain r' t' where b: "call_hooks prog d t = (r', t')"
      by (cases "call_hooks prog d t")
    from call_hooks_fst [of prog d s t] a b have r: "r = r'" by simp
    from call_hooks_spinner [OF Cons.prems, of prog d] a b
    have "spinner_running s' = spinner_running t'" by simp
    with a b r ProgressEvent Cons.IH [of s' t'] show ?thesis by (auto split: option.splits)
  next
    case (PostprocessorEvent d)
    obtain r s' where a: "call_hooks post d s = (r, s')"
      by (cases "call_hooks post d s")
    obtain r' t' where b: "call_hooks post d t = (r', t')"
      by (cases "call_hooks post d t")
    from call_hooks_fst [of post d s t] a b have r: "r = r'" by simp
    from call_hooks_spinner [OF Cons.prems, of post d] a b
    have "spinner_running s' = spinner_running t'" by simp
    with a b r PostprocessorEvent Cons.IH [of s' t'] show ?thesis by (auto split: option.splits)
  qed
qed

lemma deliver_ok: "coordinator_ok s \<Longrightarrow> coordinator_ok (snd (deliver prog post evs s))"
proof (induction evs arbitrary: s)
  case Nil
  then show ?case by simp
next
  case (Cons ev evs)
  show ?case
  proof (cases ev)
    case (ProgressEvent d)
    obtain r s' where a: "call_hooks prog d s = (r, s')"
      by (cases "call_hooks prog d s")
    from call_hooks_ok [OF Cons.prems, of prog d] a
    have "coordinator_ok s'" by simp
    with a ProgressEvent Cons.IH [of s'] show ?thesis by (auto split: option.splits)
  next
    case (PostprocessorEvent d)
    obtain r s' where a: "call_hooks post d s = (r, s')"
      by (cases "call_hooks post d s")
    from call_hooks_ok [OF Cons.prems, of post d] a
    have "coordinator_ok s'" by simp
    with a PostprocessorEvent Cons.IH [of s'] show ?thesis by (auto split: option.splits)
  qed
qed

subsection \<open>One invocation of the service\<close>

lemma ydl_download_fst:
  "fst (ydl_download svc opts url s) = attempt_result svc (length (service_calls s)) opts url"
proof -
  obtain evs res where a: "svc (length (service_calls s)) opts url = (evs, res)"
    by (cases "svc (length (service_calls s)) opts url")
  let ?s1 = "s\<lparr>service_calls := service_calls s @ [opts]\<rparr>"
  obtain r s2 where b: "deliver (progress_hooks opts) (postprocessor_hooks opts) evs ?s1 = (r, s2)"
    by (cases "deliver (progress_hooks opts) (postprocessor_hooks opts) evs ?s1")
  from deliver_fst [of "progress_hooks opts" "postprocessor_hooks opts" evs ?s1 init_state] b
  have "fst (deliver (progress_hooks opts) (postprocessor_hooks opts) evs init_state) = r" by simp
  with a b show ?thesis
    by (simp add: ydl_download_def attempt_result_def split: option.splits)
qed

lemma ydl_download_calls:
  "service_calls (snd (ydl_download svc opts url s)) = service_calls s @ [opts]"
proof -
  obtain evs res where a: "svc (length (service_calls s)) opts url = (evs, res)"
    by (cases "svc (length (service_calls s)) opts url")
  let ?s1 = "s\<lparr>service_calls := service_calls s @ [opts]\<rparr>"
  obtain r s2 where b: "deliver (progress_hooks opts) (postprocessor_hooks opts) evs ?s1 = (r, s2)"
    by (cases "deliver (progress_hooks opts) (postprocessor_hooks opts) evs ?s1")
  from deliver_calls [of "progress_hooks opts" "postprocessor_hooks opts" evs ?s1] b
  have "service_calls s2 = service_calls s @ [opts]" by simp
  with a b show ?thesis
    by (simp add: ydl_download_def split: option.splits)
qed

lemma ydl_download_stdout:
  "\<exists>ext. stdout (snd (ydl_download svc opts url s)) = stdout s @ ext"
proof -
  obtain evs res where a: "svc (length (service_calls s)) opts url = (evs, res)"
    by (cases "svc (length (service_calls s)) opts url")
  let ?s1 = "s\<lparr>service_calls := service_calls s @ [opts]\<rparr>"
  obtain r s2 where b: "deliver (progress_hooks opts) (postprocessor_hooks opts) evs ?s1 = (r, s2)"
    by (cases "deliver (progress_hooks opts) (postprocessor_hooks opts) evs ?s1")
  from deliver_stdout [of "progress_hooks opts" "postprocessor_hooks opts" evs ?s1] b
  obtain ext where "stdout s2 = stdout s @ ext" by auto
  with a b show ?thesis
    by (simp add: ydl_download_def split: option.splits)
qed

lemma ydl_download_spinner:
  assumes "progress_hooks opts = [print_progress_hook]"
    and "postprocessor_hooks opts = [post_hook_spinner_hook]"
  shows "spinner_running (snd (ydl_download svc opts url s)) =
         spinner_after (fst (svc (length (service_calls s)) opts url)) (spinner_running s)"
proof -
  obtain evs res where a: "svc (length (service_calls s)) opts url = (evs, res)"
    by (cases "svc (length (service_calls s)) opts url")
  let ?s1 = "s\<lparr>service_calls := service_calls s @ [opts]\<rparr>"
  obtain r s2 where b: "deliver (progress_hooks opts) (postprocessor_hooks opts) evs ?s1 = (r, s2)"
    by (cases "deliver (progress_hooks opts) (postprocessor_hooks opts) evs ?s1")
  have "spinner_running ?s1 = spinner_running (init_state\<lparr>spinner_running := spinner_running s\<rparr>)"
    by simp
  from deliver_spinner [OF this, of "progress_hooks opts" "postprocessor_hooks opts" evs] b
  have "spinner_running s2 = spinner_after evs (spinner_running s)"
    by (simp add: spinner_after_def assms)
  with a b show ?thesis
    by (simp add: ydl_download_def split: option.splits)
qed

lemma ydl_download_ok:
  "coordinator_ok s \<Longrightarrow> coordinator_ok (snd (ydl_download svc opts url s))"
proof -
  assume ok: "coordinator_ok s"
  obtain evs res where a: "svc (length (service_calls s)) opts url = (evs, res)"
    by (cases "svc (length (service_calls s)) opts url")
  let ?s1 = "s\<lparr>service_calls := service_calls s @ [opts]\<rparr>"
  obtain r s2 where b: "deliver (progress_hooks opts) (postprocessor_hooks opts) evs ?s1 = (r, s2)"
    by (cases "deliver (progress_hooks opts) (postprocessor_hooks opts) evs ?s1")
  from ok have "coordinator_ok ?s1" by (auto simp: coordinator_ok_def split: option.splits if_splits)
  from deliver_ok [OF this, of "progress_hooks opts" "postprocessor_hooks opts" evs] b have "coordinator_ok s2" by simp
  with a b show ?thesis
    by (simp add: ydl_download_def split: option.splits)
qed

lemma download_video_loop_eq:
  "download_video_loop svc url op ff fmts s = fallback_loop (video_text op ff) svc url fmts s"
  by (induction fmts arbitrary: s) (simp_all add: video_text_def Let_def split: option.splits prod.splits)

lemma download_video_protools_loop_eq:
  "download_video_protools_loop svc url op ff fmts s =
   fallback_loop (protools_text op ff) svc url fmts s"
  by (induction fmts arbitrary: s) (simp_all add: protools_text_def Let_def split: option.splits prod.splits)


subsection \<open>The fallback loop\<close>

lemma attempt_results_length [simp]: "length (attempt_results svc n mk url fmts) = length fmts"
  by (induction fmts arbitrary: n) simp_all

lemma attempt_results_nth:
  "i < length fmts \<Longrightarrow>
   attempt_results svc n mk url fmts ! i = attempt_result svc (n + i) (mk (fmts ! i)) url"
proof (induction fmts arbitrary: n i)
  case Nil
  then show ?case by simp
next
  case (Cons fmt fmts)
  then show ?case by (cases i) simp_all
qed

lemma subseq_log_step:
  "subseq xs zs \<Longrightarrow> subseq (a # b # xs) (a # ys @ b # zs)"
  by (simp add: list_emb_append2)

lemma fallback_loop_stdout:
  "\<exists>ext. stdout (snd (fallback_loop L svc url fmts s)) = stdout s @ ext"
proof (induction fmts arbitrary: s)
  case Nil
  show ?case by (simp add: print_line_def)
next
  case (Cons fmt fmts)
  let ?s1 = "print_line (try_line L fmt) s"
  obtain r s2 where a: "ydl_download svc (mk_opts L fmt) url ?s1 = (r, s2)"
    by (cases "ydl_download svc (mk_opts L fmt) url ?s1")
  from ydl_download_stdout [of svc "mk_opts L fmt" url ?s1] a
  obtain e1 where e1: "stdout s2 = stdout s @ [try_line L fmt @ NL] @ e1"
    by (auto simp: print_line_def)
  show ?case
  proof (cases r)
    case None
    with a e1 show ?thesis by (simp add: print_line_def)
  next
    case (Some e)
    show ?thesis
    proof (cases "isinstance_DownloadError e")
      case True
      let ?s3 = "print_line (failed_line L fmt e) s2"
      from Cons.IH [of ?s3] obtain e2
        where "stdout (snd (fallback_loop L svc url fmts ?s3)) = stdout ?s3 @ e2" by blast
      with a e1 Some True show ?thesis by (simp add: print_line_def)
    next
      case False
      with a e1 Some show ?thesis by (simp add: print_line_def)
    qed
  qed
qed

lemma fallback_loop_skip:
  "k \<le> length fmts \<Longrightarrow>
   \<forall>i<k. recoverable (attempt_results svc (length (service_calls s)) (mk_opts L) url fmts ! i) \<Longrightarrow>
   \<exists>s'. fallback_loop L svc url fmts s = fallback_loop L svc url (drop k fmts) s' \<and>
        service_calls s' = service_calls s @ map (mk_opts L) (take k fmts) \<and>
        (\<exists>ext. stdout s' = stdout s @ ext \<and>
           subseq (failure_log (try_line L) (failed_line L) (take k fmts)
             (take k (attempt_results svc (length (service_calls s)) (mk_opts L) url fmts))) ext)"
proof (induction fmts arbitrary: k s)
  case Nil
  then show ?case by (intro exI [of _ s]) simp
next
  case (Cons fmt fmts)
  show ?case
  proof (cases k)
    case 0
    then show ?thesis by (intro exI [of _ s]) simp
  next
    case (Suc j)
    let ?n = "length (service_calls s)"
    let ?s1 = "print_line (try_line L fmt) s"
    have n1: "length (service_calls ?s1) = ?n" by (simp add: print_line_def)
    obtain r s2 where a: "ydl_download svc (mk_opts L fmt) url ?s1 = (r, s2)"
      by (cases "ydl_download svc (mk_opts L fmt) url ?s1")
    from ydl_download_fst [of svc "mk_opts L fmt" url ?s1] a n1
    have r: "attempt_result svc ?n (mk_opts L fmt) url = r" by simp
    from Cons.prems(2) Suc have "recoverable (attempt_result svc ?n (mk_opts L fmt) url)"
      by auto
    with r have "recoverable r" by simp
    then obtain e where e: "r = Some e" "isinstance_DownloadError e"
      by (cases r) auto
    let ?s3 = "print_line (failed_line L fmt e) s2"
    from ydl_download_calls [of svc "mk_opts L fmt" url ?s1] a
    have c3: "service_calls ?s3 = service_calls s @ [mk_opts L fmt]"
      by (simp add: print_line_def)
    from ydl_download_stdout [of svc "mk_opts L fmt" url ?s1] a
    obtain e1 where o3: "stdout ?s3 = stdout s @ (try_line L fmt @ NL) # e1 @ [failed_line L fmt e @ NL]"
      by (auto simp: print_line_def)
    have step: "fallback_loop L svc url (fmt # fmts) s = fallback_loop L svc url fmts ?s3"
      using a e by simp
    have j: "j \<le> length fmts" using Cons.prems(1) Suc by simp
    have rec: "\<forall>i<j. recoverable
        (attempt_results svc (length (service_calls ?s3)) (mk_opts L) url fmts ! i)"
      using Cons.prems(2) Suc c3 by auto
    from Cons.IH [OF j rec] obtain s' ext where
      ih: "fallback_loop L svc url fmts ?s3 = fallback_loop L svc url (drop j fmts) s'"
          "service_calls s' = service_calls ?s3 @ map (mk_opts L) (take j fmts)"
          "stdout s' = stdout ?s3 @ ext"
          "subseq (failure_log (try_line L) (failed_line L) (take j fmts)
             (take j (attempt_results svc (length (service_calls ?s3)) (mk_opts L) url fmts))) ext"
      by blast
    have fl: "failure_log (try_line L) (failed_line L) (take k (fmt # fmts))
                 (take k (attempt_results svc ?n (mk_opts L) url (fmt # fmts))) =
              (try_line L fmt @ NL) # (failed_line L fmt e @ NL) #
              failure_log (try_line L) (failed_line L) (take j fmts)
                (take j (attempt_results svc (length (service_calls ?s3)) (mk_opts L) url fmts))"
      using Suc r e c3 by simp
    have log: "subseq (failure_log (try_line L) (failed_line L) (take k (fmt # fmts))
                 (take k (attempt_results svc ?n (mk_opts L) url (fmt # fmts))))
               ((try_line L fmt @ NL) # e1 @ (failed_line L fmt e @ NL) # ext)"
      unfolding fl by (rule subseq_log_step [OF ih(4)])
    have "fallback_loop L svc url (fmt # fmts) s = fallback_loop L svc url (drop k (fmt # fmts)) s'"
      using step ih(1) Suc by simp
    moreover have "service_calls s' = service_calls s @ map (mk_opts L) (take k (fmt # fmts))"
      using ih(2) c3 Suc by simp
    moreover have "stdout s' = stdout s @ ((try_line L fmt @ NL) # e1 @ (failed_line L fmt e @ NL) # ext)"
      using ih(3) o3 by simp
    ultimately show ?thesis using log by blast
  qed
qed

lemma fallback_loop_calls:
  "service_calls (snd (fallback_loop L svc url fmts s)) =
   service_calls s @ map (mk_opts L)
     (take (executed (attempt_results svc (length (service_calls s)) (mk_opts L) url fmts)) fmts)"
proof (induction fmts arbitrary: s)
  case Nil
  show ?case by (simp add: print_line_def)
next
  case (Cons fmt fmts)
  let ?n = "length (service_calls s)"
  let ?s1 = "print_line (try_line L fmt) s"
  have n1: "length (service_calls ?s1) = ?n" by (simp add: print_line_def)
  obtain r s2 where a: "ydl_download svc (mk_opts L fmt) url ?s1 = (r, s2)"
    by (cases "ydl_download svc (mk_opts L fmt) url ?s1")
  from ydl_download_fst [of svc "mk_opts L fmt" url ?s1] a n1
  have r: "attempt_result svc ?n (mk_opts L fmt) url = r" by simp
  from ydl_download_calls [of svc "mk_opts L fmt" url ?s1] a
  have c2: "service_calls s2 = service_calls s @ [mk_opts L fmt]"
    by (simp add: print_line_def)
  show ?case
  proof (cases r)
    case None
    with a r c2 show ?thesis by (simp add: print_line_def)
  next
    case (Some e)
    show ?thesis
    proof (cases "isinstance_DownloadError e")
      case True
      let ?s3 = "print_line (failed_line L fmt e) s2"
      have c3: "service_calls ?s3 = service_calls s @ [mk_opts L fmt]"
        using c2 by (simp add: print_line_def)
      from Cons.IH [of ?s3] c3 a r Some True show ?thesis by simp
    next
      case False
      with a r c2 Some show ?thesis by (simp add: print_line_def)
    qed
  qed
qed

lemma executed_bound: "k < length rs \<Longrightarrow> \<not> recoverable (rs ! k) \<Longrightarrow> executed rs \<le> Suc k"
proof (induction rs arbitrary: k)
  case Nil
  then show ?case by simp
next
  case (Cons r rs)
  then show ?case by (cases k) auto
qed


lemma subseq_snoc: "subseq xs ys \<Longrightarrow> subseq (xs @ [a]) (ys @ a # zs)"
proof -
  assume a: "subseq xs ys"
  have b: "subseq [a] (a # zs)" by simp
  from list_emb_append_mono [OF a b] show ?thesis by simp
qed

text \<open>
  Attempt \<open>k\<close> is reached when the attempts before it all raised \<open>DownloadError\<close>. The
  state \<open>s2\<close> is the one the service invocation of attempt \<open>k\<close> leaves behind.
\<close>

lemma fallback_loop_at:
  assumes k: "k < length fmts"
    and rs: "rs = attempt_results svc (length (service_calls s)) (mk_opts L) url fmts"
    and rec: "\<forall>i<k. recoverable (rs ! i)"
  shows "\<exists>s2. fallback_loop L svc url fmts s =
            (case rs ! k of
               None \<Rightarrow> (None, print_line (done_line L) s2)
             | Some e \<Rightarrow>
                 if isinstance_DownloadError e then
                   fallback_loop L svc url (drop (Suc k) fmts)
                     (print_line (failed_line L (fmts ! k) e) s2)
                 else if isinstance_Exception e then (None, print_line (unexpected_line e) s2)
                 else (Some e, s2)) \<and>
          service_calls s2 = service_calls s @ map (mk_opts L) (take (Suc k) fmts) \<and>
          (\<exists>ext. stdout s2 = stdout s @ ext \<and>
             subseq (failure_log (try_line L) (failed_line L) (take k fmts) (take k rs) @ [try_line L (fmts ! k) @ NL]) ext)"
proof -
  let ?n = "length (service_calls s)"
  from k have kle: "k \<le> length fmts" by simp
  from rec rs have rec': "\<forall>i<k. recoverable (attempt_results svc ?n (mk_opts L) url fmts ! i)"
    by simp
  from fallback_loop_skip [OF kle rec'] rs obtain s' ext where
    sk: "fallback_loop L svc url fmts s = fallback_loop L svc url (drop k fmts) s'"
        "service_calls s' = service_calls s @ map (mk_opts L) (take k fmts)"
        "stdout s' = stdout s @ ext"
        "subseq (failure_log (try_line L) (failed_line L) (take k fmts) (take k rs)) ext"
    by blast
  let ?fmt = "fmts ! k"
  let ?s1 = "print_line (try_line L ?fmt) s'"
  from k have dr: "drop k fmts = ?fmt # drop (Suc k) fmts" by (simp add: Cons_nth_drop_Suc)
  from sk(2) k have n1: "length (service_calls ?s1) = ?n + k" by (simp add: print_line_def)
  obtain r s2 where a: "ydl_download svc (mk_opts L ?fmt) url ?s1 = (r, s2)"
    by (cases "ydl_download svc (mk_opts L ?fmt) url ?s1")
  from ydl_download_fst [of svc "mk_opts L ?fmt" url ?s1] a n1
  have "attempt_result svc (?n + k) (mk_opts L ?fmt) url = r" by simp
  with attempt_results_nth [OF k, of svc ?n "mk_opts L" url] rs have r: "rs ! k = r" by simp
  from ydl_download_calls [of svc "mk_opts L ?fmt" url ?s1] a sk(2) k
  have c2: "service_calls s2 = service_calls s @ map (mk_opts L) (take (Suc k) fmts)"
    by (simp add: print_line_def take_Suc_conv_app_nth)
  from ydl_download_stdout [of svc "mk_opts L ?fmt" url ?s1] a sk(3)
  obtain e1 where o2: "stdout s2 = stdout s @ (ext @ (try_line L ?fmt @ NL) # e1)"
    by (auto simp: print_line_def)
  have lg: "subseq (failure_log (try_line L) (failed_line L) (take k fmts) (take k rs) @ [try_line L ?fmt @ NL])
              (ext @ (try_line L ?fmt @ NL) # e1)"
    by (rule subseq_snoc [OF sk(4)])
  have "fallback_loop L svc url fmts s =
            (case rs ! k of
               None \<Rightarrow> (None, print_line (done_line L) s2)
             | Some e \<Rightarrow>
                 if isinstance_DownloadError e then
                   fallback_loop L svc url (drop (Suc k) fmts)
                     (print_line (failed_line L (fmts ! k) e) s2)
                 else if isinstance_Exception e then (None, print_line (unexpected_line e) s2)
                 else (Some e, s2))"
    using sk(1) dr a r by (simp split: option.splits)
  with c2 o2 lg show ?thesis by blast
qed

lemma fallback_loop_success:
  assumes k: "k < length fmts"
    and rs: "rs = attempt_results svc (length (service_calls s)) (mk_opts L) url fmts"
    and rec: "\<forall>i<k. recoverable (rs ! i)"
    and ok: "rs ! k = None"
  shows "\<exists>s'. fallback_loop L svc url fmts s = (None, s') \<and>
          service_calls s' = service_calls s @ map (mk_opts L) (take (Suc k) fmts) \<and>
          last (stdout s') = done_line L @ NL \<and>
          (\<exists>ext. stdout s' = stdout s @ ext \<and>
             subseq (failure_log (try_line L) (failed_line L) (take k fmts) (take k rs)
                     @ [try_line L (fmts ! k) @ NL, done_line L @ NL]) ext)"
proof -
  from fallback_loop_at [OF k rs rec] ok obtain s2 ext where
    a: "fallback_loop L svc url fmts s = (None, print_line (done_line L) s2)"
       "service_calls s2 = service_calls s @ map (mk_opts L) (take (Suc k) fmts)"
       "stdout s2 = stdout s @ ext"
       "subseq (failure_log (try_line L) (failed_line L) (take k fmts) (take k rs) @ [try_line L (fmts ! k) @ NL]) ext"
    by auto
  from subseq_snoc [OF a(4), of "done_line L @ NL" "[]"]
  have "subseq (failure_log (try_line L) (failed_line L) (take k fmts) (take k rs)
                 @ [try_line L (fmts ! k) @ NL, done_line L @ NL]) (ext @ [done_line L @ NL])"
    by simp
  moreover have "stdout (print_line (done_line L) s2) = stdout s @ (ext @ [done_line L @ NL])"
    using a(3) by (simp add: print_line_def)
  moreover have "last (stdout (print_line (done_line L) s2)) = done_line L @ NL"
    by (simp add: print_line_def)
  moreover have "service_calls (print_line (done_line L) s2) =
                 service_calls s @ map (mk_opts L) (take (Suc k) fmts)"
    using a(2) by (simp add: print_line_def)
  ultimately show ?thesis using a(1) by blast
qed

lemma fallback_loop_abort:
  assumes k: "k < length fmts"
    and rs: "rs = attempt_results svc (length (service_calls s)) (mk_opts L) url fmts"
    and rec: "\<forall>i<k. recoverable (rs ! i)"
    and bad: "rs ! k = Some e" "\<not> isinstance_DownloadError e" "isinstance_Exception e"
  shows "\<exists>s'. fallback_loop L svc url fmts s = (None, s') \<and>
          service_calls s' = service_calls s @ map (mk_opts L) (take (Suc k) fmts) \<and>
          last (stdout s') = unexpected_line e @ NL"
proof -
  from fallback_loop_at [OF k rs rec] bad obtain s2 where
    a: "fallback_loop L svc url fmts s = (None, print_line (unexpected_line e) s2)"
       "service_calls s2 = service_calls s @ map (mk_opts L) (take (Suc k) fmts)"
    by auto
  have "last (stdout (print_line (unexpected_line e) s2)) = unexpected_line e @ NL"
    by (simp add: print_line_def)
  moreover have "service_calls (print_line (unexpected_line e) s2) =
                 service_calls s @ map (mk_opts L) (take (Suc k) fmts)"
    using a(2) by (simp add: print_line_def)
  ultimately show ?thesis using a(1) by blast
qed

lemma fallback_loop_exhausted:
  assumes rs: "rs = attempt_results svc (length (service_calls s)) (mk_opts L) url fmts"
    and rec: "\<forall>i<length fmts. recoverable (rs ! i)"
  shows "\<exists>s'. fallback_loop L svc url fmts s = (None, s') \<and>
          service_calls s' = service_calls s @ map (mk_opts L) fmts \<and>
          last (stdout s') = exhausted_line L @ NL \<and>
          (\<exists>ext. stdout s' = stdout s @ ext \<and>
             subseq (failure_log (try_line L) (failed_line L) fmts rs @ [exhausted_line L @ NL]) ext)"
proof -
  from rec rs have rec': "\<forall>i<length fmts. recoverable
      (attempt_results svc (length (service_calls s)) (mk_opts L) url fmts ! i)" by simp
  from fallback_loop_skip [OF le_refl rec'] rs obtain s1 ext where
    sk: "fallback_loop L svc url fmts s = fallback_loop L svc url [] s1"
        "service_calls s1 = service_calls s @ map (mk_opts L) fmts"
        "stdout s1 = stdout s @ ext"
        "subseq (failure_log (try_line L) (failed_line L) fmts rs) ext"
    by auto
  let ?s' = "print_line (exhausted_line L) s1"
  have "fallback_loop L svc url fmts s = (None, ?s')" using sk(1) by simp
  moreover have "service_calls ?s' = service_calls s @ map (mk_opts L) fmts"
    using sk(2) by (simp add: print_line_def)
  moreover have "last (stdout ?s') = exhausted_line L @ NL" by (simp add: print_line_def)
  moreover have "stdout ?s' = stdout s @ (ext @ [exhausted_line L @ NL])"
    using sk(3) by (simp add: print_line_def)
  moreover have "subseq (failure_log (try_line L) (failed_line L) fmts rs @ [exhausted_line L @ NL])
                   (ext @ [exhausted_line L @ NL])"
    using subseq_snoc [OF sk(4), of "exhausted_line L @ NL" "[]"] by simp
  ultimately show ?thesis by blast
qed

lemma fallback_loop_never_beyond:
  assumes k: "k < length fmts"
    and stop: "\<not> recoverable
        (attempt_results svc (length (service_calls s)) (mk_opts L) url fmts ! k)"
  shows "\<exists>m\<le>Suc k. service_calls (snd (fallback_loop L svc url fmts s)) =
           service_calls s @ map (mk_opts L) (take m fmts)"
proof -
  let ?rs = "attempt_results svc (length (service_calls s)) (mk_opts L) url fmts"
  from k have "k < length ?rs" by simp
  from executed_bound [OF this stop] fallback_loop_calls [of L svc url fmts s]
  show ?thesis by blast
qed


subsection \<open>Exceptions of the hooks\<close>

lemma run_hook_raises: "fst (run_hook h d s) = Some e \<Longrightarrow> e = KeyError_status"
  by (cases h) (auto simp: print_progress_def post_hook_spinner_def Let_def split: option.splits if_splits)

lemma call_hooks_raises: "fst (call_hooks hs d s) = Some e \<Longrightarrow> e = KeyError_status"
proof (induction hs arbitrary: s)
  case Nil
  then show ?case by simp
next
  case (Cons h hs)
  obtain r s' where a: "run_hook h d s = (r, s')" by (cases "run_hook h d s")
  show ?case
  proof (cases r)
    case None
    with a Cons.prems Cons.IH [of s'] show ?thesis by simp
  next
    case (Some e')
    with a Cons.prems run_hook_raises [of h d s e'] show ?thesis by simp
  qed
qed

lemma deliver_raises: "fst (deliver prog post evs s) = Some e \<Longrightarrow> e = KeyError_status"
proof (induction evs arbitrary: s)
  case Nil
  then show ?case by simp
next
  case (Cons ev evs)
  show ?case
  proof (cases ev)
    case (ProgressEvent d)
    obtain r s' where a: "call_hooks prog d s = (r, s')" by (cases "call_hooks prog d s")
    show ?thesis
    proof (cases r)
      case None
      with a ProgressEvent Cons.prems Cons.IH [of s'] show ?thesis by simp
    next
      case (Some e')
      with a ProgressEvent Cons.prems call_hooks_raises [of prog d s e'] show ?thesis by simp
    qed
  next
    case (PostprocessorEvent d)
    obtain r s' where a: "call_hooks post d s = (r, s')" by (cases "call_hooks post d s")
    show ?thesis
    proof (cases r)
      case None
      with a PostprocessorEvent Cons.prems Cons.IH [of s'] show ?thesis by simp
    next
      case (Some e')
      with a PostprocessorEvent Cons.prems call_hooks_raises [of post d s e'] show ?thesis by simp
    qed
  qed
qed

lemma attempt_result_Exception:
  assumes "\<forall>n opts e. snd (svc n opts url) = Some e \<longrightarrow> isinstance_Exception e"
    and "attempt_result svc n opts url = Some e"
  shows "isinstance_Exception e"
proof -
  obtain evs res where a: "svc n opts url = (evs, res)" by (cases "svc n opts url")
  let ?r = "fst (deliver (progress_hooks opts) (postprocessor_hooks opts) evs init_state)"
  show ?thesis
  proof (cases ?r)
    case None
    with a assms(2) have "res = Some e" by (simp add: attempt_result_def)
    with a assms(1) show ?thesis by (metis snd_conv)
  next
    case (Some e')
    with a assms(2) have "e' = e" by (simp add: attempt_result_def)
    with Some deliver_raises have "e = KeyError_status" by blast
    then show ?thesis by (simp add: KeyError_status_def)
  qed
qed

subsection \<open>The fallback loop: exceptions, the spinner, what is reported\<close>

lemma fallback_loop_total:
  assumes "\<forall>n opts e. snd (svc n opts url) = Some e \<longrightarrow> isinstance_Exception e"
  shows "fst (fallback_loop L svc url fmts s) = None"
proof (induction fmts arbitrary: s)
  case Nil
  show ?case by simp
next
  case (Cons fmt fmts)
  let ?s1 = "print_line (try_line L fmt) s"
  obtain r s2 where a: "ydl_download svc (mk_opts L fmt) url ?s1 = (r, s2)"
    by (cases "ydl_download svc (mk_opts L fmt) url ?s1")
  show ?case
  proof (cases r)
    case None
    with a show ?thesis by simp
  next
    case (Some e)
    from ydl_download_fst [of svc "mk_opts L fmt" url ?s1] a Some
    have "attempt_result svc (length (service_calls ?s1)) (mk_opts L fmt) url = Some e" by simp
    from attempt_result_Exception [OF assms this] have ex: "isinstance_Exception e" .
    show ?thesis
    proof (cases "isinstance_DownloadError e")
      case True
      with a Some Cons.IH show ?thesis by simp
    next
      case False
      with a Some ex show ?thesis by simp
    qed
  qed
qed

lemma fallback_loop_idle:
  assumes hooks: "module_hooks L"
    and bal: "\<forall>n opts. \<not> spinner_after (fst (svc n opts url)) False"
  shows "\<not> spinner_running s \<Longrightarrow> \<not> spinner_running (snd (fallback_loop L svc url fmts s))"
proof (induction fmts arbitrary: s)
  case Nil
  then show ?case by (simp add: print_line_def)
next
  case (Cons fmt fmts)
  let ?s1 = "print_line (try_line L fmt) s"
  obtain r s2 where a: "ydl_download svc (mk_opts L fmt) url ?s1 = (r, s2)"
    by (cases "ydl_download svc (mk_opts L fmt) url ?s1")
  from hooks have h: "progress_hooks (mk_opts L fmt) = [print_progress_hook]"
    "postprocessor_hooks (mk_opts L fmt) = [post_hook_spinner_hook]"
    by (simp_all add: module_hooks_def)
  from Cons.prems have "\<not> spinner_running ?s1" by (simp add: print_line_def)
  with ydl_download_spinner [OF h, of svc url ?s1] a bal
  have idle: "\<not> spinner_running s2" by simp
  show ?case
  proof (cases r)
    case None
    with a idle show ?thesis by (simp add: print_line_def)
  next
    case (Some e)
    show ?thesis
    proof (cases "isinstance_DownloadError e")
      case True
      let ?s3 = "print_line (failed_line L fmt e) s2"
      from idle have "\<not> spinner_running ?s3" by (simp add: print_line_def)
      from Cons.IH [OF this] a Some True show ?thesis by simp
    next
      case False
      with a Some idle show ?thesis by (simp add: print_line_def)
    qed
  qed
qed

lemma reached_nth: "k \<le> length rs \<Longrightarrow> reached rs k \<Longrightarrow> \<forall>i<k. recoverable (rs ! i)"
  by (simp add: reached_def list_all_length)

lemma fallback_loop_reports:
  assumes k: "k < length fmts"
    and rs: "rs = attempt_results svc (length (service_calls s)) (mk_opts L) url fmts"
    and rec: "reached rs k"
    and e: "rs ! k = Some e" "isinstance_Exception e"
  shows "(if isinstance_DownloadError e then failed_line L (fmts ! k) e else unexpected_line e) @ NL
         \<in> set (stdout (snd (fallback_loop L svc url fmts s)))"
proof -
  from k rs have "k \<le> length rs" by simp
  from reached_nth [OF this rec] have rec': "\<forall>i<k. recoverable (rs ! i)" .
  from fallback_loop_at [OF k rs rec'] obtain s2 where
    a0: "fallback_loop L svc url fmts s =
            (case rs ! k of
               None \<Rightarrow> (None, print_line (done_line L) s2)
             | Some e \<Rightarrow>
                 if isinstance_DownloadError e then
                   fallback_loop L svc url (drop (Suc k) fmts)
                     (print_line (failed_line L (fmts ! k) e) s2)
                 else if isinstance_Exception e then (None, print_line (unexpected_line e) s2)
                 else (Some e, s2))"
    by blast
  have a: "fallback_loop L svc url fmts s =
          (if isinstance_DownloadError e then
             fallback_loop L svc url (drop (Suc k) fmts)
               (print_line (failed_line L (fmts ! k) e) s2)
           else (None, print_line (unexpected_line e) s2))"
    using a0 e by simp
  show ?thesis
  proof (cases "isinstance_DownloadError e")
    case True
    let ?s3 = "print_line (failed_line L (fmts ! k) e) s2"
    from fallback_loop_stdout [of L svc url "drop (Suc k) fmts" ?s3] obtain ext where
      "stdout (snd (fallback_loop L svc url (drop (Suc k) fmts) ?s3)) = stdout ?s3 @ ext"
      by blast
    with a True show ?thesis by (simp add: print_line_def)
  next
    case False
    with a show ?thesis by (simp add: print_line_def)
  qed
qed

lemma executed_le_length: "executed rs \<le> length rs"
  by (induction rs) auto

lemma executed_reached: "k < length rs \<Longrightarrow> reached rs k \<Longrightarrow> k < executed rs"
proof (induction rs arbitrary: k)
  case Nil
  then show ?case by simp
next
  case (Cons r rs)
  show ?case
  proof (cases k)
    case 0
    then show ?thesis by simp
  next
    case (Suc j)
    from Cons.prems(2) Suc have r: "recoverable r" by (simp add: reached_def)
    from Cons.prems(2) Suc have "reached rs j" by (simp add: reached_def)
    with Cons.IH [of j] Cons.prems(1) Suc have "j < executed rs" by simp
    with r Suc show ?thesis by simp
  qed
qed

lemma video_hooks: "module_hooks (video_text op ff)"
  by (simp add: module_hooks_def video_text_def video_opts_def)

lemma protools_hooks: "module_hooks (protools_text op ff)"
  by (simp add: module_hooks_def protools_text_def protools_opts_def)

lemma video_text_simps [simp]:
  "mk_opts (video_text op ff) = video_opts op ff"
  "try_line (video_text op ff) = video_try_line"
  "done_line (video_text op ff) = video_done_line"
  "failed_line (video_text op ff) = (\<lambda>fmt. video_failed_line)"
  "exhausted_line (video_text op ff) = video_exhausted_line"
  by (simp_all add: video_text_def)

lemma protools_text_simps [simp]:
  "mk_opts (protools_text op ff) = protools_opts op ff"
  "try_line (protools_text op ff) = protools_try_line"
  "done_line (protools_text op ff) = protools_done_line"
  "failed_line (protools_text op ff) = protools_failed_line"
  "exhausted_line (protools_text op ff) = protools_exhausted_line"
  by (simp_all add: protools_text_def)

subsection \<open>download\_audio\<close>

lemma download_audio_fst:
  "fst (download_audio svc url op ff s) =
     (case attempt_result svc (length (service_calls s)) (audio_opts op ff) url of
        None \<Rightarrow> None
      | Some e \<Rightarrow> if isinstance_Exception e then None else Some e)"
proof -
  let ?s1 = "print_line audio_start_line s"
  obtain r s2 where a: "ydl_download svc (audio_opts op ff) url ?s1 = (r, s2)"
    by (cases "ydl_download svc (audio_opts op ff) url ?s1")
  from ydl_download_fst [of svc "audio_opts op ff" url ?s1] a
  have "attempt_result svc (length (service_calls s)) (audio_opts op ff) url = r"
    by (simp add: print_line_def)
  with a show ?thesis by (simp add: download_audio_def Let_def split: option.splits)
qed

lemma download_audio_spinner:
  "spinner_running (snd (download_audio svc url op ff s)) =
   spinner_after (fst (svc (length (service_calls s)) (audio_opts op ff) url)) (spinner_running s)"
proof -
  let ?s1 = "print_line audio_start_line s"
  obtain r s2 where a: "ydl_download svc (audio_opts op ff) url ?s1 = (r, s2)"
    by (cases "ydl_download svc (audio_opts op ff) url ?s1")
  have h: "progress_hooks (audio_opts op ff) = [print_progress_hook]"
    "postprocessor_hooks (audio_opts op ff) = [post_hook_spinner_hook]"
    by (simp_all add: audio_opts_def)
  from ydl_download_spinner [OF h, of svc url ?s1] a
  have "spinner_running s2 =
        spinner_after (fst (svc (length (service_calls s)) (audio_opts op ff) url)) (spinner_running s)"
    by (simp add: print_line_def)
  with a show ?thesis
    by (simp add: download_audio_def Let_def print_line_def split: option.splits)
qed

lemma download_audio_reports:
  assumes "attempt_result svc (length (service_calls s)) (audio_opts op ff) url = Some e"
    and "isinstance_Exception e"
  shows "last (stdout (snd (download_audio svc url op ff s))) = audio_error_line e @ NL"
proof -
  let ?s1 = "print_line audio_start_line s"
  obtain r s2 where a: "ydl_download svc (audio_opts op ff) url ?s1 = (r, s2)"
    by (cases "ydl_download svc (audio_opts op ff) url ?s1")
  from ydl_download_fst [of svc "audio_opts op ff" url ?s1] a assms(1)
  have "r = Some e" by (simp add: print_line_def)
  with a assms(2) show ?thesis
    by (simp add: download_audio_def Let_def print_line_def)
qed

subsection \<open>What the loops do at attempt \<open>k\<close>, for the scheme\<close>

lemma fallback_first_success:
  assumes k: "k < length fmts"
    and rs: "rs = attempt_results svc (length (service_calls s)) (mk_opts L) url fmts"
    and ok: "rs ! k = None"
  shows "(\<exists>m\<le>Suc k. service_calls (snd (fallback_loop L svc url fmts s)) =
            service_calls s @ map (mk_opts L) (take m fmts)) \<and>
         (reached rs k \<longrightarrow>
            fst (fallback_loop L svc url fmts s) = None \<and>
            service_calls (snd (fallback_loop L svc url fmts s)) =
              service_calls s @ map (mk_opts L) (take (Suc k) fmts) \<and>
            last (stdout (snd (fallback_loop L svc url fmts s))) = done_line L @ NL)"
proof
  from ok rs have "\<not> recoverable
      (attempt_results svc (length (service_calls s)) (mk_opts L) url fmts ! k)" by simp
  from fallback_loop_never_beyond [OF k this]
  show "\<exists>m\<le>Suc k. service_calls (snd (fallback_loop L svc url fmts s)) =
            service_calls s @ map (mk_opts L) (take m fmts)" .
next
  show "reached rs k \<longrightarrow>
            fst (fallback_loop L svc url fmts s) = None \<and>
            service_calls (snd (fallback_loop L svc url fmts s)) =
              service_calls s @ map (mk_opts L) (take (Suc k) fmts) \<and>
            last (stdout (snd (fallback_loop L svc url fmts s))) = done_line L @ NL"
  proof
    assume r: "reached rs k"
    from k rs have "k \<le> length rs" by simp
    from reached_nth [OF this r] have rec: "\<forall>i<k. recoverable (rs ! i)" .
    from fallback_loop_success [OF k rs rec ok] obtain s' where
      "fallback_loop L svc url fmts s = (None, s')"
      "service_calls s' = service_calls s @ map (mk_opts L) (take (Suc k) fmts)"
      "last (stdout s') = done_line L @ NL"
      by blast
    then show "fst (fallback_loop L svc url fmts s) = None \<and>
            service_calls (snd (fallback_loop L svc url fmts s)) =
              service_calls s @ map (mk_opts L) (take (Suc k) fmts) \<and>
            last (stdout (snd (fallback_loop L svc url fmts s))) = done_line L @ NL"
      by simp
  qed
qed

lemma fallback_continues:
  assumes k: "k < length fmts"
    and rs: "rs = attempt_results svc (length (service_calls s)) (mk_opts L) url fmts"
    and r: "reached rs k"
    and ok: "rs ! k = None"
  shows "fst (fallback_loop L svc url fmts s) = None \<and>
         service_calls (snd (fallback_loop L svc url fmts s)) =
           service_calls s @ map (mk_opts L) (take (Suc k) fmts) \<and>
         (\<exists>ext. stdout (snd (fallback_loop L svc url fmts s)) = stdout s @ ext \<and>
            subseq (failure_log (try_line L) (failed_line L) (take k fmts) (take k rs)
                    @ [try_line L (fmts ! k) @ NL, done_line L @ NL]) ext)"
proof -
  from k rs have "k \<le> length rs" by simp
  from reached_nth [OF this r] have rec: "\<forall>i<k. recoverable (rs ! i)" .
  from fallback_loop_success [OF k rs rec ok] obtain s' ext where
    "fallback_loop L svc url fmts s = (None, s')"
    "service_calls s' = service_calls s @ map (mk_opts L) (take (Suc k) fmts)"
    "stdout s' = stdout s @ ext"
    "subseq (failure_log (try_line L) (failed_line L) (take k fmts) (take k rs)
             @ [try_line L (fmts ! k) @ NL, done_line L @ NL]) ext"
    by blast
  then show ?thesis by simp
qed

lemma fallback_unrecoverable:
  assumes k: "k < length fmts"
    and rs: "rs = attempt_results svc (length (service_calls s)) (mk_opts L) url fmts"
    and bad: "rs ! k = Some e" "\<not> isinstance_DownloadError e" "isinstance_Exception e"
  shows "(\<exists>m\<le>Suc k. service_calls (snd (fallback_loop L svc url fmts s)) =
            service_calls s @ map (mk_opts L) (take m fmts)) \<and>
         (reached rs k \<longrightarrow>
            fst (fallback_loop L svc url fmts s) = None \<and>
            service_calls (snd (fallback_loop L svc url fmts s)) =
              service_calls s @ map (mk_opts L) (take (Suc k) fmts) \<and>
            last (stdout (snd (fallback_loop L svc url fmts s))) = unexpected_line e @ NL)"
proof
  from bad(1,2) rs have "\<not> recoverable
      (attempt_results svc (length (service_calls s)) (mk_opts L) url fmts ! k)" by simp
  from fallback_loop_never_beyond [OF k this]
  show "\<exists>m\<le>Suc k. service_calls (snd (fallback_loop L svc url fmts s)) =
            service_calls s @ map (mk_opts L) (take m fmts)" .
next
  show "reached rs k \<longrightarrow>
            fst (fallback_loop L svc url fmts s) = None \<and>
            service_calls (snd (fallback_loop L svc url fmts s)) =
              service_calls s @ map (mk_opts L) (take (Suc k) fmts) \<and>
            last (stdout (snd (fallback_loop L svc url fmts s))) = unexpected_line e @ NL"
  proof
    assume r: "reached rs k"
    from k rs have "k \<le> length rs" by simp
    from reached_nth [OF this r] have rec: "\<forall>i<k. recoverable (rs ! i)" .
    from fallback_loop_abort [OF k rs rec bad] obtain s' where
      "fallback_loop L svc url fmts s = (None, s')"
      "service_calls s' = service_calls s @ map (mk_opts L) (take (Suc k) fmts)"
      "last (stdout s') = unexpected_line e @ NL"
      by blast
    then show "fst (fallback_loop L svc url fmts s) = None \<and>
            service_calls (snd (fallback_loop L svc url fmts s)) =
              service_calls s @ map (mk_opts L) (take (Suc k) fmts) \<and>
            last (stdout (snd (fallback_loop L svc url fmts s))) = unexpected_line e @ NL"
      by simp
  qed
qed

lemma fallback_exhausted:
  assumes rs: "rs = attempt_results svc (length (service_calls s)) (mk_opts L) url fmts"
    and r: "reached rs (length fmts)"
  shows "fst (fallback_loop L svc url fmts s) = None \<and>
         service_calls (snd (fallback_loop L svc url fmts s)) =
           service_calls s @ map (mk_opts L) fmts \<and>
         last (stdout (snd (fallback_loop L svc url fmts s))) = exhausted_line L @ NL \<and>
         (\<exists>ext. stdout (snd (fallback_loop L svc url fmts s)) = stdout s @ ext \<and>
            subseq (failure_log (try_line L) (failed_line L) fmts rs
                    @ [exhausted_line L @ NL]) ext)"
proof -
  from rs have "length fmts \<le> length rs" by simp
  from reached_nth [OF this r] have rec: "\<forall>i<length fmts. recoverable (rs ! i)" .
  from fallback_loop_exhausted [OF rs rec] obtain s' ext where
    "fallback_loop L svc url fmts s = (None, s')"
    "service_calls s' = service_calls s @ map (mk_opts L) fmts"
    "last (stdout s') = exhausted_line L @ NL"
    "stdout s' = stdout s @ ext"
    "subseq (failure_log (try_line L) (failed_line L) fmts rs @ [exhausted_line L @ NL]) ext"
    by blast
  then show ?thesis by simp
qed

lemma fallback_classification:
  assumes k: "k < length fmts"
    and rs: "rs = attempt_results svc (length (service_calls s)) (mk_opts L) url fmts"
    and r: "reached rs k"
    and e: "rs ! k = Some e"
  shows "(exn_class e = DownloadError \<and> Suc k < length fmts \<longrightarrow>
            (\<exists>m. Suc (Suc k) \<le> m \<and> m \<le> length fmts \<and>
               service_calls (snd (fallback_loop L svc url fmts s)) =
                 service_calls s @ map (mk_opts L) (take m fmts))) \<and>
         (exn_class e = KeyError \<or> exn_class e = OtherException \<longrightarrow>
            fst (fallback_loop L svc url fmts s) = None \<and>
            service_calls (snd (fallback_loop L svc url fmts s)) =
              service_calls s @ map (mk_opts L) (take (Suc k) fmts))"
proof (intro conjI impI)
  assume a: "exn_class e = DownloadError \<and> Suc k < length fmts"
  from a have k1: "Suc k < length rs" using rs by simp
  from k rs have kr: "k < length rs" by simp
  have "reached rs (Suc k)"
    using r e a kr by (simp add: reached_def take_Suc_conv_app_nth)
  from executed_reached [OF k1 this] have "Suc (Suc k) \<le> executed rs" by simp
  moreover have "executed rs \<le> length fmts" using executed_le_length [of rs] rs by simp
  ultimately show "\<exists>m. Suc (Suc k) \<le> m \<and> m \<le> length fmts \<and>
               service_calls (snd (fallback_loop L svc url fmts s)) =
                 service_calls s @ map (mk_opts L) (take m fmts)"
    using fallback_loop_calls [of L svc url fmts s] rs by blast
next
  assume a: "exn_class e = KeyError \<or> exn_class e = OtherException"
  then have b: "\<not> isinstance_DownloadError e" "isinstance_Exception e" by auto
  from fallback_unrecoverable [OF k rs e b] r
  show "fst (fallback_loop L svc url fmts s) = None" by simp
next
  assume a: "exn_class e = KeyError \<or> exn_class e = OtherException"
  then have b: "\<not> isinstance_DownloadError e" "isinstance_Exception e" by auto
  from fallback_unrecoverable [OF k rs e b] r
  show "service_calls (snd (fallback_loop L svc url fmts s)) =
              service_calls s @ map (mk_opts L) (take (Suc k) fmts)" by simp
qed

subsection \<open>Unfolding the examples\<close>



subsection \<open>The examples, evaluated\<close>

lemmas results_defs =
  video_results_def protools_results_def format_attempts_def base_formats_def
  attempt_result_def video_opts_def protools_opts_def complete_events_def status_dict_def
  downloading_dict_def print_progress_def post_hook_spinner_def init_state_def Let_def

lemma example_classes:
  "exn_class format_unavailable = DownloadError"
  "exn_class network_error = DownloadError"
  "exn_class postprocessing_error = DownloadError"
  "exn_class engine_crash = OtherException"
  "cause network_error = NetworkFailure"
  by (simp_all add: format_unavailable_def network_error_def postprocessing_error_def
      engine_crash_def)

lemma service_calls_init: "service_calls init_state = []"
  by (simp add: init_state_def)

lemma plan_lengths: "length format_attempts = 3" "length base_formats = 3"
  by (simp_all add: format_attempts_def base_formats_def)

lemma plan_prefixes:
  "take (Suc 0) format_attempts = [format_attempts ! 0]"
  "take (Suc (Suc 0)) format_attempts = [format_attempts ! 0, format_attempts ! 1]"
  "take (Suc 0) base_formats = [base_formats ! 0]"
  "take (Suc (Suc 0)) base_formats = [base_formats ! 0, base_formats ! 1]"
  "take (Suc (Suc (Suc 0))) format_attempts = format_attempts"
  "take (Suc (Suc (Suc 0))) base_formats = base_formats"
  by (simp_all add: format_attempts_def base_formats_def)

lemma second_succeeds_results:
  "video_results svc_second_succeeds init_state ''/out'' None ''u'' format_attempts =
     [Some format_unavailable, None, None]"
  "protools_results svc_second_succeeds init_state ''/out'' None ''u'' base_formats =
     [Some format_unavailable, None, None]"
  by (simp_all add: results_defs svc_second_succeeds_def)

lemma third_succeeds_results:
  "video_results svc_third_succeeds init_state ''/out'' None ''u'' format_attempts =
     [Some format_unavailable, Some format_unavailable, None]"
  "protools_results svc_third_succeeds init_state ''/out'' None ''u'' base_formats =
     [Some format_unavailable, Some format_unavailable, None]"
  by (simp_all add: results_defs svc_third_succeeds_def)

lemma network_down_once_results:
  "video_results svc_network_down_once init_state ''/out'' None ''u'' format_attempts =
     [Some network_error, None, None]"
  "protools_results svc_network_down_once init_state ''/out'' None ''u'' base_formats =
     [Some network_error, None, None]"
  by (simp_all add: results_defs svc_network_down_once_def)

lemma unavailable_results:
  "video_results svc_unavailable init_state ''/out'' None ''u'' format_attempts =
     [Some format_unavailable, Some format_unavailable, Some format_unavailable]"
  "protools_results svc_unavailable init_state ''/out'' None ''u'' base_formats =
     [Some format_unavailable, Some format_unavailable, Some format_unavailable]"
  by (simp_all add: results_defs svc_unavailable_def)

lemma crash_on_second_results:
  "video_results svc_crash_on_second init_state ''/out'' None ''u'' format_attempts =
     [Some format_unavailable, Some engine_crash, Some engine_crash]"
  "protools_results svc_crash_on_second init_state ''/out'' None ''u'' base_formats =
     [Some format_unavailable, Some engine_crash, Some engine_crash]"
  by (simp_all add: results_defs svc_crash_on_second_def)

subsection \<open>A service whose post-processor never finishes\<close>

lemma fallback_loop_running:
  assumes hooks: "module_hooks L"
    and run: "\<forall>n opts b. spinner_after (fst (svc n opts url)) b"
  shows "fmts \<noteq> [] \<or> spinner_running s \<Longrightarrow> spinner_running (snd (fallback_loop L svc url fmts s))"
proof (induction fmts arbitrary: s)
  case Nil
  then show ?case by (simp add: print_line_def)
next
  case (Cons fmt fmts)
  let ?s1 = "print_line (try_line L fmt) s"
  obtain r s2 where a: "ydl_download svc (mk_opts L fmt) url ?s1 = (r, s2)"
    by (cases "ydl_download svc (mk_opts L fmt) url ?s1")
  from hooks have h: "progress_hooks (mk_opts L fmt) = [print_progress_hook]"
    "postprocessor_hooks (mk_opts L fmt) = [post_hook_spinner_hook]"
    by (simp_all add: module_hooks_def)
  from ydl_download_spinner [OF h, of svc url ?s1] a run
  have on: "spinner_running s2" by simp
  show ?case
  proof (cases r)
    case None
    with a on show ?thesis by (simp add: print_line_def)
  next
    case (Some e)
    show ?thesis
    proof (cases "isinstance_DownloadError e")
      case True
      let ?s3 = "print_line (failed_line L fmt e) s2"
      from on have "fmts \<noteq> [] \<or> spinner_running ?s3" by (simp add: print_line_def)
      from Cons.IH [OF this] a Some True show ?thesis by simp
    next
      case False
      with a Some on show ?thesis by (simp add: print_line_def)
    qed
  qed
qed

lemma postprocess_fails_leaves_running:
  "spinner_after (fst (svc_postprocess_fails n opts url)) b"
  by (simp add: spinner_after_def svc_postprocess_fails_def status_dict_def downloading_dict_def
      print_progress_def post_hook_spinner_def start_spinner_def init_state_def
      print_line_def print_noend_def dict_get_def Let_def)

lemma postprocess_fails_result:
  "progress_hooks opts = [print_progress_hook] \<Longrightarrow>
   postprocessor_hooks opts = [post_hook_spinner_hook] \<Longrightarrow>
   attempt_result svc_postprocess_fails n opts url = Some postprocessing_error"
  by (simp add: attempt_result_def svc_postprocess_fails_def status_dict_def downloading_dict_def
      print_progress_def post_hook_spinner_def Let_def)


lemma complete_events_balanced: "\<not> spinner_after complete_events False"
  by (simp add: spinner_after_def complete_events_def status_dict_def downloading_dict_def
      print_progress_def post_hook_spinner_def start_spinner_def stop_spinner_def init_state_def
      print_line_def print_noend_def dict_get_def Let_def)

subsection \<open>The downloads keep the invariant of the spinner\<close>

lemma print_line_ok: "coordinator_ok s \<Longrightarrow> coordinator_ok (print_line x s)"
  by (auto simp: coordinator_ok_def print_line_def split: option.splits if_splits)

lemma fallback_loop_ok:
  "coordinator_ok s \<Longrightarrow> coordinator_ok (snd (fallback_loop L svc url fmts s))"
proof (induction fmts arbitrary: s)
  case Nil
  then show ?case by (simp add: print_line_ok)
next
  case (Cons fmt fmts)
  let ?s1 = "print_line (try_line L fmt) s"
  obtain r s2 where a: "ydl_download svc (mk_opts L fmt) url ?s1 = (r, s2)"
    by (cases "ydl_download svc (mk_opts L fmt) url ?s1")
  from ydl_download_ok [OF print_line_ok [OF Cons.prems], of svc "mk_opts L fmt" url "try_line L fmt"] a
  have ok: "coordinator_ok s2" by simp
  show ?case
  proof (cases r)
    case None
    with a ok show ?thesis by (simp add: print_line_ok)
  next
    case (Some e)
    show ?thesis
    proof (cases "isinstance_DownloadError e")
      case True
      from Cons.IH [OF print_line_ok [OF ok], of "failed_line L fmt e"] a Some True
      show ?thesis by simp
    next
      case False
      with a Some ok show ?thesis by (simp add: print_line_ok)
    qed
  qed
qed

lemma downloads_ok:
  assumes "coordinator_ok s"
  shows "coordinator_ok (snd (download_audio svc url op ff s))"
    and "coordinator_ok (snd (download_video svc url op ff s))"
    and "coordinator_ok (snd (download_video_protools svc url op ff s))"
proof -
  let ?s1 = "print_line audio_start_line s"
  obtain r s2 where a: "ydl_download svc (audio_opts op ff) url ?s1 = (r, s2)"
    by (cases "ydl_download svc (audio_opts op ff) url ?s1")
  from ydl_download_ok [OF print_line_ok [OF assms], of svc "audio_opts op ff" url audio_start_line] a
  have "coordinator_ok s2" by simp
  with a show "coordinator_ok (snd (download_audio svc url op ff s))"
    by (simp add: download_audio_def Let_def print_line_ok split: option.splits)
  from fallback_loop_ok [OF assms]
  show "coordinator_ok (snd (download_video svc url op ff s))"
    by (simp add: download_video_def download_video_loop_eq)
  from fallback_loop_ok [OF assms]
  show "coordinator_ok (snd (download_video_protools svc url op ff s))"
    by (simp add: download_video_protools_def download_video_protools_loop_eq)
qed

subsection \<open>An operation that fails after its post-processing\<close>

lemma failed_operation_prints_success_mark:
  "fst (download_audio svc_fails_at_the_end ''u'' ''/out'' None init_state) = None \<and>
   stdout (snd (download_audio svc_fails_at_the_end ''u'' ''/out'' None init_state)) =
     [audio_start_line @ NL,
      CR @ ''Baixando:  42.0% a 1.2MiB/s, ETA: ? s'',
      CR @ ''Download finalizado. Iniciando p'' @ o_acute @ ''s-processamento'' @ ELLIPSIS
         @ replicate 7 CHR '' '' @ NL,
      FESHOW_line @ NL,
      audio_error_line postprocessing_error @ NL]"
  by (simp add: download_audio_def ydl_download_def audio_opts_def svc_fails_at_the_end_def
      complete_events_def status_dict_def downloading_dict_def postprocessing_error_def
      print_progress_def post_hook_spinner_def start_spinner_def stop_spinner_def
      init_state_def print_line_def print_noend_def dict_get_def Let_def)

subsection \<open>The text of the lines\<close>

lemma blanks:
  "replicate 16 CHR '' '' = ''                ''"
  "replicate 7 CHR '' '' = ''       ''"
  by code_simp+

lemmas line_defs = blanks
  NL_def CR_def ESC_def QUOTE_def HOURGLASS_def CHECK_BOX_def CROSS_def WARNING_def
  CHECK_MARK_def ELLIPSIS_def a_acute_def i_acute_def a_tilde_def e_circ_def o_acute_def
  C_GREEN_def C_RESET_def FESHOW_line_def
  audio_start_line_def audio_done_line_def audio_error_line_def
  video_try_line_def video_done_line_def video_failed_line_def unexpected_line_def
  video_exhausted_line_def protools_try_line_def protools_done_line_def
  protools_failed_line_def protools_exhausted_line_def

lemma failure_log_lines:
  "failure_log announce failed fmts rs =
   failure_lines (\<lambda>fmt. announce fmt @ NL) (\<lambda>fmt e. failed fmt e @ NL) fmts rs"
  by (induction announce failed fmts rs rule: failure_log.induct) simp_all

subsection \<open>The spinner flag after a loop\<close>

lemma fallback_loop_spinner:
  assumes hooks: "module_hooks L"
  shows "spinner_running (snd (fallback_loop L svc url fmts s)) =
         spinner_after_attempts svc (length (service_calls s)) (mk_opts L) url fmts
           (spinner_running s)"
proof (induction fmts arbitrary: s)
  case Nil
  show ?case by (simp add: print_line_def)
next
  case (Cons fmt fmts)
  let ?n = "length (service_calls s)"
  let ?s1 = "print_line (try_line L fmt) s"
  obtain r s2 where a: "ydl_download svc (mk_opts L fmt) url ?s1 = (r, s2)"
    by (cases "ydl_download svc (mk_opts L fmt) url ?s1")
  from hooks have h: "progress_hooks (mk_opts L fmt) = [print_progress_hook]"
    "postprocessor_hooks (mk_opts L fmt) = [post_hook_spinner_hook]"
    by (simp_all add: module_hooks_def)
  from ydl_download_spinner [OF h, of svc url ?s1] a
  have f2: "spinner_running s2 =
      spinner_after (fst (svc ?n (mk_opts L fmt) url)) (spinner_running s)"
    by (simp add: print_line_def)
  from ydl_download_fst [of svc "mk_opts L fmt" url ?s1] a
  have r: "attempt_result svc ?n (mk_opts L fmt) url = r" by (simp add: print_line_def)
  from ydl_download_calls [of svc "mk_opts L fmt" url ?s1] a
  have c2: "length (service_calls s2) = Suc ?n" by (simp add: print_line_def)
  show ?case
  proof (cases r)
    case None
    with a r f2 show ?thesis by (simp add: print_line_def)
  next
    case (Some e)
    show ?thesis
    proof (cases "isinstance_DownloadError e")
      case True
      let ?s3 = "print_line (failed_line L fmt e) s2"
      have "spinner_running ?s3 = spinner_running s2" "length (service_calls ?s3) = Suc ?n"
        using c2 by (simp_all add: print_line_def)
      with Cons.IH [of ?s3] a r f2 Some True show ?thesis by simp
    next
      case False
      with a r f2 Some show ?thesis by (simp add: print_line_def)
    qed
  qed
qed

subsection \<open>A service that reports no event\<close>

lemma print_line_coordinator: "coordinator_of (print_line x s) = coordinator_of s"
  by (simp add: coordinator_of_def print_line_def)

lemma ydl_download_silent:
  "fst (svc (length (service_calls s)) opts url) = [] \<Longrightarrow>
   coordinator_of (snd (ydl_download svc opts url s)) = coordinator_of s"
  by (cases "svc (length (service_calls s)) opts url")
     (simp add: ydl_download_def coordinator_of_def)

lemma fallback_loop_silent:
  assumes "\<forall>n opts. fst (svc n opts url) = []"
  shows "coordinator_of (snd (fallback_loop L svc url fmts s)) = coordinator_of s"
proof (induction fmts arbitrary: s)
  case Nil
  show ?case by (simp add: print_line_coordinator)
next
  case (Cons fmt fmts)
  let ?s1 = "print_line (try_line L fmt) s"
  obtain r s2 where a: "ydl_download svc (mk_opts L fmt) url ?s1 = (r, s2)"
    by (cases "ydl_download svc (mk_opts L fmt) url ?s1")
  from assms have "fst (svc (length (service_calls ?s1)) (mk_opts L fmt) url) = []" by simp
  with ydl_download_silent [of svc ?s1 "mk_opts L fmt" url] a
  have c2: "coordinator_of s2 = coordinator_of s" by (simp add: print_line_coordinator)
  show ?case
  proof (cases r)
    case None
    with a c2 show ?thesis by (simp add: print_line_coordinator)
  next
    case (Some e)
    show ?thesis
    proof (cases "isinstance_DownloadError e")
      case True
      with Cons.IH [of "print_line (failed_line L fmt e) s2"] a c2 Some
      show ?thesis by (simp add: print_line_coordinator)
    next
      case False
      with a c2 Some show ?thesis by (simp add: print_line_coordinator)
    qed
  qed
qed

lemma download_audio_silent:
  assumes "\<forall>n opts. fst (svc n opts url) = []"
  shows "coordinator_of (snd (download_audio svc url op ff s)) = coordinator_of s"
proof -
  let ?s1 = "print_line audio_start_line s"
  obtain r s2 where a: "ydl_download svc (audio_opts op ff) url ?s1 = (r, s2)"
    by (cases "ydl_download svc (audio_opts op ff) url ?s1")
  from assms have "fst (svc (length (service_calls ?s1)) (audio_opts op ff) url) = []" by simp
  with ydl_download_silent [of svc ?s1 "audio_opts op ff" url] a
  have "coordinator_of s2 = coordinator_of s" by (simp add: print_line_coordinator)
  with a show ?thesis
    by (simp add: download_audio_def Let_def print_line_coordinator split: option.splits)
qed

lemma network_down_results:
  "video_results svc_network_down init_state ''/out'' None ''u'' format_attempts =
     [Some network_error, Some network_error, Some network_error]"
  "protools_results svc_network_down init_state ''/out'' None ''u'' base_formats =
     [Some network_error, Some network_error, Some network_error]"
  by (simp_all add: results_defs svc_network_down_def)

lemma plan_selectors:
  "map F format_attempts =
     [F ''bv*[vcodec^=avc1][ext=mp4]+ba[ext=m4a]/b[ext=mp4]/best'', F ''bestvideo[ext=mp4]+bestaudio[ext=m4a]/best[ext=mp4]/best'', F ''bestvideo+bestaudio/best'']"
  "map F base_formats =
     [F ''bv*[vcodec^=avc1][ext=mp4][height<=1080]+ba[ext=m4a]'', F ''bestvideo[ext=mp4]+bestaudio[ext=m4a]'', F ''best'']"
  by (simp_all add: format_attempts_def base_formats_def)

section \<open>The claims\<close>

text \<open>
  C1, as the code has it. None of the three download functions starts or stops the
  spinner itself; the spinner changes through the hooks alone. After each of the three
  functions the flag is exactly what the events of the attempts that were made, as
  delivered to the hooks, make of the flag at entry (\<open>spinner_after\<close>,
  \<open>spinner_after_attempts\<close>); if the service reports no event, the flag, the thread
  handle and the renderer threads are at exit what they were at entry, so a spinner
  that runs at entry still runs at exit. If the functions are entered with the spinner
  idle and the events of every invocation leave an idle spinner idle (each \<open>started\<close> is
  followed by a delivered \<open>finished\<close>), the spinner is idle when they return or raise.
\<close>

theorem coordinator_changes_by_events_only:
  "spinner_running (snd (download_audio svc url op ff s)) =
     spinner_after (fst (svc (length (service_calls s)) (audio_opts op ff) url)) (spinner_running s) \<and>
   spinner_running (snd (download_video svc url op ff s)) =
     spinner_after_attempts svc (length (service_calls s)) (video_opts op ff) url format_attempts
       (spinner_running s) \<and>
   spinner_running (snd (download_video_protools svc url op ff s)) =
     spinner_after_attempts svc (length (service_calls s)) (protools_opts op ff) url base_formats
       (spinner_running s) \<and>
   ((\<forall>n opts. fst (svc n opts url) = []) \<longrightarrow>
      coordinator_of (snd (download_audio svc url op ff s)) = coordinator_of s \<and>
      coordinator_of (snd (download_video svc url op ff s)) = coordinator_of s \<and>
      coordinator_of (snd (download_video_protools svc url op ff s)) = coordinator_of s) \<and>
   (\<not> spinner_running s \<and> (\<forall>n opts. \<not> spinner_after (fst (svc n opts url)) False) \<longrightarrow>
      \<not> spinner_running (snd (download_audio svc url op ff s)) \<and>
      \<not> spinner_running (snd (download_video svc url op ff s)) \<and>
      \<not> spinner_running (snd (download_video_protools svc url op ff s)))"
proof (intro conjI impI)
  show "spinner_running (snd (download_audio svc url op ff s)) =
     spinner_after (fst (svc (length (service_calls s)) (audio_opts op ff) url)) (spinner_running s)"
    by (rule download_audio_spinner)
next
  from fallback_loop_spinner [OF video_hooks, of op ff svc url format_attempts s]
  show "spinner_running (snd (download_video svc url op ff s)) =
     spinner_after_attempts svc (length (service_calls s)) (video_opts op ff) url format_attempts
       (spinner_running s)"
    by (simp add: download_video_def download_video_loop_eq)
next
  from fallback_loop_spinner [OF protools_hooks, of op ff svc url base_formats s]
  show "spinner_running (snd (download_video_protools svc url op ff s)) =
     spinner_after_attempts svc (length (service_calls s)) (protools_opts op ff) url base_formats
       (spinner_running s)"
    by (simp add: download_video_protools_def download_video_protools_loop_eq)
next
  assume silent: "\<forall>n opts. fst (svc n opts url) = []"
  from download_audio_silent [where svc = svc and url = url and op = op and ff = ff and s = s] silent
  show "coordinator_of (snd (download_audio svc url op ff s)) = coordinator_of s" by simp
  from fallback_loop_silent [where svc = svc and url = url and L = "video_text op ff"
      and fmts = format_attempts and s = s] silent
  show "coordinator_of (snd (download_video svc url op ff s)) = coordinator_of s"
    by (simp add: download_video_def download_video_loop_eq)
  from fallback_loop_silent [where svc = svc and url = url and L = "protools_text op ff"
      and fmts = base_formats and s = s] silent
  show "coordinator_of (snd (download_video_protools svc url op ff s)) = coordinator_of s"
    by (simp add: download_video_protools_def download_video_protools_loop_eq)
next
  assume a: "\<not> spinner_running s \<and> (\<forall>n opts. \<not> spinner_after (fst (svc n opts url)) False)"
  then have idle: "\<not> spinner_running s"
    and bal: "\<forall>n opts. \<not> spinner_after (fst (svc n opts url)) False" by simp_all
  from idle bal show "\<not> spinner_running (snd (download_audio svc url op ff s))"
    by (simp add: download_audio_spinner)
  from fallback_loop_idle [where L = "video_text op ff" and svc = svc and url = url and s = s
         and fmts = format_attempts] video_hooks bal idle
  show "\<not> spinner_running (snd (download_video svc url op ff s))"
    by (simp add: download_video_def download_video_loop_eq)
  from fallback_loop_idle [where L = "protools_text op ff" and svc = svc and url = url and s = s
         and fmts = base_formats] protools_hooks bal idle
  show "\<not> spinner_running (snd (download_video_protools svc url op ff s))"
    by (simp add: download_video_protools_def download_video_protools_loop_eq)
qed

theorem coordinator_changes_by_events_only_witness:
  "\<not> spinner_running init_state \<and>
   (\<forall>n opts. \<not> spinner_after (fst (svc_completes n opts ''u'')) False) \<and>
   \<not> spinner_running (snd (download_audio svc_completes ''u'' ''/out'' None init_state)) \<and>
   \<not> spinner_running (snd (download_video svc_completes ''u'' ''/out'' None init_state)) \<and>
   \<not> spinner_running (snd (download_video_protools svc_completes ''u'' ''/out'' None init_state)) \<and>
   (\<forall>n opts. fst (svc_silent n opts ''u'') = []) \<and>
   coordinator_of (start_spinner init_state) = (True, Some 0, [0], 1) \<and>
   coordinator_of (snd (download_audio svc_silent ''u'' ''/out'' None (start_spinner init_state))) =
     (True, Some 0, [0], 1) \<and>
   coordinator_of (snd (download_video svc_silent ''u'' ''/out'' None (start_spinner init_state))) =
     (True, Some 0, [0], 1) \<and>
   coordinator_of (snd (download_video_protools svc_silent ''u'' ''/out'' None
                          (start_spinner init_state))) =
     (True, Some 0, [0], 1) \<and>
   spinner_running (snd (download_video svc_silent ''u'' ''/out'' None (start_spinner init_state))) =
     spinner_after_attempts svc_silent 0 (video_opts ''/out'' None) ''u'' format_attempts True"
proof -
  have a: "\<not> spinner_running init_state" by (simp add: init_state_def)
  have b: "\<forall>n opts. \<not> spinner_after (fst (svc_completes n opts ''u'')) False"
    by (simp add: svc_completes_def complete_events_balanced)
  have c: "\<forall>n opts. fst (svc_silent n opts ''u'') = []"
    by (simp add: svc_silent_def)
  have d: "coordinator_of (start_spinner init_state) = (True, Some 0, [0], 1)"
    by (simp add: coordinator_of_def start_spinner_def init_state_def)
  have e: "spinner_running (start_spinner init_state)"
    "length (service_calls (start_spinner init_state)) = 0"
    by (simp_all add: start_spinner_def init_state_def)
  note t1 = coordinator_changes_by_events_only [of svc_completes "''u''" "''/out''" None init_state]
  note t2 = coordinator_changes_by_events_only [of svc_silent "''u''" "''/out''" None
         "start_spinner init_state"]
  from t1 a b have idle:
    "\<not> spinner_running (snd (download_audio svc_completes ''u'' ''/out'' None init_state))"
    "\<not> spinner_running (snd (download_video svc_completes ''u'' ''/out'' None init_state))"
    "\<not> spinner_running (snd (download_video_protools svc_completes ''u'' ''/out'' None init_state))"
    by blast+
  from t2 c d have same:
    "coordinator_of (snd (download_audio svc_silent ''u'' ''/out'' None (start_spinner init_state))) =
       (True, Some 0, [0], 1)"
    "coordinator_of (snd (download_video svc_silent ''u'' ''/out'' None (start_spinner init_state))) =
       (True, Some 0, [0], 1)"
    "coordinator_of (snd (download_video_protools svc_silent ''u'' ''/out'' None
                          (start_spinner init_state))) =
       (True, Some 0, [0], 1)"
    by simp_all
  from t2 e have flag:
    "spinner_running (snd (download_video svc_silent ''u'' ''/out'' None (start_spinner init_state))) =
       spinner_after_attempts svc_silent 0 (video_opts ''/out'' None) ''u'' format_attempts True"
    by simp
  from a b c d idle same flag show ?thesis by blast
qed

text \<open>
  C1, as stated, fails: the download completes, the post-processor reports \<open>started\<close> and
  then fails. \<open>download_audio\<close> catches the error and returns normally, and so do
  \<open>download_video\<close> and \<open>download_video_protools\<close> after their three attempts; each was
  entered with the spinner idle and leaves it running, with the renderer thread alive.
\<close>

theorem spinner_left_running_counterexample:
  "\<not> spinner_running init_state \<and>
   fst (download_audio svc_postprocess_fails ''u'' ''/out'' None init_state) = None \<and>
   spinner_running (snd (download_audio svc_postprocess_fails ''u'' ''/out'' None init_state)) \<and>
   threads (snd (download_audio svc_postprocess_fails ''u'' ''/out'' None init_state)) = [0] \<and>
   fst (download_video svc_postprocess_fails ''u'' ''/out'' None init_state) = None \<and>
   spinner_running (snd (download_video svc_postprocess_fails ''u'' ''/out'' None init_state)) \<and>
   fst (download_video_protools svc_postprocess_fails ''u'' ''/out'' None init_state) = None \<and>
   spinner_running (snd (download_video_protools svc_postprocess_fails ''u'' ''/out'' None init_state))"
proof -
  have a: "\<not> spinner_running init_state \<and>
   fst (download_audio svc_postprocess_fails ''u'' ''/out'' None init_state) = None \<and>
   spinner_running (snd (download_audio svc_postprocess_fails ''u'' ''/out'' None init_state)) \<and>
   threads (snd (download_audio svc_postprocess_fails ''u'' ''/out'' None init_state)) = [0]"
    by (simp add: download_audio_def ydl_download_def audio_opts_def svc_postprocess_fails_def
        status_dict_def downloading_dict_def postprocessing_error_def print_progress_def
        post_hook_spinner_def start_spinner_def init_state_def print_line_def print_noend_def
        dict_get_def Let_def)
  have ex: "\<forall>n opts e. snd (svc_postprocess_fails n opts ''u'') = Some e \<longrightarrow> isinstance_Exception e"
    by (simp add: svc_postprocess_fails_def example_classes)
  have run: "\<forall>n opts b. spinner_after (fst (svc_postprocess_fails n opts ''u'')) b"
    by (simp add: postprocess_fails_leaves_running)
  have v: "fst (download_video svc_postprocess_fails ''u'' ''/out'' None init_state) = None"
    using fallback_loop_total [where svc = svc_postprocess_fails and url = "''u''"
        and L = "video_text ''/out'' None" and fmts = format_attempts and s = init_state] ex
    by (simp add: download_video_def download_video_loop_eq)
  have p: "fst (download_video_protools svc_postprocess_fails ''u'' ''/out'' None init_state) = None"
    using fallback_loop_total [where svc = svc_postprocess_fails and url = "''u''"
        and L = "protools_text ''/out'' None" and fmts = base_formats and s = init_state] ex
    by (simp add: download_video_protools_def download_video_protools_loop_eq)
  have nv: "format_attempts \<noteq> [] \<or> spinner_running init_state"
    by (simp add: format_attempts_def)
  have np: "base_formats \<noteq> [] \<or> spinner_running init_state"
    by (simp add: base_formats_def)
  have rv: "spinner_running (snd (download_video svc_postprocess_fails ''u'' ''/out'' None init_state))"
    using fallback_loop_running [where L = "video_text ''/out'' None" and url = "''u''"
        and svc = svc_postprocess_fails and s = init_state and fmts = format_attempts]
      video_hooks run nv
    by (simp add: download_video_def download_video_loop_eq)
  have rp: "spinner_running
      (snd (download_video_protools svc_postprocess_fails ''u'' ''/out'' None init_state))"
    using fallback_loop_running [where L = "protools_text ''/out'' None" and url = "''u''"
        and svc = svc_postprocess_fails and s = init_state and fmts = base_formats]
      protools_hooks run np
    by (simp add: download_video_protools_def download_video_protools_loop_eq)
  from a v p rv rp show ?thesis by blast
qed

text \<open>
  C2, as the code has it. The loops classify an exception by its class alone, never by
  its cause. When attempt \<open>k\<close> is reached and raises \<open>e\<close>: if \<open>e\<close> is a \<open>DownloadError\<close> and
  the plan has a next format, the service is invoked for that format too (the failure
  is recoverable, whatever caused it); if \<open>e\<close> is any other \<open>Exception\<close>, the function
  returns normally after exactly the attempts \<open>0..k\<close> (the failure is unrecoverable).
  In both cases the failure is reported with the text of the exception (\<open>Falhou:\<close> for a
  \<open>DownloadError\<close>, \<open>Erro inesperado:\<close> otherwise), and the selectors handed to the
  service are those of the plan, in plan order, up to the last attempt made.
\<close>

theorem classification_by_exception_class:
  assumes "k < length fmts"
  shows "(reached (video_results svc s op ff url fmts) k \<and>
          video_results svc s op ff url fmts ! k = Some e \<longrightarrow>
            (exn_class e = DownloadError \<and> Suc k < length fmts \<longrightarrow>
               (\<exists>m. Suc (Suc k) \<le> m \<and> m \<le> length fmts \<and>
                  service_calls (snd (download_video_loop svc url op ff fmts s)) =
                    service_calls s @ map (video_opts op ff) (take m fmts))) \<and>
            (exn_class e = KeyError \<or> exn_class e = OtherException \<longrightarrow>
               fst (download_video_loop svc url op ff fmts s) = None \<and>
               service_calls (snd (download_video_loop svc url op ff fmts s)) =
                 service_calls s @ map (video_opts op ff) (take (Suc k) fmts))) \<and>
         (reached (protools_results svc s op ff url fmts) k \<and>
          protools_results svc s op ff url fmts ! k = Some e \<longrightarrow>
            (exn_class e = DownloadError \<and> Suc k < length fmts \<longrightarrow>
               (\<exists>m. Suc (Suc k) \<le> m \<and> m \<le> length fmts \<and>
                  service_calls (snd (download_video_protools_loop svc url op ff fmts s)) =
                    service_calls s @ map (protools_opts op ff) (take m fmts))) \<and>
            (exn_class e = KeyError \<or> exn_class e = OtherException \<longrightarrow>
               fst (download_video_protools_loop svc url op ff fmts s) = None \<and>
               service_calls (snd (download_video_protools_loop svc url op ff fmts s)) =
                 service_calls s @ map (protools_opts op ff) (take (Suc k) fmts))) \<and>
         (reached (video_results svc s op ff url fmts) k \<and>
          video_results svc s op ff url fmts ! k = Some e \<and> isinstance_Exception e \<longrightarrow>
            (if exn_class e = DownloadError
               then [CHR 0xE2, CHR 0x9A, CHR 0xA0, CHR 0xEF, CHR 0xB8, CHR 0x8F] @ '' Falhou: '' @ message e
                    @ ''\<newline>''
               else [CHR 0xE2, CHR 0x9D, CHR 0x8C] @ '' Erro inesperado: '' @ message e
                    @ ''\<newline>'')
              \<in> set (stdout (snd (download_video_loop svc url op ff fmts s))) \<and>
            (\<exists>m. Suc k \<le> m \<and> m \<le> length fmts \<and>
               map format (service_calls (snd (download_video_loop svc url op ff fmts s))) =
                 map format (service_calls s) @ take m fmts)) \<and>
         (reached (protools_results svc s op ff url fmts) k \<and>
          protools_results svc s op ff url fmts ! k = Some e \<and> isinstance_Exception e \<longrightarrow>
            (if exn_class e = DownloadError
               then [CHR 0xE2, CHR 0x9A, CHR 0xA0, CHR 0xEF, CHR 0xB8, CHR 0x8F] @ '' Falhou formato ''
                    @ [CHR 0x27] @ fmts ! k @ [CHR 0x27] @ '': '' @ message e @ ''\<newline>''
               else [CHR 0xE2, CHR 0x9D, CHR 0x8C] @ '' Erro inesperado: '' @ message e
                    @ ''\<newline>'')
              \<in> set (stdout (snd (download_video_protools_loop svc url op ff fmts s))) \<and>
            (\<exists>m. Suc k \<le> m \<and> m \<le> length fmts \<and>
               map format (service_calls (snd (download_video_protools_loop svc url op ff fmts s))) =
                 map format (service_calls s) @ take m fmts))"
proof (intro conjI)
  show "reached (video_results svc s op ff url fmts) k \<and>
          video_results svc s op ff url fmts ! k = Some e \<longrightarrow>
            (exn_class e = DownloadError \<and> Suc k < length fmts \<longrightarrow>
               (\<exists>m. Suc (Suc k) \<le> m \<and> m \<le> length fmts \<and>
                  service_calls (snd (download_video_loop svc url op ff fmts s)) =
                    service_calls s @ map (video_opts op ff) (take m fmts))) \<and>
            (exn_class e = KeyError \<or> exn_class e = OtherException \<longrightarrow>
               fst (download_video_loop svc url op ff fmts s) = None \<and>
               service_calls (snd (download_video_loop svc url op ff fmts s)) =
                 service_calls s @ map (video_opts op ff) (take (Suc k) fmts))"
  proof
    assume a: "reached (video_results svc s op ff url fmts) k \<and>
               video_results svc s op ff url fmts ! k = Some e"
    have rs: "video_results svc s op ff url fmts =
        attempt_results svc (length (service_calls s)) (mk_opts (video_text op ff)) url fmts"
      by (simp add: video_results_def)
    from a have r: "reached (video_results svc s op ff url fmts) k"
      and e: "video_results svc s op ff url fmts ! k = Some e" by simp_all
    from fallback_classification [OF assms rs r e]
    show "(exn_class e = DownloadError \<and> Suc k < length fmts \<longrightarrow>
               (\<exists>m. Suc (Suc k) \<le> m \<and> m \<le> length fmts \<and>
                  service_calls (snd (download_video_loop svc url op ff fmts s)) =
                    service_calls s @ map (video_opts op ff) (take m fmts))) \<and>
            (exn_class e = KeyError \<or> exn_class e = OtherException \<longrightarrow>
               fst (download_video_loop svc url op ff fmts s) = None \<and>
               service_calls (snd (download_video_loop svc url op ff fmts s)) =
                 service_calls s @ map (video_opts op ff) (take (Suc k) fmts))"
      by (simp add: download_video_loop_eq)
  qed
next
  show "reached (protools_results svc s op ff url fmts) k \<and>
          protools_results svc s op ff url fmts ! k = Some e \<longrightarrow>
            (exn_class e = DownloadError \<and> Suc k < length fmts \<longrightarrow>
               (\<exists>m. Suc (Suc k) \<le> m \<and> m \<le> length fmts \<and>
                  service_calls (snd (download_video_protools_loop svc url op ff fmts s)) =
                    service_calls s @ map (protools_opts op ff) (take m fmts))) \<and>
            (exn_class e = KeyError \<or> exn_class e = OtherException \<longrightarrow>
               fst (download_video_protools_loop svc url op ff fmts s) = None \<and>
               service_calls (snd (download_video_protools_loop svc url op ff fmts s)) =
                 service_calls s @ map (protools_opts op ff) (take (Suc k) fmts))"
  proof
    assume a: "reached (protools_results svc s op ff url fmts) k \<and>
               protools_results svc s op ff url fmts ! k = Some e"
    have rs: "protools_results svc s op ff url fmts =
        attempt_results svc (length (service_calls s)) (mk_opts (protools_text op ff)) url fmts"
      by (simp add: protools_results_def)
    from a have r: "reached (protools_results svc s op ff url fmts) k"
      and e: "protools_results svc s op ff url fmts ! k = Some e" by simp_all
    from fallback_classification [OF assms rs r e]
    show "(exn_class e = DownloadError \<and> Suc k < length fmts \<longrightarrow>
               (\<exists>m. Suc (Suc k) \<le> m \<and> m \<le> length fmts \<and>
                  service_calls (snd (download_video_protools_loop svc url op ff fmts s)) =
                    service_calls s @ map (protools_opts op ff) (take m fmts))) \<and>
            (exn_class e = KeyError \<or> exn_class e = OtherException \<longrightarrow>
               fst (download_video_protools_loop svc url op ff fmts s) = None \<and>
               service_calls (snd (download_video_protools_loop svc url op ff fmts s)) =
                 service_calls s @ map (protools_opts op ff) (take (Suc k) fmts))"
      by (simp add: download_video_protools_loop_eq)
  qed
next
  show "reached (video_results svc s op ff url fmts) k \<and>
          video_results svc s op ff url fmts ! k = Some e \<and> isinstance_Exception e \<longrightarrow>
            (if exn_class e = DownloadError
               then [CHR 0xE2, CHR 0x9A, CHR 0xA0, CHR 0xEF, CHR 0xB8, CHR 0x8F] @ '' Falhou: '' @ message e
                    @ ''\<newline>''
               else [CHR 0xE2, CHR 0x9D, CHR 0x8C] @ '' Erro inesperado: '' @ message e
                    @ ''\<newline>'')
              \<in> set (stdout (snd (download_video_loop svc url op ff fmts s))) \<and>
            (\<exists>m. Suc k \<le> m \<and> m \<le> length fmts \<and>
               map format (service_calls (snd (download_video_loop svc url op ff fmts s))) =
                 map format (service_calls s) @ take m fmts)"
  proof
    assume a: "reached (video_results svc s op ff url fmts) k \<and>
          video_results svc s op ff url fmts ! k = Some e \<and> isinstance_Exception e"
    have rs: "video_results svc s op ff url fmts =
        attempt_results svc (length (service_calls s)) (mk_opts (video_text op ff)) url fmts"
      by (simp add: video_results_def)
    from a have r: "reached (video_results svc s op ff url fmts) k"
      and e: "video_results svc s op ff url fmts ! k = Some e"
      and ex: "isinstance_Exception e" by simp_all
    from fallback_loop_reports [OF assms rs r e ex]
    have "(if isinstance_DownloadError e then video_failed_line e else unexpected_line e) @ NL
            \<in> set (stdout (snd (download_video_loop svc url op ff fmts s)))"
      by (simp add: download_video_loop_eq cong: if_cong)
    then have line: "(if exn_class e = DownloadError
               then [CHR 0xE2, CHR 0x9A, CHR 0xA0, CHR 0xEF, CHR 0xB8, CHR 0x8F] @ '' Falhou: '' @ message e
                    @ ''\<newline>''
               else [CHR 0xE2, CHR 0x9D, CHR 0x8C] @ '' Erro inesperado: '' @ message e
                    @ ''\<newline>'')
              \<in> set (stdout (snd (download_video_loop svc url op ff fmts s)))"
      by (simp add: line_defs split: if_splits)
    from assms rs have kr: "k < length (video_results svc s op ff url fmts)" by simp
    from executed_reached [OF kr r]
    have lo: "Suc k \<le> executed (video_results svc s op ff url fmts)" by simp
    from executed_le_length [of "video_results svc s op ff url fmts"] rs
    have hi: "executed (video_results svc s op ff url fmts) \<le> length fmts" by simp
    from fallback_loop_calls [of "video_text op ff" svc url fmts s] rs
    have "service_calls (snd (download_video_loop svc url op ff fmts s)) =
        service_calls s @ map (video_opts op ff)
          (take (executed (video_results svc s op ff url fmts)) fmts)"
      by (simp add: download_video_loop_eq)
    then have "map format (service_calls (snd (download_video_loop svc url op ff fmts s))) =
        map format (service_calls s) @ take (executed (video_results svc s op ff url fmts)) fmts"
      by (simp add: video_opts_def comp_def)
    with lo hi have "\<exists>m. Suc k \<le> m \<and> m \<le> length fmts \<and>
               map format (service_calls (snd (download_video_loop svc url op ff fmts s))) =
                 map format (service_calls s) @ take m fmts"
      by blast
    with line show "(if exn_class e = DownloadError
               then [CHR 0xE2, CHR 0x9A, CHR 0xA0, CHR 0xEF, CHR 0xB8, CHR 0x8F] @ '' Falhou: '' @ message e
                    @ ''\<newline>''
               else [CHR 0xE2, CHR 0x9D, CHR 0x8C] @ '' Erro inesperado: '' @ message e
                    @ ''\<newline>'')
              \<in> set (stdout (snd (download_video_loop svc url op ff fmts s))) \<and>
            (\<exists>m. Suc k \<le> m \<and> m \<le> length fmts \<and>
               map format (service_calls (snd (download_video_loop svc url op ff fmts s))) =
                 map format (service_calls s) @ take m fmts)"
      by blast
  qed
next
  show "reached (protools_results svc s op ff url fmts) k \<and>
          protools_results svc s op ff url fmts ! k = Some e \<and> isinstance_Exception e \<longrightarrow>
            (if exn_class e = DownloadError
               then [CHR 0xE2, CHR 0x9A, CHR 0xA0, CHR 0xEF, CHR 0xB8, CHR 0x8F] @ '' Falhou formato ''
                    @ [CHR 0x27] @ fmts ! k @ [CHR 0x27] @ '': '' @ message e @ ''\<newline>''
               else [CHR 0xE2, CHR 0x9D, CHR 0x8C] @ '' Erro inesperado: '' @ message e
                    @ ''\<newline>'')
              \<in> set (stdout (snd (download_video_protools_loop svc url op ff fmts s))) \<and>
            (\<exists>m. Suc k \<le> m \<and> m \<le> length fmts \<and>
               map format (service_calls (snd (download_video_protools_loop svc url op ff fmts s))) =
                 map format (service_calls s) @ take m fmts)"
  proof
    assume a: "reached (protools_results svc s op ff url fmts) k \<and>
          protools_results svc s op ff url fmts ! k = Some e \<and> isinstance_Exception e"
    have rs: "protools_results svc s op ff url fmts =
        attempt_results svc (length (service_calls s)) (mk_opts (protools_text op ff)) url fmts"
      by (simp add: protools_results_def)
    from a have r: "reached (protools_results svc s op ff url fmts) k"
      and e: "protools_results svc s op ff url fmts ! k = Some e"
      and ex: "isinstance_Exception e" by simp_all
    from fallback_loop_reports [OF assms rs r e ex]
    have "(if isinstance_DownloadError e then protools_failed_line (fmts ! k) e else unexpected_line e) @ NL
            \<in> set (stdout (snd (download_video_protools_loop svc url op ff fmts s)))"
      by (simp add: download_video_protools_loop_eq cong: if_cong)
    then have line: "(if exn_class e = DownloadError
               then [CHR 0xE2, CHR 0x9A, CHR 0xA0, CHR 0xEF, CHR 0xB8, CHR 0x8F] @ '' Falhou formato ''
                    @ [CHR 0x27] @ fmts ! k @ [CHR 0x27] @ '': '' @ message e @ ''\<newline>''
               else [CHR 0xE2, CHR 0x9D, CHR 0x8C] @ '' Erro inesperado: '' @ message e
                    @ ''\<newline>'')
              \<in> set (stdout (snd (download_video_protools_loop svc url op ff fmts s)))"
      by (simp add: line_defs split: if_splits)
    from assms rs have kr: "k < length (protools_results svc s op ff url fmts)" by simp
    from executed_reached [OF kr r]
    have lo: "Suc k \<le> executed (protools_results svc s op ff url fmts)" by simp
    from executed_le_length [of "protools_results svc s op ff url fmts"] rs
    have hi: "executed (protools_results svc s op ff url fmts) \<le> length fmts" by simp
    from fallback_loop_calls [of "protools_text op ff" svc url fmts s] rs
    have "service_calls (snd (download_video_protools_loop svc url op ff fmts s)) =
        service_calls s @ map (protools_opts op ff)
          (take (executed (protools_results svc s op ff url fmts)) fmts)"
      by (simp add: download_video_protools_loop_eq)
    then have "map format (service_calls (snd (download_video_protools_loop svc url op ff fmts s))) =
        map format (service_calls s) @ take (executed (protools_results svc s op ff url fmts)) fmts"
      by (simp add: protools_opts_def comp_def)
    with lo hi have "\<exists>m. Suc k \<le> m \<and> m \<le> length fmts \<and>
               map format (service_calls (snd (download_video_protools_loop svc url op ff fmts s))) =
                 map format (service_calls s) @ take m fmts"
      by blast
    with line show "(if exn_class e = DownloadError
               then [CHR 0xE2, CHR 0x9A, CHR 0xA0, CHR 0xEF, CHR 0xB8, CHR 0x8F] @ '' Falhou formato ''
                    @ [CHR 0x27] @ fmts ! k @ [CHR 0x27] @ '': '' @ message e @ ''\<newline>''
               else [CHR 0xE2, CHR 0x9D, CHR 0x8C] @ '' Erro inesperado: '' @ message e
                    @ ''\<newline>'')
              \<in> set (stdout (snd (download_video_protools_loop svc url op ff fmts s))) \<and>
            (\<exists>m. Suc k \<le> m \<and> m \<le> length fmts \<and>
               map format (service_calls (snd (download_video_protools_loop svc url op ff fmts s))) =
                 map format (service_calls s) @ take m fmts)"
      by blast
  qed
qed

theorem classification_by_exception_class_witness:
  "0 < length format_attempts \<and>
   reached (video_results svc_network_down_once init_state ''/out'' None ''u'' format_attempts) 0 \<and>
   video_results svc_network_down_once init_state ''/out'' None ''u'' format_attempts ! 0 =
     Some network_error \<and>
   exn_class network_error = DownloadError \<and> cause network_error = NetworkFailure \<and>
   Suc 0 < length format_attempts \<and>
   (\<exists>m. Suc (Suc 0) \<le> m \<and> m \<le> length format_attempts \<and>
      service_calls (snd (download_video svc_network_down_once ''u'' ''/out'' None init_state)) =
        map (video_opts ''/out'' None) (take m format_attempts)) \<and>
   reached (protools_results svc_crash_on_second init_state ''/out'' None ''u'' base_formats) (Suc 0) \<and>
   protools_results svc_crash_on_second init_state ''/out'' None ''u'' base_formats ! Suc 0 =
     Some engine_crash \<and>
   exn_class engine_crash = OtherException \<and>
   fst (download_video_protools svc_crash_on_second ''u'' ''/out'' None init_state) = None \<and>
   service_calls (snd (download_video_protools svc_crash_on_second ''u'' ''/out'' None init_state)) =
     [protools_opts ''/out'' None (base_formats ! 0), protools_opts ''/out'' None (base_formats ! 1)]"
proof -
  have l: "0 < length format_attempts" "Suc 0 < length format_attempts"
    "Suc 0 < length base_formats"
    by (simp_all add: plan_lengths)
  have v: "reached (video_results svc_network_down_once init_state ''/out'' None ''u'' format_attempts) 0"
    "video_results svc_network_down_once init_state ''/out'' None ''u'' format_attempts ! 0 =
       Some network_error"
    by (simp_all add: network_down_once_results reached_def)
  have p: "reached (protools_results svc_crash_on_second init_state ''/out'' None ''u'' base_formats) (Suc 0)"
    "protools_results svc_crash_on_second init_state ''/out'' None ''u'' base_formats ! Suc 0 =
       Some engine_crash"
    by (simp_all add: crash_on_second_results reached_def example_classes)
  from classification_by_exception_class [OF l(1), of svc_network_down_once init_state "''/out''" None
         "''u''" network_error]
       classification_by_exception_class [OF l(3), of svc_crash_on_second init_state "''/out''" None
         "''u''" engine_crash]
       l v p
  show ?thesis
    by (simp add: download_video_def download_video_protools_def service_calls_init plan_prefixes
        example_classes)
qed

text \<open>
  C2, as stated, fails: the network is down for the first attempt and the service
  reports it as a \<open>DownloadError\<close>. The claim has a network error abort the plan; both
  loops go on to the second format, which succeeds.
\<close>

theorem network_error_is_retried_counterexample:
  "cause network_error = NetworkFailure \<and>
   video_results svc_network_down_once init_state ''/out'' None ''u'' format_attempts ! 0 =
     Some network_error \<and>
   service_calls (snd (download_video svc_network_down_once ''u'' ''/out'' None init_state)) =
     [video_opts ''/out'' None (format_attempts ! 0), video_opts ''/out'' None (format_attempts ! 1)] \<and>
   last (stdout (snd (download_video svc_network_down_once ''u'' ''/out'' None init_state))) =
     video_done_line @ NL \<and>
   protools_results svc_network_down_once init_state ''/out'' None ''u'' base_formats ! 0 =
     Some network_error \<and>
   service_calls (snd (download_video_protools svc_network_down_once ''u'' ''/out'' None init_state)) =
     [protools_opts ''/out'' None (base_formats ! 0), protools_opts ''/out'' None (base_formats ! 1)] \<and>
   last (stdout (snd (download_video_protools svc_network_down_once ''u'' ''/out'' None init_state))) =
     protools_done_line @ NL"
proof -
  have l: "Suc 0 < length format_attempts" "Suc 0 < length base_formats"
    by (simp_all add: plan_lengths)
  have rv: "video_results svc_network_down_once init_state ''/out'' None ''u'' format_attempts =
      attempt_results svc_network_down_once (length (service_calls init_state))
        (mk_opts (video_text ''/out'' None)) ''u'' format_attempts"
    by (simp add: video_results_def)
  have rp: "protools_results svc_network_down_once init_state ''/out'' None ''u'' base_formats =
      attempt_results svc_network_down_once (length (service_calls init_state))
        (mk_opts (protools_text ''/out'' None)) ''u'' base_formats"
    by (simp add: protools_results_def)
  have v: "video_results svc_network_down_once init_state ''/out'' None ''u'' format_attempts ! Suc 0 = None"
    "reached (video_results svc_network_down_once init_state ''/out'' None ''u'' format_attempts) (Suc 0)"
    "video_results svc_network_down_once init_state ''/out'' None ''u'' format_attempts ! 0 =
       Some network_error"
    by (simp_all add: network_down_once_results reached_def example_classes)
  have p: "protools_results svc_network_down_once init_state ''/out'' None ''u'' base_formats ! Suc 0 = None"
    "reached (protools_results svc_network_down_once init_state ''/out'' None ''u'' base_formats) (Suc 0)"
    "protools_results svc_network_down_once init_state ''/out'' None ''u'' base_formats ! 0 =
       Some network_error"
    by (simp_all add: network_down_once_results reached_def example_classes)
  from fallback_first_success [OF l(1) rv v(1)] fallback_first_success [OF l(2) rp p(1)] v p
  show ?thesis
    by (simp add: download_video_def download_video_protools_def download_video_loop_eq
        download_video_protools_loop_eq service_calls_init plan_prefixes example_classes)
qed

text \<open>
  C3. Negotiation stops at the first success. For every plan \<open>fmts\<close> and index \<open>k\<close>, in
  \<open>download_video\<close> (its loop over any plan) and in \<open>download_video_protools\<close> alike: if
  attempt \<open>k\<close> returns without an exception, the service is never invoked for an attempt
  after \<open>k\<close>, whatever the earlier attempts did; and when attempt \<open>k\<close> is reached, the
  function returns normally after exactly the attempts \<open>0..k\<close>, the last invocation is
  that of format \<open>k\<close>, the selectors handed to the service are the selectors \<open>0..k\<close> of
  the plan, and the last line printed is the success line (the check box and
  \<open>Download de video concluido!\<close>, for Pro Tools \<open>Video PT concluido!\<close>, with their accents).
\<close>

theorem first_success_ends_negotiation:
  assumes "k < length fmts"
  shows "(video_results svc s op ff url fmts ! k = None \<longrightarrow>
            (\<exists>m\<le>Suc k. service_calls (snd (download_video_loop svc url op ff fmts s)) =
               service_calls s @ map (video_opts op ff) (take m fmts)) \<and>
            (reached (video_results svc s op ff url fmts) k \<longrightarrow>
               fst (download_video_loop svc url op ff fmts s) = None \<and>
               service_calls (snd (download_video_loop svc url op ff fmts s)) =
                 service_calls s @ map (video_opts op ff) (take (Suc k) fmts) \<and>
               last (stdout (snd (download_video_loop svc url op ff fmts s))) =
                 video_done_line @ NL \<and>
               map format (service_calls (snd (download_video_loop svc url op ff fmts s))) =
                 map format (service_calls s) @ take (Suc k) fmts \<and>
               last (stdout (snd (download_video_loop svc url op ff fmts s))) =
                 [CHR 0xE2, CHR 0x9C, CHR 0x85] @ '' Download de v'' @ [CHR 0xC3, CHR 0xAD] @ ''deo conclu'' @ [CHR 0xC3, CHR 0xAD]
                 @ ''do!\<newline>'')) \<and>
         (protools_results svc s op ff url fmts ! k = None \<longrightarrow>
            (\<exists>m\<le>Suc k. service_calls (snd (download_video_protools_loop svc url op ff fmts s)) =
               service_calls s @ map (protools_opts op ff) (take m fmts)) \<and>
            (reached (protools_results svc s op ff url fmts) k \<longrightarrow>
               fst (download_video_protools_loop svc url op ff fmts s) = None \<and>
               service_calls (snd (download_video_protools_loop svc url op ff fmts s)) =
                 service_calls s @ map (protools_opts op ff) (take (Suc k) fmts) \<and>
               last (stdout (snd (download_video_protools_loop svc url op ff fmts s))) =
                 protools_done_line @ NL \<and>
               map format (service_calls (snd (download_video_protools_loop svc url op ff fmts s))) =
                 map format (service_calls s) @ take (Suc k) fmts \<and>
               last (stdout (snd (download_video_protools_loop svc url op ff fmts s))) =
                 [CHR 0xE2, CHR 0x9C, CHR 0x85] @ '' V'' @ [CHR 0xC3, CHR 0xAD] @ ''deo PT conclu'' @ [CHR 0xC3, CHR 0xAD]
                 @ ''do!\<newline>''))"
proof (intro conjI impI)
  assume a: "video_results svc s op ff url fmts ! k = None"
  have rs: "video_results svc s op ff url fmts =
      attempt_results svc (length (service_calls s)) (mk_opts (video_text op ff)) url fmts"
    by (simp add: video_results_def)
  note g = fallback_first_success [OF assms rs a]
  from g show "\<exists>m\<le>Suc k. service_calls (snd (download_video_loop svc url op ff fmts s)) =
               service_calls s @ map (video_opts op ff) (take m fmts)"
    by (simp add: download_video_loop_eq)
  assume r: "reached (video_results svc s op ff url fmts) k"
  from g r show "fst (download_video_loop svc url op ff fmts s) = None"
    by (simp add: download_video_loop_eq)
  from g r show "service_calls (snd (download_video_loop svc url op ff fmts s)) =
                 service_calls s @ map (video_opts op ff) (take (Suc k) fmts)"
    by (simp add: download_video_loop_eq)
  from g r show "last (stdout (snd (download_video_loop svc url op ff fmts s))) =
                 video_done_line @ NL"
    by (simp add: download_video_loop_eq)
  from g r have c: "service_calls (snd (download_video_loop svc url op ff fmts s)) =
                 service_calls s @ map (video_opts op ff) (take (Suc k) fmts)"
    by (simp add: download_video_loop_eq)
  show "map format (service_calls (snd (download_video_loop svc url op ff fmts s))) =
                 map format (service_calls s) @ take (Suc k) fmts"
    unfolding c by (simp add: video_opts_def comp_def)
  from g r show "last (stdout (snd (download_video_loop svc url op ff fmts s))) =
                 [CHR 0xE2, CHR 0x9C, CHR 0x85] @ '' Download de v'' @ [CHR 0xC3, CHR 0xAD] @ ''deo conclu'' @ [CHR 0xC3, CHR 0xAD]
                 @ ''do!\<newline>''"
    by (simp add: download_video_loop_eq line_defs)
next
  assume a: "protools_results svc s op ff url fmts ! k = None"
  have rs: "protools_results svc s op ff url fmts =
      attempt_results svc (length (service_calls s)) (mk_opts (protools_text op ff)) url fmts"
    by (simp add: protools_results_def)
  note g = fallback_first_success [OF assms rs a]
  from g show "\<exists>m\<le>Suc k. service_calls (snd (download_video_protools_loop svc url op ff fmts s)) =
               service_calls s @ map (protools_opts op ff) (take m fmts)"
    by (simp add: download_video_protools_loop_eq)
  assume r: "reached (protools_results svc s op ff url fmts) k"
  from g r show "fst (download_video_protools_loop svc url op ff fmts s) = None"
    by (simp add: download_video_protools_loop_eq)
  from g r show "service_calls (snd (download_video_protools_loop svc url op ff fmts s)) =
                 service_calls s @ map (protools_opts op ff) (take (Suc k) fmts)"
    by (simp add: download_video_protools_loop_eq)
  from g r show "last (stdout (snd (download_video_protools_loop svc url op ff fmts s))) =
                 protools_done_line @ NL"
    by (simp add: download_video_protools_loop_eq)
  from g r have c: "service_calls (snd (download_video_protools_loop svc url op ff fmts s)) =
                 service_calls s @ map (protools_opts op ff) (take (Suc k) fmts)"
    by (simp add: download_video_protools_loop_eq)
  show "map format (service_calls (snd (download_video_protools_loop svc url op ff fmts s))) =
                 map format (service_calls s) @ take (Suc k) fmts"
    unfolding c by (simp add: protools_opts_def comp_def)
  from g r show "last (stdout (snd (download_video_protools_loop svc url op ff fmts s))) =
                 [CHR 0xE2, CHR 0x9C, CHR 0x85] @ '' V'' @ [CHR 0xC3, CHR 0xAD] @ ''deo PT conclu'' @ [CHR 0xC3, CHR 0xAD]
                 @ ''do!\<newline>''"
    by (simp add: download_video_protools_loop_eq line_defs)
qed

theorem first_success_ends_negotiation_witness:
  "Suc 0 < length format_attempts \<and>
   video_results svc_second_succeeds init_state ''/out'' None ''u'' format_attempts ! Suc 0 = None \<and>
   reached (video_results svc_second_succeeds init_state ''/out'' None ''u'' format_attempts) (Suc 0) \<and>
   fst (download_video svc_second_succeeds ''u'' ''/out'' None init_state) = None \<and>
   service_calls (snd (download_video svc_second_succeeds ''u'' ''/out'' None init_state)) =
     [video_opts ''/out'' None (format_attempts ! 0), video_opts ''/out'' None (format_attempts ! 1)] \<and>
   last (stdout (snd (download_video svc_second_succeeds ''u'' ''/out'' None init_state))) =
     video_done_line @ NL \<and>
   Suc 0 < length base_formats \<and>
   protools_results svc_second_succeeds init_state ''/out'' None ''u'' base_formats ! Suc 0 = None \<and>
   reached (protools_results svc_second_succeeds init_state ''/out'' None ''u'' base_formats) (Suc 0) \<and>
   fst (download_video_protools svc_second_succeeds ''u'' ''/out'' None init_state) = None \<and>
   service_calls (snd (download_video_protools svc_second_succeeds ''u'' ''/out'' None init_state)) =
     [protools_opts ''/out'' None (base_formats ! 0), protools_opts ''/out'' None (base_formats ! 1)] \<and>
   last (stdout (snd (download_video_protools svc_second_succeeds ''u'' ''/out'' None init_state))) =
     protools_done_line @ NL"
proof -
  have l: "Suc 0 < length format_attempts" "Suc 0 < length base_formats"
    by (simp_all add: plan_lengths)
  have v: "video_results svc_second_succeeds init_state ''/out'' None ''u'' format_attempts ! Suc 0 = None"
    "reached (video_results svc_second_succeeds init_state ''/out'' None ''u'' format_attempts) (Suc 0)"
    by (simp_all add: second_succeeds_results reached_def example_classes)
  have p: "protools_results svc_second_succeeds init_state ''/out'' None ''u'' base_formats ! Suc 0 = None"
    "reached (protools_results svc_second_succeeds init_state ''/out'' None ''u'' base_formats) (Suc 0)"
    by (simp_all add: second_succeeds_results reached_def example_classes)
  from first_success_ends_negotiation [OF l(1), of svc_second_succeeds init_state "''/out''" None "''u''"]
       first_success_ends_negotiation [OF l(2), of svc_second_succeeds init_state "''/out''" None "''u''"]
       l v p
  show ?thesis
    by (simp add: download_video_def download_video_protools_def service_calls_init plan_prefixes)
qed

text \<open>
  C4. Negotiation goes on past recoverable failures, in plan order. For every plan and
  index \<open>k\<close>, in both loops: if the attempts before \<open>k\<close> each raise \<open>DownloadError\<close> and
  attempt \<open>k\<close> returns, the function returns normally and the service was invoked
  exactly for the formats \<open>0..k\<close> of the plan, in plan order, each time with the options
  the source builds around that selector (written out below). What the function prints
  holds, in this order, for every failed attempt the line announcing its selector
  (\<open>Tentando formato:\<close>, \<open>Formato PT:\<close>) and the line with its error (\<open>Falhou:\<close> and the
  text of the exception; for Pro Tools \<open>Falhou formato\<close>, the selector in quotes and the
  text), then the line announcing selector \<open>k\<close> and the success line.
\<close>

theorem fallback_continues_in_plan_order:
  assumes "k < length fmts"
  shows "(reached (video_results svc s op ff url fmts) k \<and>
          video_results svc s op ff url fmts ! k = None \<longrightarrow>
            fst (download_video_loop svc url op ff fmts s) = None \<and>
            service_calls (snd (download_video_loop svc url op ff fmts s)) =
              service_calls s @
              map (\<lambda>fmt. \<lparr>format = fmt,
                          outtmpl = os_path_join op ''%(title)s.%(ext)s'',
                          merge_output_format = Some ''mp4'',
                          ffmpeg_location = ff,
                          concurrent_fragment_downloads = None,
                          noprogress = False,
                          progress_hooks = [print_progress_hook],
                          postprocessors = [],
                          postprocessor_hooks = [post_hook_spinner_hook],
                          postprocessor_args = []\<rparr>)
                (take (Suc k) fmts) \<and>
            (\<exists>ext. stdout (snd (download_video_loop svc url op ff fmts s)) = stdout s @ ext \<and>
               subseq
                 (failure_lines
                    (\<lambda>fmt. ''\<newline>'' @ [CHR 0xE2, CHR 0x8F, CHR 0xB3] @ '' Tentando formato: ''
                           @ fmt @ ''\<newline>'')
                    (\<lambda>fmt e. [CHR 0xE2, CHR 0x9A, CHR 0xA0, CHR 0xEF, CHR 0xB8, CHR 0x8F]
                             @ '' Falhou: '' @ message e @ ''\<newline>'')
                    (take k fmts) (take k (video_results svc s op ff url fmts))
                  @ [''\<newline>'' @ [CHR 0xE2, CHR 0x8F, CHR 0xB3] @ '' Tentando formato: ''
                       @ fmts ! k @ ''\<newline>'',
                     [CHR 0xE2, CHR 0x9C, CHR 0x85] @ '' Download de v'' @ [CHR 0xC3, CHR 0xAD]
                       @ ''deo conclu'' @ [CHR 0xC3, CHR 0xAD] @ ''do!\<newline>''])
                 ext)) \<and>
         (reached (protools_results svc s op ff url fmts) k \<and>
          protools_results svc s op ff url fmts ! k = None \<longrightarrow>
            fst (download_video_protools_loop svc url op ff fmts s) = None \<and>
            service_calls (snd (download_video_protools_loop svc url op ff fmts s)) =
              service_calls s @
              map (\<lambda>fmt. \<lparr>format = fmt,
                          outtmpl = os_path_join op ''%(title)s.%(ext)s'',
                          merge_output_format = Some ''mp4'',
                          ffmpeg_location = ff,
                          concurrent_fragment_downloads = None,
                          noprogress = False,
                          progress_hooks = [print_progress_hook],
                          postprocessors = [],
                          postprocessor_hooks = [post_hook_spinner_hook],
                          postprocessor_args =
                            [''-vcodec'', ''libx264'', ''-preset'', ''fast'', ''-crf'', ''20'',
                             ''-acodec'', ''aac'', ''-b:a'', ''320k'', ''-movflags'',
                             ''+faststart'']\<rparr>)
                (take (Suc k) fmts) \<and>
            (\<exists>ext. stdout (snd (download_video_protools_loop svc url op ff fmts s)) = stdout s @ ext \<and>
               subseq
                 (failure_lines
                    (\<lambda>fmt. ''\<newline>'' @ [CHR 0xE2, CHR 0x8F, CHR 0xB3] @ '' Formato PT: ''
                           @ fmt @ ''\<newline>'')
                    (\<lambda>fmt e. [CHR 0xE2, CHR 0x9A, CHR 0xA0, CHR 0xEF, CHR 0xB8, CHR 0x8F]
                             @ '' Falhou formato '' @ [CHR 0x27] @ fmt @ [CHR 0x27] @ '': ''
                             @ message e @ ''\<newline>'')
                    (take k fmts) (take k (protools_results svc s op ff url fmts))
                  @ [''\<newline>'' @ [CHR 0xE2, CHR 0x8F, CHR 0xB3] @ '' Formato PT: ''
                       @ fmts ! k @ ''\<newline>'',
                     [CHR 0xE2, CHR 0x9C, CHR 0x85] @ '' V'' @ [CHR 0xC3, CHR 0xAD]
                       @ ''deo PT conclu'' @ [CHR 0xC3, CHR 0xAD] @ ''do!\<newline>''])
                 ext))"
proof (intro conjI impI)
  assume a: "reached (video_results svc s op ff url fmts) k \<and>
             video_results svc s op ff url fmts ! k = None"
  have rs: "video_results svc s op ff url fmts =
      attempt_results svc (length (service_calls s)) (mk_opts (video_text op ff)) url fmts"
    by (simp add: video_results_def)
  from a have r: "reached (video_results svc s op ff url fmts) k"
    and n: "video_results svc s op ff url fmts ! k = None" by simp_all
  have opts: "video_opts op ff =
      (\<lambda>fmt. \<lparr>format = fmt,
               outtmpl = os_path_join op ''%(title)s.%(ext)s'',
               merge_output_format = Some ''mp4'',
               ffmpeg_location = ff,
               concurrent_fragment_downloads = None,
               noprogress = False,
               progress_hooks = [print_progress_hook],
               postprocessors = [],
               postprocessor_hooks = [post_hook_spinner_hook],
               postprocessor_args = []\<rparr>)"
    by (rule ext) (simp add: video_opts_def)
  note g = fallback_continues [OF assms rs r n]
  from g show "fst (download_video_loop svc url op ff fmts s) = None"
    by (simp add: download_video_loop_eq)
  from g show "service_calls (snd (download_video_loop svc url op ff fmts s)) =
              service_calls s @
              map (\<lambda>fmt. \<lparr>format = fmt,
                          outtmpl = os_path_join op ''%(title)s.%(ext)s'',
                          merge_output_format = Some ''mp4'',
                          ffmpeg_location = ff,
                          concurrent_fragment_downloads = None,
                          noprogress = False,
                          progress_hooks = [print_progress_hook],
                          postprocessors = [],
                          postprocessor_hooks = [post_hook_spinner_hook],
                          postprocessor_args = []\<rparr>)
                (take (Suc k) fmts)"
    by (simp add: download_video_loop_eq opts)
  from g show "\<exists>ext. stdout (snd (download_video_loop svc url op ff fmts s)) = stdout s @ ext \<and>
               subseq
                 (failure_lines
                    (\<lambda>fmt. ''\<newline>'' @ [CHR 0xE2, CHR 0x8F, CHR 0xB3] @ '' Tentando formato: ''
                           @ fmt @ ''\<newline>'')
                    (\<lambda>fmt e. [CHR 0xE2, CHR 0x9A, CHR 0xA0, CHR 0xEF, CHR 0xB8, CHR 0x8F]
                             @ '' Falhou: '' @ message e @ ''\<newline>'')
                    (take k fmts) (take k (video_results svc s op ff url fmts))
                  @ [''\<newline>'' @ [CHR 0xE2, CHR 0x8F, CHR 0xB3] @ '' Tentando formato: ''
                       @ fmts ! k @ ''\<newline>'',
                     [CHR 0xE2, CHR 0x9C, CHR 0x85] @ '' Download de v'' @ [CHR 0xC3, CHR 0xAD]
                       @ ''deo conclu'' @ [CHR 0xC3, CHR 0xAD] @ ''do!\<newline>''])
                 ext"
    by (simp add: download_video_loop_eq failure_log_lines line_defs)
next
  assume a: "reached (protools_results svc s op ff url fmts) k \<and>
             protools_results svc s op ff url fmts ! k = None"
  have rs: "protools_results svc s op ff url fmts =
      attempt_results svc (length (service_calls s)) (mk_opts (protools_text op ff)) url fmts"
    by (simp add: protools_results_def)
  from a have r: "reached (protools_results svc s op ff url fmts) k"
    and n: "protools_results svc s op ff url fmts ! k = None" by simp_all
  have opts: "protools_opts op ff =
      (\<lambda>fmt. \<lparr>format = fmt,
               outtmpl = os_path_join op ''%(title)s.%(ext)s'',
               merge_output_format = Some ''mp4'',
               ffmpeg_location = ff,
               concurrent_fragment_downloads = None,
               noprogress = False,
               progress_hooks = [print_progress_hook],
               postprocessors = [],
               postprocessor_hooks = [post_hook_spinner_hook],
               postprocessor_args =
                 [''-vcodec'', ''libx264'', ''-preset'', ''fast'', ''-crf'', ''20'',
                  ''-acodec'', ''aac'', ''-b:a'', ''320k'', ''-movflags'', ''+faststart'']\<rparr>)"
    by (rule ext) (simp add: protools_opts_def)
  note g = fallback_continues [OF assms rs r n]
  from g show "fst (download_video_protools_loop svc url op ff fmts s) = None"
    by (simp add: download_video_protools_loop_eq)
  from g show "service_calls (snd (download_video_protools_loop svc url op ff fmts s)) =
              service_calls s @
              map (\<lambda>fmt. \<lparr>format = fmt,
                          outtmpl = os_path_join op ''%(title)s.%(ext)s'',
                          merge_output_format = Some ''mp4'',
                          ffmpeg_location = ff,
                          concurrent_fragment_downloads = None,
                          noprogress = False,
                          progress_hooks = [print_progress_hook],
                          postprocessors = [],
                          postprocessor_hooks = [post_hook_spinner_hook],
                          postprocessor_args =
                            [''-vcodec'', ''libx264'', ''-preset'', ''fast'', ''-crf'', ''20'',
                             ''-acodec'', ''aac'', ''-b:a'', ''320k'', ''-movflags'',
                             ''+faststart'']\<rparr>)
                (take (Suc k) fmts)"
    by (simp add: download_video_protools_loop_eq opts)
  from g show "\<exists>ext. stdout (snd (download_video_protools_loop svc url op ff fmts s)) = stdout s @ ext \<and>
               subseq
                 (failure_lines
                    (\<lambda>fmt. ''\<newline>'' @ [CHR 0xE2, CHR 0x8F, CHR 0xB3] @ '' Formato PT: ''
                           @ fmt @ ''\<newline>'')
                    (\<lambda>fmt e. [CHR 0xE2, CHR 0x9A, CHR 0xA0, CHR 0xEF, CHR 0xB8, CHR 0x8F]
                             @ '' Falhou formato '' @ [CHR 0x27] @ fmt @ [CHR 0x27] @ '': ''
                             @ message e @ ''\<newline>'')
                    (take k fmts) (take k (protools_results svc s op ff url fmts))
                  @ [''\<newline>'' @ [CHR 0xE2, CHR 0x8F, CHR 0xB3] @ '' Formato PT: ''
                       @ fmts ! k @ ''\<newline>'',
                     [CHR 0xE2, CHR 0x9C, CHR 0x85] @ '' V'' @ [CHR 0xC3, CHR 0xAD]
                       @ ''deo PT conclu'' @ [CHR 0xC3, CHR 0xAD] @ ''do!\<newline>''])
                 ext"
    by (simp add: download_video_protools_loop_eq failure_log_lines line_defs)
qed

theorem fallback_continues_in_plan_order_witness:
  "Suc (Suc 0) < length format_attempts \<and>
   reached (video_results svc_third_succeeds init_state ''/out'' None ''u'' format_attempts) (Suc (Suc 0)) \<and>
   video_results svc_third_succeeds init_state ''/out'' None ''u'' format_attempts ! Suc (Suc 0) = None \<and>
   fst (download_video svc_third_succeeds ''u'' ''/out'' None init_state) = None \<and>
   service_calls (snd (download_video svc_third_succeeds ''u'' ''/out'' None init_state)) =
     [\<lparr>format = ''bv*[vcodec^=avc1][ext=mp4]+ba[ext=m4a]/b[ext=mp4]/best'', outtmpl = ''/out/%(title)s.%(ext)s'',
        merge_output_format = Some ''mp4'', ffmpeg_location = None,
        concurrent_fragment_downloads = None, noprogress = False,
        progress_hooks = [print_progress_hook], postprocessors = [],
        postprocessor_hooks = [post_hook_spinner_hook], postprocessor_args = []\<rparr>,
      \<lparr>format = ''bestvideo[ext=mp4]+bestaudio[ext=m4a]/best[ext=mp4]/best'', outtmpl = ''/out/%(title)s.%(ext)s'',
        merge_output_format = Some ''mp4'', ffmpeg_location = None,
        concurrent_fragment_downloads = None, noprogress = False,
        progress_hooks = [print_progress_hook], postprocessors = [],
        postprocessor_hooks = [post_hook_spinner_hook], postprocessor_args = []\<rparr>,
      \<lparr>format = ''bestvideo+bestaudio/best'', outtmpl = ''/out/%(title)s.%(ext)s'',
        merge_output_format = Some ''mp4'', ffmpeg_location = None,
        concurrent_fragment_downloads = None, noprogress = False,
        progress_hooks = [print_progress_hook], postprocessors = [],
        postprocessor_hooks = [post_hook_spinner_hook], postprocessor_args = []\<rparr>] \<and>
   subseq
     [''\<newline>'' @ [CHR 0xE2, CHR 0x8F, CHR 0xB3] @ '' Tentando formato: bv*[vcodec^=avc1][ext=mp4]+ba[ext=m4a]/b[ext=mp4]/best\<newline>'',
      [CHR 0xE2, CHR 0x9A, CHR 0xA0, CHR 0xEF, CHR 0xB8, CHR 0x8F] @ '' Falhou: ERROR: Requested format is not available\<newline>'',
      ''\<newline>'' @ [CHR 0xE2, CHR 0x8F, CHR 0xB3] @ '' Tentando formato: bestvideo[ext=mp4]+bestaudio[ext=m4a]/best[ext=mp4]/best\<newline>'',
      [CHR 0xE2, CHR 0x9A, CHR 0xA0, CHR 0xEF, CHR 0xB8, CHR 0x8F] @ '' Falhou: ERROR: Requested format is not available\<newline>'',
      ''\<newline>'' @ [CHR 0xE2, CHR 0x8F, CHR 0xB3] @ '' Tentando formato: bestvideo+bestaudio/best\<newline>'',
      [CHR 0xE2, CHR 0x9C, CHR 0x85] @ '' Download de v'' @ [CHR 0xC3, CHR 0xAD] @ ''deo conclu'' @ [CHR 0xC3, CHR 0xAD] @ ''do!\<newline>'']
     (stdout (snd (download_video svc_third_succeeds ''u'' ''/out'' None init_state))) \<and>
   Suc (Suc 0) < length base_formats \<and>
   reached (protools_results svc_third_succeeds init_state ''/out'' None ''u'' base_formats) (Suc (Suc 0)) \<and>
   protools_results svc_third_succeeds init_state ''/out'' None ''u'' base_formats ! Suc (Suc 0) = None \<and>
   fst (download_video_protools svc_third_succeeds ''u'' ''/out'' None init_state) = None \<and>
   service_calls (snd (download_video_protools svc_third_succeeds ''u'' ''/out'' None init_state)) =
     [\<lparr>format = ''bv*[vcodec^=avc1][ext=mp4][height<=1080]+ba[ext=m4a]'', outtmpl = ''/out/%(title)s.%(ext)s'',
        merge_output_format = Some ''mp4'', ffmpeg_location = None,
        concurrent_fragment_downloads = None, noprogress = False,
        progress_hooks = [print_progress_hook], postprocessors = [],
        postprocessor_hooks = [post_hook_spinner_hook],
        postprocessor_args =
          [''-vcodec'', ''libx264'', ''-preset'', ''fast'', ''-crf'', ''20'',
           ''-acodec'', ''aac'', ''-b:a'', ''320k'', ''-movflags'', ''+faststart'']\<rparr>,
      \<lparr>format = ''bestvideo[ext=mp4]+bestaudio[ext=m4a]'', outtmpl = ''/out/%(title)s.%(ext)s'',
        merge_output_format = Some ''mp4'', ffmpeg_location = None,
        concurrent_fragment_downloads = None, noprogress = False,
        progress_hooks = [print_progress_hook], postprocessors = [],
        postprocessor_hooks = [post_hook_spinner_hook],
        postprocessor_args =
          [''-vcodec'', ''libx264'', ''-preset'', ''fast'', ''-crf'', ''20'',
           ''-acodec'', ''aac'', ''-b:a'', ''320k'', ''-movflags'', ''+faststart'']\<rparr>,
      \<lparr>format = ''best'', outtmpl = ''/out/%(title)s.%(ext)s'',
        merge_output_format = Some ''mp4'', ffmpeg_location = None,
        concurrent_fragment_downloads = None, noprogress = False,
        progress_hooks = [print_progress_hook], postprocessors = [],
        postprocessor_hooks = [post_hook_spinner_hook],
        postprocessor_args =
          [''-vcodec'', ''libx264'', ''-preset'', ''fast'', ''-crf'', ''20'',
           ''-acodec'', ''aac'', ''-b:a'', ''320k'', ''-movflags'', ''+faststart'']\<rparr>] \<and>
   subseq
     [''\<newline>'' @ [CHR 0xE2, CHR 0x8F, CHR 0xB3] @ '' Formato PT: bv*[vcodec^=avc1][ext=mp4][height<=1080]+ba[ext=m4a]\<newline>'',
      [CHR 0xE2, CHR 0x9A, CHR 0xA0, CHR 0xEF, CHR 0xB8, CHR 0x8F] @ '' Falhou formato '' @ [CHR 0x27] @ ''bv*[vcodec^=avc1][ext=mp4][height<=1080]+ba[ext=m4a]'' @ [CHR 0x27] @ '': ERROR: Requested format is not available\<newline>'',
      ''\<newline>'' @ [CHR 0xE2, CHR 0x8F, CHR 0xB3] @ '' Formato PT: bestvideo[ext=mp4]+bestaudio[ext=m4a]\<newline>'',
      [CHR 0xE2, CHR 0x9A, CHR 0xA0, CHR 0xEF, CHR 0xB8, CHR 0x8F] @ '' Falhou formato '' @ [CHR 0x27] @ ''bestvideo[ext=mp4]+bestaudio[ext=m4a]'' @ [CHR 0x27] @ '': ERROR: Requested format is not available\<newline>'',
      ''\<newline>'' @ [CHR 0xE2, CHR 0x8F, CHR 0xB3] @ '' Formato PT: best\<newline>'',
      [CHR 0xE2, CHR 0x9C, CHR 0x85] @ '' V'' @ [CHR 0xC3, CHR 0xAD] @ ''deo PT conclu'' @ [CHR 0xC3, CHR 0xAD] @ ''do!\<newline>'']
     (stdout (snd (download_video_protools svc_third_succeeds ''u'' ''/out'' None init_state)))"
proof -
  have l: "Suc (Suc 0) < length format_attempts" "Suc (Suc 0) < length base_formats"
    by (simp_all add: plan_lengths)
  have v: "reached (video_results svc_third_succeeds init_state ''/out'' None ''u'' format_attempts) (Suc (Suc 0))"
    "video_results svc_third_succeeds init_state ''/out'' None ''u'' format_attempts ! Suc (Suc 0) = None"
    by (simp_all add: third_succeeds_results reached_def example_classes)
  have p: "reached (protools_results svc_third_succeeds init_state ''/out'' None ''u'' base_formats) (Suc (Suc 0))"
    "protools_results svc_third_succeeds init_state ''/out'' None ''u'' base_formats ! Suc (Suc 0) = None"
    by (simp_all add: third_succeeds_results reached_def example_classes)
  have st: "stdout init_state = []" by (simp add: init_state_def)
  have m: "message format_unavailable = ''ERROR: Requested format is not available''"
    by (simp add: format_unavailable_def)
  have o: "os_path_join ''/out'' ''%(title)s.%(ext)s'' = ''/out/%(title)s.%(ext)s''"
    by (simp add: os_path_join_def)
  have pv: "map F format_attempts = [F ''bv*[vcodec^=avc1][ext=mp4]+ba[ext=m4a]/b[ext=mp4]/best'', F ''bestvideo[ext=mp4]+bestaudio[ext=m4a]/best[ext=mp4]/best'', F ''bestvideo+bestaudio/best'']"
    "take (Suc (Suc 0)) format_attempts = [''bv*[vcodec^=avc1][ext=mp4]+ba[ext=m4a]/b[ext=mp4]/best'', ''bestvideo[ext=mp4]+bestaudio[ext=m4a]/best[ext=mp4]/best'']"
    "format_attempts ! Suc (Suc 0) = ''bestvideo+bestaudio/best''" for F :: "string \<Rightarrow> ydl_opts"
    by (simp_all add: format_attempts_def)
  have pp: "map F base_formats = [F ''bv*[vcodec^=avc1][ext=mp4][height<=1080]+ba[ext=m4a]'', F ''bestvideo[ext=mp4]+bestaudio[ext=m4a]'', F ''best'']"
    "take (Suc (Suc 0)) base_formats = [''bv*[vcodec^=avc1][ext=mp4][height<=1080]+ba[ext=m4a]'', ''bestvideo[ext=mp4]+bestaudio[ext=m4a]'']"
    "base_formats ! Suc (Suc 0) = ''best''" for F :: "string \<Rightarrow> ydl_opts"
    by (simp_all add: base_formats_def)
  note tv = fallback_continues_in_plan_order [OF l(1), of svc_third_succeeds init_state "''/out''"
      None "''u''"]
  note tp = fallback_continues_in_plan_order [OF l(2), of svc_third_succeeds init_state "''/out''"
      None "''u''"]
  from tv v have rv: "fst (download_video svc_third_succeeds ''u'' ''/out'' None init_state) = None"
    by (simp add: download_video_def)
  from tv v have cv: "service_calls (snd (download_video svc_third_succeeds ''u'' ''/out'' None init_state)) =
     [\<lparr>format = ''bv*[vcodec^=avc1][ext=mp4]+ba[ext=m4a]/b[ext=mp4]/best'', outtmpl = ''/out/%(title)s.%(ext)s'',
        merge_output_format = Some ''mp4'', ffmpeg_location = None,
        concurrent_fragment_downloads = None, noprogress = False,
        progress_hooks = [print_progress_hook], postprocessors = [],
        postprocessor_hooks = [post_hook_spinner_hook], postprocessor_args = []\<rparr>,
      \<lparr>format = ''bestvideo[ext=mp4]+bestaudio[ext=m4a]/best[ext=mp4]/best'', outtmpl = ''/out/%(title)s.%(ext)s'',
        merge_output_format = Some ''mp4'', ffmpeg_location = None,
        concurrent_fragment_downloads = None, noprogress = False,
        progress_hooks = [print_progress_hook], postprocessors = [],
        postprocessor_hooks = [post_hook_spinner_hook], postprocessor_args = []\<rparr>,
      \<lparr>format = ''bestvideo+bestaudio/best'', outtmpl = ''/out/%(title)s.%(ext)s'',
        merge_output_format = Some ''mp4'', ffmpeg_location = None,
        concurrent_fragment_downloads = None, noprogress = False,
        progress_hooks = [print_progress_hook], postprocessors = [],
        postprocessor_hooks = [post_hook_spinner_hook], postprocessor_args = []\<rparr>]"
    by (simp add: download_video_def service_calls_init o plan_prefixes pv)
  from tv v have sv: "subseq
     [''\<newline>'' @ [CHR 0xE2, CHR 0x8F, CHR 0xB3] @ '' Tentando formato: bv*[vcodec^=avc1][ext=mp4]+ba[ext=m4a]/b[ext=mp4]/best\<newline>'',
      [CHR 0xE2, CHR 0x9A, CHR 0xA0, CHR 0xEF, CHR 0xB8, CHR 0x8F] @ '' Falhou: ERROR: Requested format is not available\<newline>'',
      ''\<newline>'' @ [CHR 0xE2, CHR 0x8F, CHR 0xB3] @ '' Tentando formato: bestvideo[ext=mp4]+bestaudio[ext=m4a]/best[ext=mp4]/best\<newline>'',
      [CHR 0xE2, CHR 0x9A, CHR 0xA0, CHR 0xEF, CHR 0xB8, CHR 0x8F] @ '' Falhou: ERROR: Requested format is not available\<newline>'',
      ''\<newline>'' @ [CHR 0xE2, CHR 0x8F, CHR 0xB3] @ '' Tentando formato: bestvideo+bestaudio/best\<newline>'',
      [CHR 0xE2, CHR 0x9C, CHR 0x85] @ '' Download de v'' @ [CHR 0xC3, CHR 0xAD] @ ''deo conclu'' @ [CHR 0xC3, CHR 0xAD] @ ''do!\<newline>'']
     (stdout (snd (download_video svc_third_succeeds ''u'' ''/out'' None init_state)))"
    by (simp add: download_video_def st third_succeeds_results m pv)
  from tp p have rp: "fst (download_video_protools svc_third_succeeds ''u'' ''/out'' None init_state) = None"
    by (simp add: download_video_protools_def)
  from tp p have cp: "service_calls (snd (download_video_protools svc_third_succeeds ''u'' ''/out'' None init_state)) =
     [\<lparr>format = ''bv*[vcodec^=avc1][ext=mp4][height<=1080]+ba[ext=m4a]'', outtmpl = ''/out/%(title)s.%(ext)s'',
        merge_output_format = Some ''mp4'', ffmpeg_location = None,
        concurrent_fragment_downloads = None, noprogress = False,
        progress_hooks = [print_progress_hook], postprocessors = [],
        postprocessor_hooks = [post_hook_spinner_hook],
        postprocessor_args =
          [''-vcodec'', ''libx264'', ''-preset'', ''fast'', ''-crf'', ''20'',
           ''-acodec'', ''aac'', ''-b:a'', ''320k'', ''-movflags'', ''+faststart'']\<rparr>,
      \<lparr>format = ''bestvideo[ext=mp4]+bestaudio[ext=m4a]'', outtmpl = ''/out/%(title)s.%(ext)s'',
        merge_output_format = Some ''mp4'', ffmpeg_location = None,
        concurrent_fragment_downloads = None, noprogress = False,
        progress_hooks = [print_progress_hook], postprocessors = [],
        postprocessor_hooks = [post_hook_spinner_hook],
        postprocessor_args =
          [''-vcodec'', ''libx264'', ''-preset'', ''fast'', ''-crf'', ''20'',
           ''-acodec'', ''aac'', ''-b:a'', ''320k'', ''-movflags'', ''+faststart'']\<rparr>,
      \<lparr>format = ''best'', outtmpl = ''/out/%(title)s.%(ext)s'',
        merge_output_format = Some ''mp4'', ffmpeg_location = None,
        concurrent_fragment_downloads = None, noprogress = False,
        progress_hooks = [print_progress_hook], postprocessors = [],
        postprocessor_hooks = [post_hook_spinner_hook],
        postprocessor_args =
          [''-vcodec'', ''libx264'', ''-preset'', ''fast'', ''-crf'', ''20'',
           ''-acodec'', ''aac'', ''-b:a'', ''320k'', ''-movflags'', ''+faststart'']\<rparr>]"
    by (simp add: download_video_protools_def service_calls_init o plan_prefixes pp)
  from tp p have sp: "subseq
     [''\<newline>'' @ [CHR 0xE2, CHR 0x8F, CHR 0xB3] @ '' Formato PT: bv*[vcodec^=avc1][ext=mp4][height<=1080]+ba[ext=m4a]\<newline>'',
      [CHR 0xE2, CHR 0x9A, CHR 0xA0, CHR 0xEF, CHR 0xB8, CHR 0x8F] @ '' Falhou formato '' @ [CHR 0x27] @ ''bv*[vcodec^=avc1][ext=mp4][height<=1080]+ba[ext=m4a]'' @ [CHR 0x27] @ '': ERROR: Requested format is not available\<newline>'',
      ''\<newline>'' @ [CHR 0xE2, CHR 0x8F, CHR 0xB3] @ '' Formato PT: bestvideo[ext=mp4]+bestaudio[ext=m4a]\<newline>'',
      [CHR 0xE2, CHR 0x9A, CHR 0xA0, CHR 0xEF, CHR 0xB8, CHR 0x8F] @ '' Falhou formato '' @ [CHR 0x27] @ ''bestvideo[ext=mp4]+bestaudio[ext=m4a]'' @ [CHR 0x27] @ '': ERROR: Requested format is not available\<newline>'',
      ''\<newline>'' @ [CHR 0xE2, CHR 0x8F, CHR 0xB3] @ '' Formato PT: best\<newline>'',
      [CHR 0xE2, CHR 0x9C, CHR 0x85] @ '' V'' @ [CHR 0xC3, CHR 0xAD] @ ''deo PT conclu'' @ [CHR 0xC3, CHR 0xAD] @ ''do!\<newline>'']
     (stdout (snd (download_video_protools svc_third_succeeds ''u'' ''/out'' None init_state)))"
    by (simp add: download_video_protools_def st third_succeeds_results m pp)
  from l v p rv cv sv rp cp sp show ?thesis by blast
qed

text \<open>
  C5, as the code has it. What aborts a plan is an exception of a class other than
  \<open>DownloadError\<close>. For every plan and index \<open>k\<close>, in both loops: if attempt \<open>k\<close> raises
  an \<open>Exception\<close> that is not a \<open>DownloadError\<close>, the service is never invoked for an
  attempt after \<open>k\<close>; and when attempt \<open>k\<close> is reached, the function returns after
  exactly the attempts \<open>0..k\<close>, made with the selectors \<open>0..k\<close> of the plan, and the last
  line it prints is the cross mark, \<open>Erro inesperado:\<close> and the text of that exception.
\<close>

theorem unrecoverable_failure_aborts:
  assumes "k < length fmts" and "\<not> isinstance_DownloadError e" and "isinstance_Exception e"
  shows "(video_results svc s op ff url fmts ! k = Some e \<longrightarrow>
            (\<exists>m\<le>Suc k. service_calls (snd (download_video_loop svc url op ff fmts s)) =
               service_calls s @ map (video_opts op ff) (take m fmts)) \<and>
            (reached (video_results svc s op ff url fmts) k \<longrightarrow>
               fst (download_video_loop svc url op ff fmts s) = None \<and>
               service_calls (snd (download_video_loop svc url op ff fmts s)) =
                 service_calls s @ map (video_opts op ff) (take (Suc k) fmts) \<and>
               map format (service_calls (snd (download_video_loop svc url op ff fmts s))) =
                 map format (service_calls s) @ take (Suc k) fmts \<and>
               last (stdout (snd (download_video_loop svc url op ff fmts s))) =
                 [CHR 0xE2, CHR 0x9D, CHR 0x8C] @ '' Erro inesperado: '' @ message e @ ''\<newline>'')) \<and>
         (protools_results svc s op ff url fmts ! k = Some e \<longrightarrow>
            (\<exists>m\<le>Suc k. service_calls (snd (download_video_protools_loop svc url op ff fmts s)) =
               service_calls s @ map (protools_opts op ff) (take m fmts)) \<and>
            (reached (protools_results svc s op ff url fmts) k \<longrightarrow>
               fst (download_video_protools_loop svc url op ff fmts s) = None \<and>
               service_calls (snd (download_video_protools_loop svc url op ff fmts s)) =
                 service_calls s @ map (protools_opts op ff) (take (Suc k) fmts) \<and>
               map format (service_calls (snd (download_video_protools_loop svc url op ff fmts s))) =
                 map format (service_calls s) @ take (Suc k) fmts \<and>
               last (stdout (snd (download_video_protools_loop svc url op ff fmts s))) =
                 [CHR 0xE2, CHR 0x9D, CHR 0x8C] @ '' Erro inesperado: '' @ message e @ ''\<newline>''))"
proof (intro conjI impI)
  assume a: "video_results svc s op ff url fmts ! k = Some e"
  have rs: "video_results svc s op ff url fmts =
      attempt_results svc (length (service_calls s)) (mk_opts (video_text op ff)) url fmts"
    by (simp add: video_results_def)
  note g = fallback_unrecoverable [OF assms(1) rs a assms(2,3)]
  from g show "\<exists>m\<le>Suc k. service_calls (snd (download_video_loop svc url op ff fmts s)) =
               service_calls s @ map (video_opts op ff) (take m fmts)"
    by (simp add: download_video_loop_eq)
  assume r: "reached (video_results svc s op ff url fmts) k"
  from g r show "fst (download_video_loop svc url op ff fmts s) = None"
    by (simp add: download_video_loop_eq)
  from g r show c: "service_calls (snd (download_video_loop svc url op ff fmts s)) =
                 service_calls s @ map (video_opts op ff) (take (Suc k) fmts)"
    by (simp add: download_video_loop_eq)
  show "map format (service_calls (snd (download_video_loop svc url op ff fmts s))) =
                 map format (service_calls s) @ take (Suc k) fmts"
    unfolding c by (simp add: video_opts_def comp_def)
  from g r show "last (stdout (snd (download_video_loop svc url op ff fmts s))) =
                 [CHR 0xE2, CHR 0x9D, CHR 0x8C] @ '' Erro inesperado: '' @ message e @ ''\<newline>''"
    by (simp add: download_video_loop_eq line_defs)
next
  assume a: "protools_results svc s op ff url fmts ! k = Some e"
  have rs: "protools_results svc s op ff url fmts =
      attempt_results svc (length (service_calls s)) (mk_opts (protools_text op ff)) url fmts"
    by (simp add: protools_results_def)
  note g = fallback_unrecoverable [OF assms(1) rs a assms(2,3)]
  from g show "\<exists>m\<le>Suc k. service_calls (snd (download_video_protools_loop svc url op ff fmts s)) =
               service_calls s @ map (protools_opts op ff) (take m fmts)"
    by (simp add: download_video_protools_loop_eq)
  assume r: "reached (protools_results svc s op ff url fmts) k"
  from g r show "fst (download_video_protools_loop svc url op ff fmts s) = None"
    by (simp add: download_video_protools_loop_eq)
  from g r show c: "service_calls (snd (download_video_protools_loop svc url op ff fmts s)) =
                 service_calls s @ map (protools_opts op ff) (take (Suc k) fmts)"
    by (simp add: download_video_protools_loop_eq)
  show "map format (service_calls (snd (download_video_protools_loop svc url op ff fmts s))) =
                 map format (service_calls s) @ take (Suc k) fmts"
    unfolding c by (simp add: protools_opts_def comp_def)
  from g r show "last (stdout (snd (download_video_protools_loop svc url op ff fmts s))) =
                 [CHR 0xE2, CHR 0x9D, CHR 0x8C] @ '' Erro inesperado: '' @ message e @ ''\<newline>''"
    by (simp add: download_video_protools_loop_eq line_defs)
qed

theorem unrecoverable_failure_aborts_witness:
  "Suc 0 < length format_attempts \<and> \<not> isinstance_DownloadError engine_crash \<and>
   isinstance_Exception engine_crash \<and>
   video_results svc_crash_on_second init_state ''/out'' None ''u'' format_attempts ! Suc 0 = Some engine_crash \<and>
   reached (video_results svc_crash_on_second init_state ''/out'' None ''u'' format_attempts) (Suc 0) \<and>
   fst (download_video svc_crash_on_second ''u'' ''/out'' None init_state) = None \<and>
   service_calls (snd (download_video svc_crash_on_second ''u'' ''/out'' None init_state)) =
     [video_opts ''/out'' None (format_attempts ! 0), video_opts ''/out'' None (format_attempts ! 1)] \<and>
   map format (service_calls (snd (download_video svc_crash_on_second ''u'' ''/out'' None init_state))) =
     [''bv*[vcodec^=avc1][ext=mp4]+ba[ext=m4a]/b[ext=mp4]/best'', ''bestvideo[ext=mp4]+bestaudio[ext=m4a]/best[ext=mp4]/best''] \<and>
   last (stdout (snd (download_video svc_crash_on_second ''u'' ''/out'' None init_state))) =
     [CHR 0xE2, CHR 0x9D, CHR 0x8C] @ '' Erro inesperado: [Errno 8] Exec format error\<newline>'' \<and>
   Suc 0 < length base_formats \<and>
   protools_results svc_crash_on_second init_state ''/out'' None ''u'' base_formats ! Suc 0 = Some engine_crash \<and>
   reached (protools_results svc_crash_on_second init_state ''/out'' None ''u'' base_formats) (Suc 0) \<and>
   fst (download_video_protools svc_crash_on_second ''u'' ''/out'' None init_state) = None \<and>
   service_calls (snd (download_video_protools svc_crash_on_second ''u'' ''/out'' None init_state)) =
     [protools_opts ''/out'' None (base_formats ! 0), protools_opts ''/out'' None (base_formats ! 1)] \<and>
   map format (service_calls (snd (download_video_protools svc_crash_on_second ''u'' ''/out'' None init_state))) =
     [''bv*[vcodec^=avc1][ext=mp4][height<=1080]+ba[ext=m4a]'', ''bestvideo[ext=mp4]+bestaudio[ext=m4a]''] \<and>
   last (stdout (snd (download_video_protools svc_crash_on_second ''u'' ''/out'' None init_state))) =
     [CHR 0xE2, CHR 0x9D, CHR 0x8C] @ '' Erro inesperado: [Errno 8] Exec format error\<newline>''"
proof -
  have l: "Suc 0 < length format_attempts" "Suc 0 < length base_formats"
    by (simp_all add: plan_lengths)
  have c: "\<not> isinstance_DownloadError engine_crash" "isinstance_Exception engine_crash"
    by (simp_all add: example_classes)
  have m: "message engine_crash = ''[Errno 8] Exec format error''"
    by (simp add: engine_crash_def)
  have v: "video_results svc_crash_on_second init_state ''/out'' None ''u'' format_attempts ! Suc 0 = Some engine_crash"
    "reached (video_results svc_crash_on_second init_state ''/out'' None ''u'' format_attempts) (Suc 0)"
    by (simp_all add: crash_on_second_results reached_def example_classes)
  have p: "protools_results svc_crash_on_second init_state ''/out'' None ''u'' base_formats ! Suc 0 = Some engine_crash"
    "reached (protools_results svc_crash_on_second init_state ''/out'' None ''u'' base_formats) (Suc 0)"
    by (simp_all add: crash_on_second_results reached_def example_classes)
  have n: "format_attempts ! 0 = ''bv*[vcodec^=avc1][ext=mp4]+ba[ext=m4a]/b[ext=mp4]/best''" "format_attempts ! Suc 0 = ''bestvideo[ext=mp4]+bestaudio[ext=m4a]/best[ext=mp4]/best''"
    "base_formats ! 0 = ''bv*[vcodec^=avc1][ext=mp4][height<=1080]+ba[ext=m4a]''" "base_formats ! Suc 0 = ''bestvideo[ext=mp4]+bestaudio[ext=m4a]''"
    by (simp_all add: format_attempts_def base_formats_def)
  have i: "service_calls init_state = []" by (simp add: init_state_def)
  note tv = unrecoverable_failure_aborts [OF l(1) c, of svc_crash_on_second init_state "''/out''"
      None "''u''"]
  note tp = unrecoverable_failure_aborts [OF l(2) c, of svc_crash_on_second init_state "''/out''"
      None "''u''"]
  from tv v have rv: "fst (download_video svc_crash_on_second ''u'' ''/out'' None init_state) = None"
    "service_calls (snd (download_video svc_crash_on_second ''u'' ''/out'' None init_state)) =
       [video_opts ''/out'' None (format_attempts ! 0), video_opts ''/out'' None (format_attempts ! 1)]"
    "last (stdout (snd (download_video svc_crash_on_second ''u'' ''/out'' None init_state))) =
       [CHR 0xE2, CHR 0x9D, CHR 0x8C] @ '' Erro inesperado: [Errno 8] Exec format error\<newline>''"
    by (simp_all add: download_video_def i plan_prefixes m)
  from tv v have fv: "map format (service_calls (snd (download_video svc_crash_on_second ''u'' ''/out'' None init_state))) =
     [''bv*[vcodec^=avc1][ext=mp4]+ba[ext=m4a]/b[ext=mp4]/best'', ''bestvideo[ext=mp4]+bestaudio[ext=m4a]/best[ext=mp4]/best'']"
    by (simp add: download_video_def i plan_prefixes n video_opts_def)
  from tp p have rp: "fst (download_video_protools svc_crash_on_second ''u'' ''/out'' None init_state) = None"
    "service_calls (snd (download_video_protools svc_crash_on_second ''u'' ''/out'' None init_state)) =
       [protools_opts ''/out'' None (base_formats ! 0), protools_opts ''/out'' None (base_formats ! 1)]"
    "last (stdout (snd (download_video_protools svc_crash_on_second ''u'' ''/out'' None init_state))) =
       [CHR 0xE2, CHR 0x9D, CHR 0x8C] @ '' Erro inesperado: [Errno 8] Exec format error\<newline>''"
    by (simp_all add: download_video_protools_def i plan_prefixes m)
  from tp p have fp: "map format (service_calls (snd (download_video_protools svc_crash_on_second ''u'' ''/out'' None init_state))) =
     [''bv*[vcodec^=avc1][ext=mp4][height<=1080]+ba[ext=m4a]'', ''bestvideo[ext=mp4]+bestaudio[ext=m4a]'']"
    by (simp add: download_video_protools_def i plan_prefixes n protools_opts_def)
  from l c v p rv fv rp fp show ?thesis by blast
qed

text \<open>
  C5, as stated, fails: the network is unreachable, which the spec counts as an
  unrecoverable failure, and the service reports it as a \<open>DownloadError\<close> on every
  attempt. The claim has the first attempt end the plan; both loops invoke the service
  for all three selectors and end with the line for an exhausted plan.
\<close>

theorem network_failure_does_not_abort_counterexample:
  "cause network_error = NetworkFailure \<and>
   video_results svc_network_down init_state ''/out'' None ''u'' format_attempts ! 0 = Some network_error \<and>
   map format (service_calls (snd (download_video svc_network_down ''u'' ''/out'' None init_state))) =
     [''bv*[vcodec^=avc1][ext=mp4]+ba[ext=m4a]/b[ext=mp4]/best'', ''bestvideo[ext=mp4]+bestaudio[ext=m4a]/best[ext=mp4]/best'', ''bestvideo+bestaudio/best''] \<and>
   last (stdout (snd (download_video svc_network_down ''u'' ''/out'' None init_state))) =
     [CHR 0xE2, CHR 0x9D, CHR 0x8C] @ '' N'' @ [CHR 0xC3, CHR 0xA3] @ ''o foi poss'' @ [CHR 0xC3, CHR 0xAD] @ ''vel baixar o v'' @ [CHR 0xC3, CHR 0xAD] @ ''deo em nenhum formato suportado.\<newline>'' \<and>
   protools_results svc_network_down init_state ''/out'' None ''u'' base_formats ! 0 = Some network_error \<and>
   map format (service_calls (snd (download_video_protools svc_network_down ''u'' ''/out'' None init_state))) =
     [''bv*[vcodec^=avc1][ext=mp4][height<=1080]+ba[ext=m4a]'', ''bestvideo[ext=mp4]+bestaudio[ext=m4a]'', ''best''] \<and>
   last (stdout (snd (download_video_protools svc_network_down ''u'' ''/out'' None init_state))) =
     [CHR 0xE2, CHR 0x9D, CHR 0x8C] @ '' N'' @ [CHR 0xC3, CHR 0xA3] @ ''o foi poss'' @ [CHR 0xC3, CHR 0xAD] @ ''vel baixar/convert'' @ [CHR 0xC3, CHR 0xAA] @ ''-lo para Pro Tools.\<newline>''"
proof -
  have rv: "video_results svc_network_down init_state ''/out'' None ''u'' format_attempts =
      attempt_results svc_network_down (length (service_calls init_state))
        (mk_opts (video_text ''/out'' None)) ''u'' format_attempts"
    by (simp add: video_results_def)
  have rp: "protools_results svc_network_down init_state ''/out'' None ''u'' base_formats =
      attempt_results svc_network_down (length (service_calls init_state))
        (mk_opts (protools_text ''/out'' None)) ''u'' base_formats"
    by (simp add: protools_results_def)
  have v: "reached (video_results svc_network_down init_state ''/out'' None ''u'' format_attempts) (length format_attempts)"
    "video_results svc_network_down init_state ''/out'' None ''u'' format_attempts ! 0 = Some network_error"
    by (simp_all add: network_down_results reached_def example_classes plan_lengths)
  have p: "reached (protools_results svc_network_down init_state ''/out'' None ''u'' base_formats) (length base_formats)"
    "protools_results svc_network_down init_state ''/out'' None ''u'' base_formats ! 0 = Some network_error"
    by (simp_all add: network_down_results reached_def example_classes plan_lengths)
  have i: "service_calls init_state = []" by (simp add: init_state_def)
  have fv: "map format (map (video_opts ''/out'' None) format_attempts) =
      [''bv*[vcodec^=avc1][ext=mp4]+ba[ext=m4a]/b[ext=mp4]/best'', ''bestvideo[ext=mp4]+bestaudio[ext=m4a]/best[ext=mp4]/best'', ''bestvideo+bestaudio/best'']"
    by (simp add: format_attempts_def video_opts_def)
  have fp: "map format (map (protools_opts ''/out'' None) base_formats) =
      [''bv*[vcodec^=avc1][ext=mp4][height<=1080]+ba[ext=m4a]'', ''bestvideo[ext=mp4]+bestaudio[ext=m4a]'', ''best'']"
    by (simp add: base_formats_def protools_opts_def)
  note gv = fallback_exhausted [OF rv v(1)]
  note gp = fallback_exhausted [OF rp p(1)]
  from gv have cv: "service_calls (snd (download_video svc_network_down ''u'' ''/out'' None init_state)) =
      map (video_opts ''/out'' None) format_attempts"
    by (simp add: download_video_def download_video_loop_eq i)
  from gv have lv: "last (stdout (snd (download_video svc_network_down ''u'' ''/out'' None init_state))) =
     [CHR 0xE2, CHR 0x9D, CHR 0x8C] @ '' N'' @ [CHR 0xC3, CHR 0xA3] @ ''o foi poss'' @ [CHR 0xC3, CHR 0xAD] @ ''vel baixar o v'' @ [CHR 0xC3, CHR 0xAD] @ ''deo em nenhum formato suportado.\<newline>''"
    by (simp add: download_video_def download_video_loop_eq line_defs)
  from gp have cp: "service_calls (snd (download_video_protools svc_network_down ''u'' ''/out'' None init_state)) =
      map (protools_opts ''/out'' None) base_formats"
    by (simp add: download_video_protools_def download_video_protools_loop_eq i)
  from gp have lp: "last (stdout (snd (download_video_protools svc_network_down ''u'' ''/out'' None init_state))) =
     [CHR 0xE2, CHR 0x9D, CHR 0x8C] @ '' N'' @ [CHR 0xC3, CHR 0xA3] @ ''o foi poss'' @ [CHR 0xC3, CHR 0xAD] @ ''vel baixar/convert'' @ [CHR 0xC3, CHR 0xAA] @ ''-lo para Pro Tools.\<newline>''"
    by (simp add: download_video_protools_def download_video_protools_loop_eq line_defs)
  have c: "cause network_error = NetworkFailure" by (simp add: example_classes)
  from c v(2) p(2) lv lp fv fp show ?thesis unfolding cv cp by blast
qed

text \<open>
  C6, as the code has it. When every attempt of a plan raises \<open>DownloadError\<close>, the
  function invokes the service for every format of the plan, in plan order, returns
  normally, and the last line it prints is one fixed line (\<open>video_exhausted_line\<close>,
  \<open>protools_exhausted_line\<close>), which has no parameter. The selectors and the reasons are
  in the lines printed before it: for each attempt, in plan order, the line announcing
  the format and then the line with that attempt's error.
  The theorem states all of it twice: with the names of the lines, and with the text of
  every line and the selector of every invocation written out.
\<close>

theorem exhaustion_after_all_attempts:
  "(reached (video_results svc s op ff url fmts) (length fmts) \<longrightarrow>
      fst (download_video_loop svc url op ff fmts s) = None \<and>
      service_calls (snd (download_video_loop svc url op ff fmts s)) =
        service_calls s @ map (video_opts op ff) fmts \<and>
      last (stdout (snd (download_video_loop svc url op ff fmts s))) = video_exhausted_line @ NL \<and>
      (\<exists>ext. stdout (snd (download_video_loop svc url op ff fmts s)) = stdout s @ ext \<and>
         subseq (failure_log video_try_line (\<lambda>fmt. video_failed_line) fmts
                   (video_results svc s op ff url fmts)
                 @ [video_exhausted_line @ NL]) ext) \<and>
      map format (service_calls (snd (download_video_loop svc url op ff fmts s))) =
        map format (service_calls s) @ fmts \<and>
      last (stdout (snd (download_video_loop svc url op ff fmts s))) =
        [CHR 0xE2, CHR 0x9D, CHR 0x8C] @ '' N'' @ [CHR 0xC3, CHR 0xA3] @ ''o foi poss'' @ [CHR 0xC3, CHR 0xAD]
               @ ''vel baixar o v'' @ [CHR 0xC3, CHR 0xAD] @ ''deo em nenhum formato suportado.\<newline>'' \<and>
      (\<exists>ext. stdout (snd (download_video_loop svc url op ff fmts s)) = stdout s @ ext \<and>
         subseq (failure_lines
                   (\<lambda>fmt. ''\<newline>'' @ [CHR 0xE2, CHR 0x8F, CHR 0xB3] @ '' Tentando formato: '' @ fmt @ ''\<newline>'')
                   (\<lambda>fmt e. [CHR 0xE2, CHR 0x9A, CHR 0xA0, CHR 0xEF, CHR 0xB8, CHR 0x8F]
                       @ '' Falhou: '' @ message e @ ''\<newline>'')
                   fmts (video_results svc s op ff url fmts)
                 @ [[CHR 0xE2, CHR 0x9D, CHR 0x8C] @ '' N'' @ [CHR 0xC3, CHR 0xA3] @ ''o foi poss'' @ [CHR 0xC3, CHR 0xAD]
               @ ''vel baixar o v'' @ [CHR 0xC3, CHR 0xAD] @ ''deo em nenhum formato suportado.\<newline>'']) ext)) \<and>
   (reached (protools_results svc s op ff url fmts) (length fmts) \<longrightarrow>
      fst (download_video_protools_loop svc url op ff fmts s) = None \<and>
      service_calls (snd (download_video_protools_loop svc url op ff fmts s)) =
        service_calls s @ map (protools_opts op ff) fmts \<and>
      last (stdout (snd (download_video_protools_loop svc url op ff fmts s))) =
        protools_exhausted_line @ NL \<and>
      (\<exists>ext. stdout (snd (download_video_protools_loop svc url op ff fmts s)) = stdout s @ ext \<and>
         subseq (failure_log protools_try_line protools_failed_line fmts
                   (protools_results svc s op ff url fmts)
                 @ [protools_exhausted_line @ NL]) ext) \<and>
      map format (service_calls (snd (download_video_protools_loop svc url op ff fmts s))) =
        map format (service_calls s) @ fmts \<and>
      last (stdout (snd (download_video_protools_loop svc url op ff fmts s))) =
        [CHR 0xE2, CHR 0x9D, CHR 0x8C] @ '' N'' @ [CHR 0xC3, CHR 0xA3] @ ''o foi poss'' @ [CHR 0xC3, CHR 0xAD]
               @ ''vel baixar/convert'' @ [CHR 0xC3, CHR 0xAA] @ ''-lo para Pro Tools.\<newline>'' \<and>
      (\<exists>ext. stdout (snd (download_video_protools_loop svc url op ff fmts s)) = stdout s @ ext \<and>
         subseq (failure_lines
                   (\<lambda>fmt. ''\<newline>'' @ [CHR 0xE2, CHR 0x8F, CHR 0xB3] @ '' Formato PT: '' @ fmt @ ''\<newline>'')
                   (\<lambda>fmt e. [CHR 0xE2, CHR 0x9A, CHR 0xA0, CHR 0xEF, CHR 0xB8, CHR 0x8F]
                       @ '' Falhou formato '' @ [CHR 0x27] @ fmt @ [CHR 0x27] @ '': ''
                       @ message e @ ''\<newline>'')
                   fmts (protools_results svc s op ff url fmts)
                 @ [[CHR 0xE2, CHR 0x9D, CHR 0x8C] @ '' N'' @ [CHR 0xC3, CHR 0xA3] @ ''o foi poss'' @ [CHR 0xC3, CHR 0xAD]
               @ ''vel baixar/convert'' @ [CHR 0xC3, CHR 0xAA] @ ''-lo para Pro Tools.\<newline>'']) ext))"
proof (intro conjI impI)
  assume r: "reached (video_results svc s op ff url fmts) (length fmts)"
  have rs: "video_results svc s op ff url fmts =
      attempt_results svc (length (service_calls s)) (mk_opts (video_text op ff)) url fmts"
    by (simp add: video_results_def)
  note g = fallback_exhausted [OF rs r]
  from g show "fst (download_video_loop svc url op ff fmts s) = None"
    by (simp add: download_video_loop_eq)
  from g show "service_calls (snd (download_video_loop svc url op ff fmts s)) =
        service_calls s @ map (video_opts op ff) fmts"
    by (simp add: download_video_loop_eq)
  from g show "last (stdout (snd (download_video_loop svc url op ff fmts s))) =
        video_exhausted_line @ NL"
    by (simp add: download_video_loop_eq)
  from g show "\<exists>ext. stdout (snd (download_video_loop svc url op ff fmts s)) = stdout s @ ext \<and>
         subseq (failure_log video_try_line (\<lambda>fmt. video_failed_line) fmts
                   (video_results svc s op ff url fmts)
                 @ [video_exhausted_line @ NL]) ext"
    by (simp add: download_video_loop_eq)
  from g have c: "service_calls (snd (download_video_loop svc url op ff fmts s)) =
        service_calls s @ map (video_opts op ff) fmts"
    by (simp add: download_video_loop_eq)
  show "map format (service_calls (snd (download_video_loop svc url op ff fmts s))) =
        map format (service_calls s) @ fmts"
    unfolding c by (simp add: video_opts_def comp_def)
  from g show "last (stdout (snd (download_video_loop svc url op ff fmts s))) =
        [CHR 0xE2, CHR 0x9D, CHR 0x8C] @ '' N'' @ [CHR 0xC3, CHR 0xA3] @ ''o foi poss'' @ [CHR 0xC3, CHR 0xAD]
               @ ''vel baixar o v'' @ [CHR 0xC3, CHR 0xAD] @ ''deo em nenhum formato suportado.\<newline>''"
    by (simp add: download_video_loop_eq line_defs)
  from g show "\<exists>ext. stdout (snd (download_video_loop svc url op ff fmts s)) = stdout s @ ext \<and>
         subseq (failure_lines
                   (\<lambda>fmt. ''\<newline>'' @ [CHR 0xE2, CHR 0x8F, CHR 0xB3] @ '' Tentando formato: '' @ fmt @ ''\<newline>'')
                   (\<lambda>fmt e. [CHR 0xE2, CHR 0x9A, CHR 0xA0, CHR 0xEF, CHR 0xB8, CHR 0x8F]
                       @ '' Falhou: '' @ message e @ ''\<newline>'')
                   fmts (video_results svc s op ff url fmts)
                 @ [[CHR 0xE2, CHR 0x9D, CHR 0x8C] @ '' N'' @ [CHR 0xC3, CHR 0xA3] @ ''o foi poss'' @ [CHR 0xC3, CHR 0xAD]
               @ ''vel baixar o v'' @ [CHR 0xC3, CHR 0xAD] @ ''deo em nenhum formato suportado.\<newline>'']) ext"
    by (simp add: download_video_loop_eq failure_log_lines line_defs)
next
  assume r: "reached (protools_results svc s op ff url fmts) (length fmts)"
  have rs: "protools_results svc s op ff url fmts =
      attempt_results svc (length (service_calls s)) (mk_opts (protools_text op ff)) url fmts"
    by (simp add: protools_results_def)
  note g = fallback_exhausted [OF rs r]
  from g show "fst (download_video_protools_loop svc url op ff fmts s) = None"
    by (simp add: download_video_protools_loop_eq)
  from g show "service_calls (snd (download_video_protools_loop svc url op ff fmts s)) =
        service_calls s @ map (protools_opts op ff) fmts"
    by (simp add: download_video_protools_loop_eq)
  from g show "last (stdout (snd (download_video_protools_loop svc url op ff fmts s))) =
        protools_exhausted_line @ NL"
    by (simp add: download_video_protools_loop_eq)
  from g show "\<exists>ext. stdout (snd (download_video_protools_loop svc url op ff fmts s)) = stdout s @ ext \<and>
         subseq (failure_log protools_try_line protools_failed_line fmts
                   (protools_results svc s op ff url fmts)
                 @ [protools_exhausted_line @ NL]) ext"
    by (simp add: download_video_protools_loop_eq)
  from g have c: "service_calls (snd (download_video_protools_loop svc url op ff fmts s)) =
        service_calls s @ map (protools_opts op ff) fmts"
    by (simp add: download_video_protools_loop_eq)
  show "map format (service_calls (snd (download_video_protools_loop svc url op ff fmts s))) =
        map format (service_calls s) @ fmts"
    unfolding c by (simp add: protools_opts_def comp_def)
  from g show "last (stdout (snd (download_video_protools_loop svc url op ff fmts s))) =
        [CHR 0xE2, CHR 0x9D, CHR 0x8C] @ '' N'' @ [CHR 0xC3, CHR 0xA3] @ ''o foi poss'' @ [CHR 0xC3, CHR 0xAD]
               @ ''vel baixar/convert'' @ [CHR 0xC3, CHR 0xAA] @ ''-lo para Pro Tools.\<newline>''"
    by (simp add: download_video_protools_loop_eq line_defs)
  from g show "\<exists>ext. stdout (snd (download_video_protools_loop svc url op ff fmts s)) = stdout s @ ext \<and>
         subseq (failure_lines
                   (\<lambda>fmt. ''\<newline>'' @ [CHR 0xE2, CHR 0x8F, CHR 0xB3] @ '' Formato PT: '' @ fmt @ ''\<newline>'')
                   (\<lambda>fmt e. [CHR 0xE2, CHR 0x9A, CHR 0xA0, CHR 0xEF, CHR 0xB8, CHR 0x8F]
                       @ '' Falhou formato '' @ [CHR 0x27] @ fmt @ [CHR 0x27] @ '': ''
                       @ message e @ ''\<newline>'')
                   fmts (protools_results svc s op ff url fmts)
                 @ [[CHR 0xE2, CHR 0x9D, CHR 0x8C] @ '' N'' @ [CHR 0xC3, CHR 0xA3] @ ''o foi poss'' @ [CHR 0xC3, CHR 0xAD]
               @ ''vel baixar/convert'' @ [CHR 0xC3, CHR 0xAA] @ ''-lo para Pro Tools.\<newline>'']) ext"
    by (simp add: download_video_protools_loop_eq failure_log_lines line_defs)
qed

theorem exhaustion_after_all_attempts_witness:
  "reached (video_results svc_unavailable init_state ''/out'' None ''u'' format_attempts)
     (length format_attempts) \<and>
   fst (download_video svc_unavailable ''u'' ''/out'' None init_state) = None \<and>
   service_calls (snd (download_video svc_unavailable ''u'' ''/out'' None init_state)) =
     map (video_opts ''/out'' None) format_attempts \<and>
   last (stdout (snd (download_video svc_unavailable ''u'' ''/out'' None init_state))) =
     video_exhausted_line @ NL \<and>
   subseq [video_try_line (format_attempts ! 0) @ NL, video_failed_line format_unavailable @ NL,
           video_try_line (format_attempts ! 1) @ NL, video_failed_line format_unavailable @ NL,
           video_try_line (format_attempts ! 2) @ NL, video_failed_line format_unavailable @ NL,
           video_exhausted_line @ NL]
     (stdout (snd (download_video svc_unavailable ''u'' ''/out'' None init_state))) \<and>
   reached (protools_results svc_unavailable init_state ''/out'' None ''u'' base_formats)
     (length base_formats) \<and>
   fst (download_video_protools svc_unavailable ''u'' ''/out'' None init_state) = None \<and>
   service_calls (snd (download_video_protools svc_unavailable ''u'' ''/out'' None init_state)) =
     map (protools_opts ''/out'' None) base_formats \<and>
   last (stdout (snd (download_video_protools svc_unavailable ''u'' ''/out'' None init_state))) =
     protools_exhausted_line @ NL \<and>
   subseq [protools_try_line (base_formats ! 0) @ NL,
           protools_failed_line (base_formats ! 0) format_unavailable @ NL,
           protools_try_line (base_formats ! 1) @ NL,
           protools_failed_line (base_formats ! 1) format_unavailable @ NL,
           protools_try_line (base_formats ! 2) @ NL,
           protools_failed_line (base_formats ! 2) format_unavailable @ NL,
           protools_exhausted_line @ NL]
     (stdout (snd (download_video_protools svc_unavailable ''u'' ''/out'' None init_state)))"
proof -
  have v: "reached (video_results svc_unavailable init_state ''/out'' None ''u'' format_attempts)
     (length format_attempts)"
    by (simp add: unavailable_results reached_def example_classes plan_lengths)
  have p: "reached (protools_results svc_unavailable init_state ''/out'' None ''u'' base_formats)
     (length base_formats)"
    by (simp add: unavailable_results reached_def example_classes plan_lengths)
  have fv: "failure_log video_try_line (\<lambda>fmt. video_failed_line) format_attempts
      [Some format_unavailable, Some format_unavailable, Some format_unavailable] =
      [video_try_line (format_attempts ! 0) @ NL, video_failed_line format_unavailable @ NL,
       video_try_line (format_attempts ! 1) @ NL, video_failed_line format_unavailable @ NL,
       video_try_line (format_attempts ! 2) @ NL, video_failed_line format_unavailable @ NL]"
    by (simp add: format_attempts_def)
  have fp: "failure_log protools_try_line protools_failed_line base_formats
      [Some format_unavailable, Some format_unavailable, Some format_unavailable] =
      [protools_try_line (base_formats ! 0) @ NL,
       protools_failed_line (base_formats ! 0) format_unavailable @ NL,
       protools_try_line (base_formats ! 1) @ NL,
       protools_failed_line (base_formats ! 1) format_unavailable @ NL,
       protools_try_line (base_formats ! 2) @ NL,
       protools_failed_line (base_formats ! 2) format_unavailable @ NL]"
    by (simp add: base_formats_def)
  have st: "stdout init_state = []" by (simp add: init_state_def)
  from exhaustion_after_all_attempts [of svc_unavailable init_state "''/out''" None "''u''" format_attempts]
       exhaustion_after_all_attempts [of svc_unavailable init_state "''/out''" None "''u''" base_formats]
       v p
  show ?thesis
    by (simp add: download_video_def download_video_protools_def service_calls_init
        unavailable_results fv fp st)
qed

text \<open>
  C6, as stated, fails: with no format available, the final report of \<open>download_video\<close>
  and of \<open>download_video_protools\<close> is the fixed line, and neither the first selector of
  the plan nor the reason of the failure occurs in it.
\<close>

theorem exhaustion_report_names_nothing_counterexample:
  "last (stdout (snd (download_video svc_unavailable ''u'' ''/out'' None init_state))) =
     video_exhausted_line @ NL \<and>
   \<not> sublist (format_attempts ! 0) (video_exhausted_line @ NL) \<and>
   \<not> sublist (message format_unavailable) (video_exhausted_line @ NL) \<and>
   last (stdout (snd (download_video_protools svc_unavailable ''u'' ''/out'' None init_state))) =
     protools_exhausted_line @ NL \<and>
   \<not> sublist (base_formats ! 0) (protools_exhausted_line @ NL) \<and>
   \<not> sublist (message format_unavailable) (protools_exhausted_line @ NL)"
proof -
  have rv: "video_results svc_unavailable init_state ''/out'' None ''u'' format_attempts =
      attempt_results svc_unavailable (length (service_calls init_state))
        (mk_opts (video_text ''/out'' None)) ''u'' format_attempts"
    by (simp add: video_results_def)
  have v: "reached (video_results svc_unavailable init_state ''/out'' None ''u'' format_attempts)
     (length format_attempts)"
    by (simp add: unavailable_results reached_def example_classes plan_lengths)
  have rp: "protools_results svc_unavailable init_state ''/out'' None ''u'' base_formats =
      attempt_results svc_unavailable (length (service_calls init_state))
        (mk_opts (protools_text ''/out'' None)) ''u'' base_formats"
    by (simp add: protools_results_def)
  have p: "reached (protools_results svc_unavailable init_state ''/out'' None ''u'' base_formats)
     (length base_formats)"
    by (simp add: unavailable_results reached_def example_classes plan_lengths)
  have a: "last (stdout (snd (download_video svc_unavailable ''u'' ''/out'' None init_state))) =
     video_exhausted_line @ NL"
    using fallback_exhausted [OF rv v]
    by (simp add: download_video_def download_video_loop_eq)
  have b: "last (stdout (snd (download_video_protools svc_unavailable ''u'' ''/out'' None init_state))) =
     protools_exhausted_line @ NL"
    using fallback_exhausted [OF rp p]
    by (simp add: download_video_protools_def download_video_protools_loop_eq)
  have c: "\<not> sublist (format_attempts ! 0) (video_exhausted_line @ NL)" by code_simp
  have d: "\<not> sublist (message format_unavailable) (video_exhausted_line @ NL)" by code_simp
  have e: "\<not> sublist (base_formats ! 0) (protools_exhausted_line @ NL)" by code_simp
  have f: "\<not> sublist (message format_unavailable) (protools_exhausted_line @ NL)" by code_simp
  from a b c d e f show ?thesis by blast
qed

text \<open>
  C7. Starting and stopping the spinner are idempotent. In every state that satisfies
  the invariant of the coordinator (those the program reaches), \<open>start_spinner\<close> while
  running changes nothing, two calls of \<open>start_spinner\<close> in a row do what one does and
  leave exactly one live renderer thread, having created one thread if the spinner was
  idle and none if it was running, and \<open>stop_spinner\<close> while idle changes nothing: it
  does not raise and prints nothing.
\<close>

theorem spinner_start_stop_idempotent:
  "coordinator_ok s \<Longrightarrow>
     (spinner_running s \<longrightarrow> start_spinner s = s) \<and>
     start_spinner (start_spinner s) = start_spinner s \<and>
     length (threads (start_spinner (start_spinner s))) = 1 \<and>
     thread_count (start_spinner (start_spinner s)) =
       (if spinner_running s then thread_count s else Suc (thread_count s)) \<and>
     (\<not> spinner_running s \<longrightarrow> stop_spinner s = s)"
  by (auto simp: coordinator_ok_def start_spinner_def stop_spinner_def
           split: option.splits if_splits)

theorem spinner_start_stop_idempotent_witness:
  "coordinator_ok init_state \<and> \<not> spinner_running init_state \<and>
   start_spinner (start_spinner init_state) = start_spinner init_state \<and>
   length (threads (start_spinner (start_spinner init_state))) = 1 \<and>
   thread_count (start_spinner (start_spinner init_state)) = 1 \<and>
   stop_spinner init_state = init_state \<and>
   coordinator_ok (start_spinner init_state) \<and> spinner_running (start_spinner init_state) \<and>
   start_spinner (start_spinner init_state) = start_spinner init_state \<and>
   thread_count (start_spinner (start_spinner (start_spinner init_state))) = 1"
proof -
  have a: "coordinator_ok init_state" by (rule coordinator_ok_init)
  have b: "coordinator_ok (start_spinner init_state)" by (rule coordinator_ok_start [OF a])
  have c: "\<not> spinner_running init_state" by (simp add: init_state_def)
  have d: "spinner_running (start_spinner init_state)"
    by (simp add: init_state_def start_spinner_def)
  have e: "thread_count init_state = 0" by (simp add: init_state_def)
  have f: "thread_count (start_spinner init_state) = 1"
    by (simp add: init_state_def start_spinner_def)
  from spinner_start_stop_idempotent [OF a] spinner_start_stop_idempotent [OF b] a b c d e f
  show ?thesis by simp
qed




text \<open>
  C9. Whenever \<open>stop_spinner\<close> is called while the spinner is running, it clears the
  flag, joins the renderer thread and then prints one line: carriage return, the escape
  sequence for green, the check mark (U+2714), \<open>FESHOW!!!\<close>, the reset sequence and
  sixteen blanks. It takes no argument and reads nothing about the operation around it, so
  the line is printed whether that operation succeeded or failed (lemma
  \<open>failed_operation_prints_success_mark\<close> shows it in a download that fails).
\<close>

theorem stop_spinner_prints_success_mark:
  "spinner_running s \<Longrightarrow>
     stdout (stop_spinner s) =
       stdout s @ [[CHR 0x0D, CHR 0x1B] @ ''[1;32m'' @ [CHR 0xE2, CHR 0x9C, CHR 0x94]
                   @ '' FESHOW!!!'' @ [CHR 0x1B] @ ''[0m                \<newline>''] \<and>
     \<not> spinner_running (stop_spinner s) \<and>
     (case spinner_thread s of None \<Rightarrow> True | Some t \<Rightarrow> t \<notin> set (threads (stop_spinner s)))"
  by (auto simp: stop_spinner_def print_line_def Let_def line_defs split: option.splits)

theorem stop_spinner_prints_success_mark_witness:
  "spinner_running (start_spinner init_state) \<and>
   stdout (stop_spinner (start_spinner init_state)) =
     [[CHR 0x0D, CHR 0x1B] @ ''[1;32m'' @ [CHR 0xE2, CHR 0x9C, CHR 0x94]
      @ '' FESHOW!!!'' @ [CHR 0x1B] @ ''[0m                \<newline>''] \<and>
   \<not> spinner_running (stop_spinner (start_spinner init_state)) \<and>
   threads (stop_spinner (start_spinner init_state)) = []"
proof -
  have a: "spinner_running (start_spinner init_state)"
    by (simp add: init_state_def start_spinner_def)
  have b: "stdout (start_spinner init_state) = []"
    by (simp add: init_state_def start_spinner_def)
  have c: "threads (stop_spinner (start_spinner init_state)) = []"
    by (simp add: init_state_def start_spinner_def stop_spinner_def print_line_def)
  from stop_spinner_prints_success_mark [OF a] a b c show ?thesis by simp
qed

text \<open>
  C10. The download functions are total with respect to the errors of the service. If
  whatever the service raises is an \<open>Exception\<close> (\<open>raises_only_Exceptions\<close>), then
  \<open>download_audio\<close>, \<open>download_video\<close> and \<open>download_video_protools\<close> return normally,
  from every state, and each exception of an attempt that was made is reported with its
  text: \<open>download_audio\<close> prints, as its last line, an empty line and then the cross
  mark, \<open>Erro durante o download de audio:\<close> (with a-acute) and the text of the
  exception; \<open>download_video\<close> prints the warning sign, \<open>Falhou:\<close> and the text for a
  \<open>DownloadError\<close>; \<open>download_video_protools\<close> prints the warning sign,
  \<open>Falhou formato\<close>, the selector in quotes and the text for a \<open>DownloadError\<close>; both
  loops print the cross mark, \<open>Erro inesperado:\<close> and the text for any other exception.
\<close>

theorem downloads_catch_every_Exception:
  assumes only: "raises_only_Exceptions svc url"
  shows "fst (download_audio svc url op ff s) = None \<and>
         fst (download_video svc url op ff s) = None \<and>
         fst (download_video_protools svc url op ff s) = None \<and>
         (\<forall>e. attempt_result svc (length (service_calls s)) (audio_opts op ff) url = Some e \<longrightarrow>
              last (stdout (snd (download_audio svc url op ff s))) =
                ''\<newline>'' @ [CHR 0xE2, CHR 0x9D, CHR 0x8C] @ '' Erro durante o download de ''
                @ [CHR 0xC3, CHR 0xA1] @ ''udio: '' @ message e @ ''\<newline>'') \<and>
         (\<forall>k e. k < length format_attempts \<and>
                reached (video_results svc s op ff url format_attempts) k \<and>
                video_results svc s op ff url format_attempts ! k = Some e \<longrightarrow>
              (if isinstance_DownloadError e
               then [CHR 0xE2, CHR 0x9A, CHR 0xA0, CHR 0xEF, CHR 0xB8, CHR 0x8F] @ '' Falhou: ''
                    @ message e @ ''\<newline>''
               else [CHR 0xE2, CHR 0x9D, CHR 0x8C] @ '' Erro inesperado: '' @ message e
                    @ ''\<newline>'')
                \<in> set (stdout (snd (download_video svc url op ff s)))) \<and>
         (\<forall>k e. k < length base_formats \<and>
                reached (protools_results svc s op ff url base_formats) k \<and>
                protools_results svc s op ff url base_formats ! k = Some e \<longrightarrow>
              (if isinstance_DownloadError e
               then [CHR 0xE2, CHR 0x9A, CHR 0xA0, CHR 0xEF, CHR 0xB8, CHR 0x8F]
                    @ '' Falhou formato '' @ [CHR 0x27] @ base_formats ! k @ [CHR 0x27] @ '': ''
                    @ message e @ ''\<newline>''
               else [CHR 0xE2, CHR 0x9D, CHR 0x8C] @ '' Erro inesperado: '' @ message e
                    @ ''\<newline>'')
                \<in> set (stdout (snd (download_video_protools svc url op ff s))))"
proof -
  have assms: "\<forall>n opts e. snd (svc n opts url) = Some e \<longrightarrow> isinstance_Exception e"
  proof (intro allI impI)
    fix n opts e
    assume "snd (svc n opts url) = Some e"
    with only [unfolded raises_only_Exceptions_def, rule_format, of n opts]
    show "isinstance_Exception e" by simp
  qed
  show ?thesis
  proof (intro conjI allI impI)
    show "fst (download_audio svc url op ff s) = None"
    proof (cases "attempt_result svc (length (service_calls s)) (audio_opts op ff) url")
      case None
      then show ?thesis by (simp add: download_audio_fst)
    next
      case (Some e)
      from attempt_result_Exception [OF assms Some] Some show ?thesis
        by (simp add: download_audio_fst)
    qed
  next
    from fallback_loop_total [where svc = svc and url = url and L = "video_text op ff"
        and fmts = format_attempts and s = s] assms
    show "fst (download_video svc url op ff s) = None"
      by (simp add: download_video_def download_video_loop_eq)
  next
    from fallback_loop_total [where svc = svc and url = url and L = "protools_text op ff"
        and fmts = base_formats and s = s] assms
    show "fst (download_video_protools svc url op ff s) = None"
      by (simp add: download_video_protools_def download_video_protools_loop_eq)
  next
    fix e
    assume a: "attempt_result svc (length (service_calls s)) (audio_opts op ff) url = Some e"
    from download_audio_reports [OF a attempt_result_Exception [OF assms a]]
    show "last (stdout (snd (download_audio svc url op ff s))) =
            ''\<newline>'' @ [CHR 0xE2, CHR 0x9D, CHR 0x8C] @ '' Erro durante o download de ''
            @ [CHR 0xC3, CHR 0xA1] @ ''udio: '' @ message e @ ''\<newline>''"
      by (simp add: line_defs)
  next
    fix k e
    assume a: "k < length format_attempts \<and>
               reached (video_results svc s op ff url format_attempts) k \<and>
               video_results svc s op ff url format_attempts ! k = Some e"
    have rs: "video_results svc s op ff url format_attempts =
        attempt_results svc (length (service_calls s)) (mk_opts (video_text op ff)) url format_attempts"
      by (simp add: video_results_def)
    from a have k: "k < length format_attempts"
      and r: "reached (video_results svc s op ff url format_attempts) k"
      and e: "video_results svc s op ff url format_attempts ! k = Some e" by simp_all
    from e k have "attempt_result svc (length (service_calls s) + k)
        (video_opts op ff (format_attempts ! k)) url = Some e"
      by (simp add: video_results_def attempt_results_nth)
    from attempt_result_Exception [OF assms this] have ex: "isinstance_Exception e" .
    from fallback_loop_reports [OF k rs r e ex]
    have "(if isinstance_DownloadError e then video_failed_line e else unexpected_line e) @ NL
            \<in> set (stdout (snd (download_video svc url op ff s)))"
      by (simp add: download_video_def download_video_loop_eq cong: if_cong)
    then show "(if isinstance_DownloadError e
               then [CHR 0xE2, CHR 0x9A, CHR 0xA0, CHR 0xEF, CHR 0xB8, CHR 0x8F] @ '' Falhou: ''
                    @ message e @ ''\<newline>''
               else [CHR 0xE2, CHR 0x9D, CHR 0x8C] @ '' Erro inesperado: '' @ message e
                    @ ''\<newline>'')
                \<in> set (stdout (snd (download_video svc url op ff s)))"
      by (simp add: line_defs split: if_splits)
  next
    fix k e
    assume a: "k < length base_formats \<and>
               reached (protools_results svc s op ff url base_formats) k \<and>
               protools_results svc s op ff url base_formats ! k = Some e"
    have rs: "protools_results svc s op ff url base_formats =
        attempt_results svc (length (service_calls s)) (mk_opts (protools_text op ff)) url base_formats"
      by (simp add: protools_results_def)
    from a have k: "k < length base_formats"
      and r: "reached (protools_results svc s op ff url base_formats) k"
      and e: "protools_results svc s op ff url base_formats ! k = Some e" by simp_all
    from e k have "attempt_result svc (length (service_calls s) + k)
        (protools_opts op ff (base_formats ! k)) url = Some e"
      by (simp add: protools_results_def attempt_results_nth)
    from attempt_result_Exception [OF assms this] have ex: "isinstance_Exception e" .
    from fallback_loop_reports [OF k rs r e ex]
    have "(if isinstance_DownloadError e then protools_failed_line (base_formats ! k) e
           else unexpected_line e) @ NL
            \<in> set (stdout (snd (download_video_protools svc url op ff s)))"
      by (simp add: download_video_protools_def download_video_protools_loop_eq cong: if_cong)
    then show "(if isinstance_DownloadError e
               then [CHR 0xE2, CHR 0x9A, CHR 0xA0, CHR 0xEF, CHR 0xB8, CHR 0x8F]
                    @ '' Falhou formato '' @ [CHR 0x27] @ base_formats ! k @ [CHR 0x27] @ '': ''
                    @ message e @ ''\<newline>''
               else [CHR 0xE2, CHR 0x9D, CHR 0x8C] @ '' Erro inesperado: '' @ message e
                    @ ''\<newline>'')
                \<in> set (stdout (snd (download_video_protools svc url op ff s)))"
      by (simp add: line_defs split: if_splits)
  qed
qed

theorem downloads_catch_every_Exception_witness:
  "raises_only_Exceptions svc_crash_on_second ''u'' \<and>
   fst (download_audio svc_crash_on_second ''u'' ''/out'' None init_state) = None \<and>
   fst (download_video svc_crash_on_second ''u'' ''/out'' None init_state) = None \<and>
   fst (download_video_protools svc_crash_on_second ''u'' ''/out'' None init_state) = None \<and>
   last (stdout (snd (download_audio svc_crash_on_second ''u'' ''/out'' None init_state))) =
     ''\<newline>'' @ [CHR 0xE2, CHR 0x9D, CHR 0x8C] @ '' Erro durante o download de ''
     @ [CHR 0xC3, CHR 0xA1] @ ''udio: ERROR: Requested format is not available\<newline>'' \<and>
   [CHR 0xE2, CHR 0x9A, CHR 0xA0, CHR 0xEF, CHR 0xB8, CHR 0x8F]
     @ '' Falhou: ERROR: Requested format is not available\<newline>''
     \<in> set (stdout (snd (download_video svc_crash_on_second ''u'' ''/out'' None init_state))) \<and>
   [CHR 0xE2, CHR 0x9D, CHR 0x8C] @ '' Erro inesperado: [Errno 8] Exec format error\<newline>''
     \<in> set (stdout (snd (download_video svc_crash_on_second ''u'' ''/out'' None init_state))) \<and>
   [CHR 0xE2, CHR 0x9A, CHR 0xA0, CHR 0xEF, CHR 0xB8, CHR 0x8F] @ '' Falhou formato ''
     @ [CHR 0x27] @ ''bv*[vcodec^=avc1][ext=mp4][height<=1080]+ba[ext=m4a]'' @ [CHR 0x27]
     @ '': ERROR: Requested format is not available\<newline>''
     \<in> set (stdout (snd (download_video_protools svc_crash_on_second ''u'' ''/out'' None init_state))) \<and>
   [CHR 0xE2, CHR 0x9D, CHR 0x8C] @ '' Erro inesperado: [Errno 8] Exec format error\<newline>''
     \<in> set (stdout (snd (download_video_protools svc_crash_on_second ''u'' ''/out'' None init_state)))"
proof -
  have h: "raises_only_Exceptions svc_crash_on_second ''u''"
    by (simp add: raises_only_Exceptions_def svc_crash_on_second_def example_classes)
  have a: "attempt_result svc_crash_on_second (length (service_calls init_state))
             (audio_opts ''/out'' None) ''u'' = Some format_unavailable"
    by (simp add: attempt_result_def svc_crash_on_second_def init_state_def)
  have l: "0 < length format_attempts" "Suc 0 < length format_attempts"
    "0 < length base_formats" "Suc 0 < length base_formats"
    by (simp_all add: plan_lengths)
  have v: "reached (video_results svc_crash_on_second init_state ''/out'' None ''u'' format_attempts) 0"
    "video_results svc_crash_on_second init_state ''/out'' None ''u'' format_attempts ! 0 =
       Some format_unavailable"
    "reached (video_results svc_crash_on_second init_state ''/out'' None ''u'' format_attempts) (Suc 0)"
    "video_results svc_crash_on_second init_state ''/out'' None ''u'' format_attempts ! Suc 0 =
       Some engine_crash"
    by (simp_all add: crash_on_second_results reached_def example_classes)
  have p: "reached (protools_results svc_crash_on_second init_state ''/out'' None ''u'' base_formats) 0"
    "protools_results svc_crash_on_second init_state ''/out'' None ''u'' base_formats ! 0 =
       Some format_unavailable"
    "reached (protools_results svc_crash_on_second init_state ''/out'' None ''u'' base_formats) (Suc 0)"
    "protools_results svc_crash_on_second init_state ''/out'' None ''u'' base_formats ! Suc 0 =
       Some engine_crash"
    by (simp_all add: crash_on_second_results reached_def example_classes)
  have m: "message format_unavailable = ''ERROR: Requested format is not available''"
    "message engine_crash = ''[Errno 8] Exec format error''"
    "base_formats ! 0 = ''bv*[vcodec^=avc1][ext=mp4][height<=1080]+ba[ext=m4a]''"
    by (simp_all add: format_unavailable_def engine_crash_def base_formats_def)
  have c: "isinstance_DownloadError format_unavailable" "\<not> isinstance_DownloadError engine_crash"
    by (simp_all add: example_classes)
  note t = downloads_catch_every_Exception [where svc = svc_crash_on_second and url = "''u''"
      and op = "''/out''" and ff = None and s = init_state, OF h]
  from t have f: "fst (download_audio svc_crash_on_second ''u'' ''/out'' None init_state) = None"
    "fst (download_video svc_crash_on_second ''u'' ''/out'' None init_state) = None"
    "fst (download_video_protools svc_crash_on_second ''u'' ''/out'' None init_state) = None"
    by simp_all
  from t have ta: "\<forall>e. attempt_result svc_crash_on_second (length (service_calls init_state))
          (audio_opts ''/out'' None) ''u'' = Some e \<longrightarrow>
        last (stdout (snd (download_audio svc_crash_on_second ''u'' ''/out'' None init_state))) =
          ''\<newline>'' @ [CHR 0xE2, CHR 0x9D, CHR 0x8C] @ '' Erro durante o download de ''
          @ [CHR 0xC3, CHR 0xA1] @ ''udio: '' @ message e @ ''\<newline>''"
    by blast
  from ta [rule_format, OF a] m(1)
  have au: "last (stdout (snd (download_audio svc_crash_on_second ''u'' ''/out'' None init_state))) =
     ''\<newline>'' @ [CHR 0xE2, CHR 0x9D, CHR 0x8C] @ '' Erro durante o download de ''
     @ [CHR 0xC3, CHR 0xA1] @ ''udio: ERROR: Requested format is not available\<newline>''"
    by simp
  from t have tv: "\<forall>k e. k < length format_attempts \<and>
        reached (video_results svc_crash_on_second init_state ''/out'' None ''u'' format_attempts) k \<and>
        video_results svc_crash_on_second init_state ''/out'' None ''u'' format_attempts ! k = Some e \<longrightarrow>
        (if isinstance_DownloadError e
         then [CHR 0xE2, CHR 0x9A, CHR 0xA0, CHR 0xEF, CHR 0xB8, CHR 0x8F] @ '' Falhou: ''
              @ message e @ ''\<newline>''
         else [CHR 0xE2, CHR 0x9D, CHR 0x8C] @ '' Erro inesperado: '' @ message e @ ''\<newline>'')
        \<in> set (stdout (snd (download_video svc_crash_on_second ''u'' ''/out'' None init_state)))"
    by blast
  from tv [rule_format, of 0 format_unavailable] l(1) v(1,2) c(1) m(1)
  have v0: "[CHR 0xE2, CHR 0x9A, CHR 0xA0, CHR 0xEF, CHR 0xB8, CHR 0x8F]
     @ '' Falhou: ERROR: Requested format is not available\<newline>''
     \<in> set (stdout (snd (download_video svc_crash_on_second ''u'' ''/out'' None init_state)))"
    by simp
  from tv [rule_format, of "Suc 0" engine_crash] l(2) v(3,4) c(2) m(2)
  have v1: "[CHR 0xE2, CHR 0x9D, CHR 0x8C] @ '' Erro inesperado: [Errno 8] Exec format error\<newline>''
     \<in> set (stdout (snd (download_video svc_crash_on_second ''u'' ''/out'' None init_state)))"
    by simp
  from t have tp: "\<forall>k e. k < length base_formats \<and>
        reached (protools_results svc_crash_on_second init_state ''/out'' None ''u'' base_formats) k \<and>
        protools_results svc_crash_on_second init_state ''/out'' None ''u'' base_formats ! k = Some e \<longrightarrow>
        (if isinstance_DownloadError e
         then [CHR 0xE2, CHR 0x9A, CHR 0xA0, CHR 0xEF, CHR 0xB8, CHR 0x8F]
              @ '' Falhou formato '' @ [CHR 0x27] @ base_formats ! k @ [CHR 0x27] @ '': ''
              @ message e @ ''\<newline>''
         else [CHR 0xE2, CHR 0x9D, CHR 0x8C] @ '' Erro inesperado: '' @ message e @ ''\<newline>'')
        \<in> set (stdout (snd (download_video_protools svc_crash_on_second ''u'' ''/out'' None init_state)))"
    by blast
  from tp [rule_format, of 0 format_unavailable] l(3) p(1,2) c(1) m(1,3)
  have p0: "[CHR 0xE2, CHR 0x9A, CHR 0xA0, CHR 0xEF, CHR 0xB8, CHR 0x8F] @ '' Falhou formato ''
     @ [CHR 0x27] @ ''bv*[vcodec^=avc1][ext=mp4][height<=1080]+ba[ext=m4a]'' @ [CHR 0x27]
     @ '': ERROR: Requested format is not available\<newline>''
     \<in> set (stdout (snd (download_video_protools svc_crash_on_second ''u'' ''/out'' None init_state)))"
    by simp
  from tp [rule_format, of "Suc 0" engine_crash] l(4) p(3,4) c(2) m(2)
  have p1: "[CHR 0xE2, CHR 0x9D, CHR 0x8C] @ '' Erro inesperado: [Errno 8] Exec format error\<newline>''
     \<in> set (stdout (snd (download_video_protools svc_crash_on_second ''u'' ''/out'' None init_state)))"
    by simp
  from h f au v0 v1 p0 p1 show ?thesis by blast
qed

end
